theory Spec2Isabelle
  imports Complex_Main
begin

section \<open>core/math\<close>

text \<open>
  JavaScript numbers are modelled as \<^typ>\<open>real\<close> for positions, velocities and timers and
  as \<^typ>\<open>int\<close> for counters and indices; rounding of IEEE doubles and NaN are outside the
  model. \<^verbatim>\<open>Math.max\<close> and \<^verbatim>\<open>Math.min\<close> are \<^const>\<open>max\<close> and \<^const>\<open>min\<close>.
\<close>

definition clamp :: "'a::linorder \<Rightarrow> 'a \<Rightarrow> 'a \<Rightarrow> 'a" where
  "clamp v mn mx = max mn (min mx v)"

record rect =
  r_x :: real
  r_y :: real
  r_w :: real
  r_h :: real

definition rectFromCenterBottom :: "real \<Rightarrow> real \<Rightarrow> real \<Rightarrow> real \<Rightarrow> rect" where
  "rectFromCenterBottom centerX bottomY w h =
     \<lparr> r_x = centerX - w / 2, r_y = bottomY - h, r_w = w, r_h = h \<rparr>"

definition aabbIntersects :: "rect \<Rightarrow> rect \<Rightarrow> bool" where
  "aabbIntersects a b \<longleftrightarrow>
     r_x a < r_x b + r_w b \<and> r_x a + r_w a > r_x b \<and>
     r_y a < r_y b + r_h b \<and> r_y a + r_h a > r_y b"

text \<open>The remainder operator \<^verbatim>\<open>%\<close> on integers: the result has the sign of the dividend.\<close>

definition js_rem :: "int \<Rightarrow> int \<Rightarrow> int" where
  "js_rem a b = sgn a * (\<bar>a\<bar> mod \<bar>b\<bar>)"

section \<open>core/constants\<close>

definition gravity :: real where "gravity = 0.21875"
definition terminalVel :: real where "terminalVel = 16"
definition topSpeed :: real where "topSpeed = 6"
definition jumpVel :: real where "jumpVel = 6.5"
definition jumpCutMultiplier :: real where "jumpCutMultiplier = 0.5"
definition coyoteSeconds :: real where "coyoteSeconds = 6 / 60"

section \<open>game/player\<close>

text \<open>
  The fields of \<^verbatim>\<open>class Player\<close>, in the order of its constructor; \<open>p_y\<close> is the bottom of
  the collision volume. \<open>justLaunchedSpring\<close> is the flag \<^verbatim>\<open>_justLaunchedSpring\<close> that the
  level sets on the player object.
\<close>

record player =
  p_x :: real
  p_y :: real
  spawnX :: real
  spawnY :: real
  vx :: real
  vy :: real
  grounded :: bool
  coyoteUntil :: real
  rolling :: bool
  rings :: int
  score :: int
  lives :: int
  invuln :: real
  jumpsRemaining :: int
  hasGunPower :: bool
  gunCooldown :: real
  powerFlash :: real
  shootFlash :: real
  comboCount :: int
  comboTimer :: real
  hasShieldPower :: bool
  shieldActive :: bool
  shieldHits :: int
  shieldMaxHits :: int
  shieldShatter :: real
  springLaunchTimer :: real
  facing :: int
  isBig :: bool
  growthTransformTimer :: real
  magnetTimer :: real
  justLaunchedSpring :: bool

definition new_player :: "real \<Rightarrow> real \<Rightarrow> player" where
  "new_player x0 y0 =
     \<lparr> p_x = x0, p_y = y0, spawnX = x0, spawnY = y0, vx = 0, vy = 0, grounded = False,
       coyoteUntil = 0, rolling = False, rings = 0, score = 0, lives = 5, invuln = 0,
       jumpsRemaining = 2, hasGunPower = False, gunCooldown = 0, powerFlash = 0,
       shootFlash = 0, comboCount = 0, comboTimer = 0, hasShieldPower = False,
       shieldActive = False, shieldHits = 0, shieldMaxHits = 5, shieldShatter = 0,
       springLaunchTimer = 0, facing = 1, isBig = False, growthTransformTimer = 0,
       magnetTimer = 0, justLaunchedSpring = False \<rparr>"

definition respawn :: "real \<Rightarrow> real \<Rightarrow> player \<Rightarrow> player" where
  "respawn x0 y0 p =
     p\<lparr> p_x := x0, p_y := y0, vx := 0, vy := 0, grounded := False, coyoteUntil := 0,
        rolling := False, invuln := 0, jumpsRemaining := 2, hasGunPower := False,
        gunCooldown := 0, powerFlash := 0, shootFlash := 0, comboCount := 0,
        comboTimer := 0, hasShieldPower := False, shieldActive := False, shieldHits := 0,
        shieldShatter := 0, springLaunchTimer := 0, isBig := False,
        growthTransformTimer := 0, magnetTimer := 0 \<rparr>"

definition setSpawn :: "real \<Rightarrow> real \<Rightarrow> player \<Rightarrow> player" where
  "setSpawn x0 y0 p = p\<lparr> spawnX := x0, spawnY := y0 \<rparr>"

text \<open>
  \<^verbatim>\<open>takeHit(knockDir)\<close>: the early returns of the source are the branches of the
  conditional, in the source's order. Sounds are not part of the state.
\<close>

definition takeHit :: "real \<Rightarrow> player \<Rightarrow> player" where
  "takeHit knockDir p =
     (if invuln p > 0 then p
      else if shieldActive p \<and> hasShieldPower p then
        (let p1 = p\<lparr> shieldHits := shieldHits p + 1 \<rparr>
         in if shieldHits p1 \<ge> shieldMaxHits p1
            then p1\<lparr> shieldActive := False, shieldShatter := 0.5 \<rparr>
            else p1)
      else if rings p > 0 then
        p\<lparr> rings := 0, invuln := 1.0, vx := - knockDir * 2.5, vy := - 4.5,
           grounded := False \<rparr>
      else if isBig p then
        p\<lparr> isBig := False, invuln := 1.2, vx := - knockDir * 3, vy := - 5,
           grounded := False \<rparr>
      else
        (let p1 = p\<lparr> lives := lives p - 1 \<rparr>;
             p2 = p1\<lparr> invuln := 1.0 \<rparr>
         in respawn (spawnX p2) (spawnY p2) p2))"

definition addComboScore :: "real \<Rightarrow> player \<Rightarrow> player" where
  "addComboScore base p =
     (let nowCombo = (if comboTimer p > 0 then comboCount p + 1 else 1);
          mult = 1 + (real_of_int nowCombo - 1) * 0.5
      in p\<lparr> comboCount := nowCombo, comboTimer := 1.5,
            score := score p + \<lfloor>base * mult\<rfloor> \<rparr>)"

definition getHitbox :: "player \<Rightarrow> rect" where
  "getHitbox p =
     (let w = (if isBig p then 20 else 16);
          h = (if isBig p then 40 else 28)
      in if rolling p then
           (let rw = (if isBig p then 30 else 24);
                rh = (if isBig p then 30 else 24)
            in rectFromCenterBottom (p_x p) (p_y p) rw rh)
         else rectFromCenterBottom (p_x p) (p_y p) w h)"

section \<open>Level data\<close>

text \<open>
  The object literals of \<^verbatim>\<open>class Level\<close> as records. Fields that only drive drawing
  (clouds, coin animation phase, muzzle flash, the boss's hit particles, which are
  seeded by \<^verbatim>\<open>Math.random\<close>) are left out.
\<close>

datatype box_type = Coin | Power_green | Power_blue | Growth

record box =
  bx_x :: real
  bx_y :: real
  bx_w :: real
  bx_h :: real
  bx_type :: box_type
  used :: bool
  bounceAnim :: real

datatype spring_dir = Up | Diag_left | Diag_right

record spring =
  sp_x :: real
  sp_y :: real
  sp_w :: real
  sp_h :: real
  sp_dir :: spring_dir
  compress :: real

record coin =
  c_x :: real
  c_y :: real
  c_vx :: real
  c_vy :: real
  c_active :: bool
  c_static :: bool

record magnet_pickup =
  mp_x :: real
  mp_y :: real
  mp_collected :: bool
  mp_bob :: real

record power_pickup =
  pp_x :: real
  pp_y :: real
  pp_vy :: real
  pp_maxY :: real
  pp_type :: box_type
  pp_collected :: bool
  pp_bob :: real

record fruit =
  f_x :: real
  f_y :: real
  f_vy :: real
  f_maxY :: real
  f_collected :: bool
  f_bob :: real

text \<open>\<^verbatim>\<open>Enemy\<close> and \<^verbatim>\<open>BirdEnemy\<close> share one record; \<open>e_isFlying\<close> tells them apart.\<close>

record enemy =
  e_x :: real
  e_y :: real
  e_w :: real
  e_h :: real
  e_baseX :: real
  e_baseY :: real
  e_range :: real
  e_speed :: real
  e_amp :: real
  e_dir :: real
  e_t :: real
  e_alive :: bool
  e_hp :: real
  e_maxHp :: real
  e_hitTimer :: real
  e_deathTimer :: real
  e_isFlying :: bool

record boss =
  b_x :: real
  b_y :: real
  b_baseX :: real
  b_range :: real
  b_w :: real
  b_h :: real
  b_maxHp :: real
  b_hp :: real
  b_alive :: bool
  b_hurtTimer :: real
  b_deathTimer :: real
  b_dir :: real
  b_attackCooldown :: real
  b_attackInterval :: real

record bullet =
  bl_x :: real
  bl_y :: real
  bl_vx :: real
  bl_life :: real
  bl_dir :: real

record boss_attack =
  a_x :: real
  a_y :: real
  a_vx :: real
  a_vy :: real
  a_life :: real
  a_r :: real

datatype task_type =
  T_coins | T_flyingEnemies | T_groundEnemies | T_springsUsed | T_bothCoins
  | T_bossNoShield | T_timeLimit

text \<open>A task's target is \<open>None\<close> where the source reads an array out of range (\<^verbatim>\<open>undefined\<close>).\<close>

record task =
  t_id :: string
  t_type :: task_type
  t_target :: "int option"
  t_mandatory :: bool

record progress =
  coinsCollected :: int
  flyingKilled :: int
  flyingTotal :: int
  groundKilled :: int
  groundTotal :: int
  springsUsed :: int
  hasPowerCoin :: bool
  hasShieldCoin :: bool
  bossDefeatedNoShield :: bool
  startTime :: "real option"
  reachedGoal :: bool
  goalReachedTime :: "real option"

record level_def =
  d_name :: string
  d_sky :: string
  d_hill :: string
  d_groundTop :: string
  d_dirt :: string

record level =
  l_def :: level_def
  l_index :: int
  l_width :: real
  l_height :: real
  solids :: "rect list"
  coins :: "coin list"
  enemies :: "enemy list"
  powerPickups :: "power_pickup list"
  bullets :: "bullet list"
  l_boss :: "boss option"
  bossRewarded :: bool
  bossAttacks :: "boss_attack list"
  springs :: "spring list"
  boxes :: "box list"
  fruits :: "fruit list"
  magnetPickups :: "magnet_pickup list"
  goalX :: real
  tasks :: "task list"
  l_progress :: progress
  completedTasks :: "string set"
  justCompleted :: "(string \<times> real) option"

text \<open>
  \<^verbatim>\<open>Level.getSolidsNear(hb)\<close>: the platform solids whose x-extent meets the hitbox
  expanded by the margin, followed by the top surfaces of the boxes.
\<close>

definition getSolidsNear :: "level \<Rightarrow> rect \<Rightarrow> rect list" where
  "getSolidsNear lvl hb =
     (let margin = 96;
          minX = r_x hb - margin;
          maxX = r_x hb + r_w hb + margin;
          platformSolids = filter (\<lambda>s. r_x s < maxX \<and> r_x s + r_w s > minX) (solids lvl);
          boxTopHeight = 8;
          boxTops = map (\<lambda>b. \<lparr> r_x = bx_x b, r_y = bx_y b, r_w = bx_w b, r_h = boxTopHeight \<rparr>)
                      (filter (\<lambda>b. bx_x b + bx_w b > minX \<and> bx_x b < maxX) (boxes lvl))
      in platformSolids @ boxTops)"

section \<open>Player.update and collision against the level\<close>

text \<open>
  The logical input surface read by \<^verbatim>\<open>Player.update\<close>: the level-triggered and
  edge-triggered booleans as sampled for this tick, and the expiry time of the jump
  buffer, which \<^verbatim>\<open>consumeJumpBuffer\<close> resets.
\<close>

record input =
  i_left :: bool
  i_right :: bool
  i_down :: bool
  i_shieldPressed :: bool
  i_jumpReleasedThisFrame :: bool
  i_jumpBufferedUntil :: real

definition jumpBuffered :: "real \<Rightarrow> input \<Rightarrow> bool" where
  "jumpBuffered nowSeconds inp \<longleftrightarrow> nowSeconds \<le> i_jumpBufferedUntil inp"

definition consumeJumpBuffer :: "input \<Rightarrow> input" where
  "consumeJumpBuffer inp = inp\<lparr> i_jumpBufferedUntil := 0 \<rparr>"

text \<open>One timer statement, \<^verbatim>\<open>if (t > 0) t = Math.max(0, t - dt)\<close>, as a function of the timer.\<close>

definition countdown :: "real \<Rightarrow> real \<Rightarrow> real" where
  "countdown dt t = (if t > 0 then max 0 (t - dt) else t)"

text \<open>
  The nine timer statements at the head of \<^verbatim>\<open>Player.update\<close>, in the source's order;
  the combo statement also clears the streak when its timer reaches zero.
\<close>

definition tick_combo :: "real \<Rightarrow> player \<Rightarrow> player" where
  "tick_combo dt p =
     (if comboTimer p > 0 then
        (let p' = p\<lparr> comboTimer := max 0 (comboTimer p - dt) \<rparr>
         in if comboTimer p' = 0 then p'\<lparr> comboCount := 0 \<rparr> else p')
      else p)"

definition update_timers :: "real \<Rightarrow> player \<Rightarrow> player" where
  "update_timers dt p =
     (let p1 = p\<lparr> invuln := countdown dt (invuln p),
                  gunCooldown := countdown dt (gunCooldown p),
                  powerFlash := countdown dt (powerFlash p),
                  shootFlash := countdown dt (shootFlash p) \<rparr>;
          p2 = tick_combo dt p1
      in p2\<lparr> shieldShatter := countdown dt (shieldShatter p2),
             springLaunchTimer := countdown dt (springLaunchTimer p2),
             growthTransformTimer := countdown dt (growthTransformTimer p2),
             magnetTimer := countdown dt (magnetTimer p2) \<rparr>)"

definition update_shield :: "input \<Rightarrow> player \<Rightarrow> player" where
  "update_shield inp p =
     (if hasShieldPower p \<and> i_shieldPressed inp then
        (if shieldActive p then p\<lparr> shieldActive := False, shieldShatter := 0.3 \<rparr>
         else (let p1 = p\<lparr> shieldActive := True \<rparr>
               in if shieldHits p1 \<ge> shieldMaxHits p1 then p1\<lparr> shieldHits := 0 \<rparr> else p1))
      else p)"

definition doJump :: "player \<Rightarrow> player" where
  "doJump p = p\<lparr> grounded := False, vy := - jumpVel \<rparr>"

definition doDoubleJump :: "player \<Rightarrow> player" where
  "doDoubleJump p = p\<lparr> grounded := False, vy := - jumpVel * 0.85 \<rparr>"

definition update_jump :: "real \<Rightarrow> input \<Rightarrow> player \<Rightarrow> player \<times> input" where
  "update_jump nowSeconds inp p =
     (if jumpBuffered nowSeconds inp then
        (let canGroundJump = (grounded p \<or> nowSeconds \<le> coyoteUntil p)
         in if canGroundJump then ((doJump p)\<lparr> jumpsRemaining := 1 \<rparr>, consumeJumpBuffer inp)
            else if \<not> grounded p \<and> jumpsRemaining p > 0
              then ((doDoubleJump p)\<lparr> jumpsRemaining := 0 \<rparr>, consumeJumpBuffer inp)
            else (p, inp))
      else (p, inp))"

text \<open>The movement part of \<^verbatim>\<open>Player.update\<close> (lines 526 to 571), statement by statement.\<close>

definition jump_cut :: "input \<Rightarrow> player \<Rightarrow> player" where
  "jump_cut inp p =
     (if i_jumpReleasedThisFrame inp \<and> vy p < 0
      then p\<lparr> vy := vy p * jumpCutMultiplier \<rparr> else p)"

definition roll_start :: "input \<Rightarrow> player \<Rightarrow> player" where
  "roll_start inp p =
     (if grounded p \<and> \<not> rolling p \<and> i_down inp \<and> \<bar>vx p\<bar> > 0.5
      then p\<lparr> rolling := True \<rparr> else p)"

definition horizontal_control :: "input \<Rightarrow> player \<Rightarrow> player" where
  "horizontal_control inp p =
     (let left = i_left inp; right = i_right inp
      in if rolling p then
           (if left \<noteq> right then p\<lparr> vx := (if left then - 1 else 1) * topSpeed \<rparr>
            else (let p1 = p\<lparr> vx := 0 \<rparr>
                  in if grounded p1 then p1\<lparr> rolling := False \<rparr> else p1))
         else if grounded p then
           (if left \<noteq> right then p\<lparr> vx := (if left then - 1 else 1) * topSpeed \<rparr>
            else p\<lparr> vx := 0 \<rparr>)
         else
           (if left \<noteq> right then p\<lparr> vx := (if left then - 1 else 1) * topSpeed \<rparr>
            else p\<lparr> vx := 0 \<rparr>))"

definition apply_gravity :: "real \<Rightarrow> player \<Rightarrow> player" where
  "apply_gravity frameScale p =
     (if \<not> grounded p then
        (let p1 = p\<lparr> vy := vy p + gravity * frameScale \<rparr>
         in if vy p1 > terminalVel then p1\<lparr> vy := terminalVel \<rparr> else p1)
      else p)"

definition integrate :: "real \<Rightarrow> player \<Rightarrow> player" where
  "integrate frameScale p =
     (let p1 = p\<lparr> p_x := p_x p + vx p * frameScale, p_y := p_y p + vy p * frameScale \<rparr>
      in if vx p1 \<noteq> 0 then p1\<lparr> facing := (if vx p1 > 0 then 1 else - 1) \<rparr> else p1)"

definition update_move :: "real \<Rightarrow> input \<Rightarrow> player \<Rightarrow> player" where
  "update_move frameScale inp p =
     integrate frameScale (apply_gravity frameScale
       (horizontal_control inp (roll_start inp (jump_cut inp p))))"

text \<open>
  \<^verbatim>\<open>_collideWithLevel\<close>. The hitbox \<open>hb\<close> is taken once, after the clamp of x, and is
  not refreshed inside the landing loop; \<open>hb2\<close> is taken once after the landing loop.
\<close>

definition clampToLevel :: "level \<Rightarrow> player \<Rightarrow> player" where
  "clampToLevel lvl p = p\<lparr> p_x := clamp (p_x p) 20 (l_width lvl - 20) \<rparr>"

definition onTopCross :: "rect \<Rightarrow> real \<Rightarrow> rect \<Rightarrow> bool" where
  "onTopCross hb v s \<longleftrightarrow>
     (let prevBottom = r_y hb + r_h hb - v;
          nextBottom = r_y hb + r_h hb
      in prevBottom \<le> r_y s \<and> nextBottom \<ge> r_y s \<and>
         r_x hb + r_w hb > r_x s \<and> r_x hb < r_x s + r_w s)"

definition land_on :: "rect \<Rightarrow> real \<Rightarrow> rect \<Rightarrow> player \<Rightarrow> player" where
  "land_on hb nowSeconds s p =
     (if vy p \<ge> 0 then
        (if onTopCross hb (vy p) s then
           p\<lparr> p_y := r_y s, vy := 0, grounded := True,
              coyoteUntil := nowSeconds + coyoteSeconds, jumpsRemaining := 2 \<rparr>
         else p)
      else p)"

fun landing_pass :: "rect \<Rightarrow> real \<Rightarrow> rect list \<Rightarrow> player \<Rightarrow> player" where
  "landing_pass hb nowSeconds [] p = p"
| "landing_pass hb nowSeconds (s # ss) p =
     landing_pass hb nowSeconds ss (land_on hb nowSeconds s p)"

definition push_out :: "rect \<Rightarrow> rect \<Rightarrow> player \<Rightarrow> player" where
  "push_out hb2 s p =
     (if \<not> aabbIntersects hb2 s then p
      else
        (let overlapLeft = r_x hb2 + r_w hb2 - r_x s;
             overlapRight = r_x s + r_w s - r_x hb2;
             p1 = (if overlapLeft < overlapRight then p\<lparr> p_x := p_x p - overlapLeft \<rparr>
                   else p\<lparr> p_x := p_x p + overlapRight \<rparr>)
         in p1\<lparr> vx := 0 \<rparr>))"

fun push_pass :: "rect \<Rightarrow> rect list \<Rightarrow> player \<Rightarrow> player" where
  "push_pass hb2 [] p = p"
| "push_pass hb2 (s # ss) p = push_pass hb2 ss (push_out hb2 s p)"

text \<open>The solids the broadphase returns for the clamped hitbox.\<close>

definition collide_solids :: "level \<Rightarrow> player \<Rightarrow> rect list" where
  "collide_solids lvl p = getSolidsNear lvl (getHitbox (clampToLevel lvl p))"

text \<open>The player after the clamp and the landing loop (lines 597 to 620).\<close>

definition collide_landed :: "level \<Rightarrow> real \<Rightarrow> player \<Rightarrow> player" where
  "collide_landed lvl nowSeconds p =
     (let p1 = clampToLevel lvl p;
          hb = getHitbox p1;
          p2 = p1\<lparr> grounded := False \<rparr>
      in landing_pass hb nowSeconds (getSolidsNear lvl hb) p2)"

definition collideWithLevel :: "level \<Rightarrow> real \<Rightarrow> player \<Rightarrow> player" where
  "collideWithLevel lvl nowSeconds p =
     (let p2 = collide_landed lvl nowSeconds p;
          hb2 = getHitbox p2;
          p3 = push_pass hb2 (collide_solids lvl p) p2
      in if p_y p3 > l_height lvl + 200 then takeHit 1 p3 else p3)"

definition update :: "real \<Rightarrow> input \<Rightarrow> level \<Rightarrow> real \<Rightarrow> player \<Rightarrow> player \<times> input" where
  "update dt inp lvl nowSeconds p =
     (let frameScale = dt * 60;
          (p1, inp') = update_jump nowSeconds inp (update_shield inp (update_timers dt p))
      in (collideWithLevel lvl nowSeconds (update_move frameScale inp' p1), inp'))"

section \<open>Hostiles\<close>

text \<open>\<^verbatim>\<open>Enemy.getAabb\<close> is anchored at the feet, \<^verbatim>\<open>BirdEnemy.getAabb\<close> at the centre.\<close>

definition enemy_getAabb :: "enemy \<Rightarrow> rect" where
  "enemy_getAabb e =
     (if e_isFlying e
      then \<lparr> r_x = e_x e - e_w e / 2, r_y = e_y e - e_h e / 2, r_w = e_w e, r_h = e_h e \<rparr>
      else \<lparr> r_x = e_x e - e_w e / 2, r_y = e_y e - e_h e, r_w = e_w e, r_h = e_h e \<rparr>)"

definition enemy_takeHit :: "real \<Rightarrow> enemy \<Rightarrow> enemy" where
  "enemy_takeHit amount e =
     (if \<not> e_alive e then e
      else
        (let e1 = e\<lparr> e_hp := max 0 (e_hp e - amount), e_hitTimer := 0.2 \<rparr>
         in if e_hp e1 \<le> 0 then e1\<lparr> e_alive := False, e_deathTimer := 0.5 \<rparr> else e1))"

definition enemy_patrol :: "real \<Rightarrow> enemy \<Rightarrow> enemy" where
  "enemy_patrol dt e =
     (let e1 = e\<lparr> e_hitTimer := countdown dt (e_hitTimer e) \<rparr>;
          frameScale = dt * 60;
          e2 = e1\<lparr> e_x := e_x e1 + e_dir e1 * e_speed e1 * frameScale \<rparr>;
          e3 = (if e_x e2 > e_baseX e2 + e_range e2 then e2\<lparr> e_dir := - 1 \<rparr> else e2)
      in if e_x e3 < e_baseX e3 - e_range e3 then e3\<lparr> e_dir := 1 \<rparr> else e3)"

definition enemy_update :: "real \<Rightarrow> enemy \<Rightarrow> enemy" where
  "enemy_update dt e =
     (if \<not> e_alive e then e\<lparr> e_deathTimer := countdown dt (e_deathTimer e) \<rparr>
      else
        (let e4 = enemy_patrol dt e
         in if e_isFlying e4 then
              (let e5 = e4\<lparr> e_t := e_t e4 + dt \<rparr>
               in e5\<lparr> e_y := e_baseY e5 + sin (e_t e5 * 3) * e_amp e5 \<rparr>)
            else e4))"

definition boss_getAabb :: "boss \<Rightarrow> rect" where
  "boss_getAabb b = \<lparr> r_x = b_x b - b_w b / 2, r_y = b_y b - b_h b, r_w = b_w b, r_h = b_h b \<rparr>"

definition boss_takeHit :: "real \<Rightarrow> boss \<Rightarrow> boss" where
  "boss_takeHit amount b =
     (if \<not> b_alive b then b
      else
        (let b1 = b\<lparr> b_hp := max 0 (b_hp b - amount), b_hurtTimer := 0.3 \<rparr>
         in if b_hp b1 \<le> 0 then b1\<lparr> b_alive := False, b_deathTimer := 0.6 \<rparr> else b1))"

definition spawnBossAttack :: "real \<Rightarrow> real \<Rightarrow> real \<Rightarrow> real \<Rightarrow> boss_attack" where
  "spawnBossAttack x0 y0 vx0 vy0 =
     \<lparr> a_x = x0, a_y = y0, a_vx = vx0, a_vy = vy0, a_life = 3.0, a_r = 12 \<rparr>"

definition boss_patrol :: "real \<Rightarrow> boss \<Rightarrow> boss" where
  "boss_patrol frameScale b =
     (let b2 = b\<lparr> b_x := b_x b + b_dir b * 0.7 * frameScale \<rparr>;
          b3 = (if b_x b2 > b_baseX b2 + b_range b2 then b2\<lparr> b_dir := - 1 \<rparr> else b2)
      in if b_x b3 < b_baseX b3 - b_range b3 then b3\<lparr> b_dir := 1 \<rparr> else b3)"

text \<open>
  \<^verbatim>\<open>Boss.update(dt, player, level)\<close> returns the boss and the attacks it pushed onto the
  level (none or one).
\<close>

definition boss_update :: "real \<Rightarrow> player \<Rightarrow> boss \<Rightarrow> boss \<times> boss_attack list" where
  "boss_update dt p b =
     (let frameScale = dt * 60;
          b1 = b\<lparr> b_hurtTimer := countdown dt (b_hurtTimer b) \<rparr>
      in if \<not> b_alive b1 then (b1\<lparr> b_deathTimer := max 0 (b_deathTimer b1 - dt) \<rparr>, [])
         else
           (let b4 = boss_patrol frameScale b1
            in if b_attackCooldown b4 > 0
               then (b4\<lparr> b_attackCooldown := max 0 (b_attackCooldown b4 - dt) \<rparr>, [])
               else
                 (let dx = p_x p - b_x b4; distX = \<bar>dx\<bar>
                  in if distX < 800 \<and> distX > 30 then
                       (b4\<lparr> b_attackCooldown := b_attackInterval b4 \<rparr>,
                        [spawnBossAttack (b_x b4) (b_y b4 - 40) (if dx > 0 then 5 else - 5) 0])
                     else (b4, []))))"

section \<open>Level.update\<close>

text \<open>
  Each loop of \<^verbatim>\<open>Level.update\<close> is one function from the level and the player to the
  level and the player. The hitbox \<open>phb\<close> and its centre \<open>(px, py)\<close> are taken once,
  at the head of the tick, as in the source.
\<close>

definition progress_clock :: "real \<Rightarrow> real \<Rightarrow> player \<Rightarrow> level \<Rightarrow> level" where
  "progress_clock dt nowSeconds p lvl =
     (let pr = l_progress lvl;
          pr1 = (if startTime pr = None then pr\<lparr> startTime := Some nowSeconds \<rparr> else pr);
          pr2 = (if p_x p \<ge> goalX lvl - 20 then
                   pr1\<lparr> reachedGoal := True,
                        goalReachedTime := (if goalReachedTime pr1 = None then Some nowSeconds
                                            else goalReachedTime pr1) \<rparr>
                 else pr1);
          jc = (case justCompleted lvl of
                  None \<Rightarrow> None
                | Some (i, tm) \<Rightarrow> if tm - dt \<le> 0 then None else Some (i, tm - dt))
      in lvl\<lparr> l_progress := pr2, justCompleted := jc \<rparr>)"

subsection \<open>Loops over the level's collections\<close>

text \<open>
  \<^verbatim>\<open>for (const x of xs) { ... }\<close> where the body mutates the element and some shared
  state: the elements are rewritten in order and the state is threaded through.
\<close>

fun for_each :: "('a \<Rightarrow> 's \<Rightarrow> 'a \<times> 's) \<Rightarrow> 'a list \<Rightarrow> 's \<Rightarrow> 'a list \<times> 's" where
  "for_each f [] st = ([], st)"
| "for_each f (x # xs) st =
     (case f x st of
        (x', st') \<Rightarrow> (case for_each f xs st' of (xs', st'') \<Rightarrow> (x' # xs', st'')))"

text \<open>
  \<^verbatim>\<open>xs.filter((x) => { ... })\<close> where the callback also mutates shared state: the
  callback runs on every element in order and says whether the element is kept.
\<close>

fun filter_each :: "('a \<Rightarrow> 's \<Rightarrow> bool \<times> 's) \<Rightarrow> 'a list \<Rightarrow> 's \<Rightarrow> 'a list \<times> 's" where
  "filter_each f [] st = ([], st)"
| "filter_each f (x # xs) st =
     (case f x st of
        (keep, st') \<Rightarrow>
          (case filter_each f xs st' of
             (xs', st'') \<Rightarrow> (if keep then x # xs' else xs', st'')))"

text \<open>\<^verbatim>\<open>a % b\<close> on non-integers: \<open>a - b * trunc (a / b)\<close>.\<close>

definition js_fmod :: "real \<Rightarrow> real \<Rightarrow> real" where
  "js_fmod a b = a - b * real_of_int (if a / b < 0 then \<lceil>a / b\<rceil> else \<lfloor>a / b\<rfloor>)"

subsection \<open>Springs\<close>

definition spring_step ::
  "real \<Rightarrow> rect \<Rightarrow> spring \<Rightarrow> player \<times> progress \<Rightarrow> spring \<times> player \<times> progress" where
  "spring_step dt phb s0 st =
     (let p = fst st; pr = snd st;
          playerBottom = r_y phb + r_h phb;
          s = s0\<lparr> compress := (if compress s0 > 0 then max 0 (compress s0 - dt * 4) else compress s0) \<rparr>;
          sx = sp_x s - sp_w s / 2;
          sy = sp_y s - sp_h s;
          sb = \<lparr> r_x = sx, r_y = sy, r_w = sp_w s, r_h = sp_h s \<rparr>
      in if \<not> aabbIntersects phb sb then (s, st)
         else if vy p < 0 then (s, st)
         else if playerBottom < sy + 4 then (s, st)
         else if playerBottom > sp_y s + 8 then (s, st)
         else
           (let maxSpringVy = - 6.5 * 1.35
            in (s\<lparr> compress := 0.35 \<rparr>,
                p\<lparr> grounded := False, springLaunchTimer := 0.4, justLaunchedSpring := True,
                   vy := maxSpringVy,
                   vx := (case sp_dir s of Up \<Rightarrow> 0 | Diag_left \<Rightarrow> - 4 | Diag_right \<Rightarrow> 4) \<rparr>,
                pr\<lparr> springsUsed := springsUsed pr + 1 \<rparr>)))"

definition springs_pass :: "real \<Rightarrow> rect \<Rightarrow> level \<Rightarrow> player \<Rightarrow> level \<times> player" where
  "springs_pass dt phb lvl p =
     (case for_each (spring_step dt phb) (springs lvl) (p, l_progress lvl) of
        (ss', p', pr') \<Rightarrow> (lvl\<lparr> springs := ss', l_progress := pr' \<rparr>, p'))"

subsection \<open>Boxes\<close>

text \<open>The coins a coin box releases: \<^verbatim>\<open>count = Math.max(1, 1 + (index % 3))\<close> of them.\<close>

definition box_coins :: "int \<Rightarrow> real \<Rightarrow> real \<Rightarrow> coin list" where
  "box_coins index cx spawn_y =
     (let count = max 1 (1 + js_rem index 3)
      in map (\<lambda>i. \<lparr> c_x = cx + (real i - real_of_int count / 2) * 8, c_y = spawn_y,
                     c_vx = (real i - real_of_int count / 2) * 1.8,
                     c_vy = - 9 - real i * 0.6, c_active = True, c_static = False \<rparr>)
           [0 ..< nat count])"

definition box_power :: "box_type \<Rightarrow> real \<Rightarrow> real \<Rightarrow> power_pickup" where
  "box_power ty cx spawn_y =
     \<lparr> pp_x = cx, pp_y = spawn_y, pp_vy = - 3.2, pp_maxY = spawn_y - 22, pp_type = ty,
       pp_collected = False, pp_bob = 0 \<rparr>"

definition box_fruit :: "real \<Rightarrow> real \<Rightarrow> fruit" where
  "box_fruit cx spawn_y =
     \<lparr> f_x = cx, f_y = spawn_y, f_vy = - 3.2, f_maxY = spawn_y - 22, f_collected = False,
       f_bob = 0 \<rparr>"

text \<open>
  The activation test of one box, as the loop body reaches it: horizontal overlap, upward
  motion, and the swept crossing of the box's bottom edge.
\<close>

definition box_hit :: "real \<Rightarrow> rect \<Rightarrow> player \<Rightarrow> box \<Rightarrow> bool" where
  "box_hit frameScale phb p b \<longleftrightarrow>
     (let boxLeft = bx_x b; boxRight = bx_x b + bx_w b;
          boxBottom = bx_y b + bx_h b; boxTop = bx_y b
      in \<not> (r_x phb + r_w phb < boxLeft \<or> r_x phb > boxRight) \<and>
         \<not> (vy p \<ge> 0) \<and>
         (let playerTop = r_y phb; playerBottom = r_y phb + r_h phb;
              prevPlayerTop = playerTop - vy p * frameScale
          in prevPlayerTop \<ge> boxBottom \<and> playerTop < boxBottom \<and> playerBottom > boxTop))"

text \<open>What one box adds to the level's coins, power pickups and fruits when it activates.\<close>

record spawned =
  s_coins :: "coin list"
  s_powers :: "power_pickup list"
  s_fruits :: "fruit list"

definition no_spawn :: spawned where
  "no_spawn = \<lparr> s_coins = [], s_powers = [], s_fruits = [] \<rparr>"

definition box_content :: "int \<Rightarrow> box \<Rightarrow> spawned" where
  "box_content index b =
     (let cx = bx_x b + bx_w b / 2; spawn_y = bx_y b - 28
      in case bx_type b of
           Coin \<Rightarrow> no_spawn\<lparr> s_coins := box_coins index cx spawn_y \<rparr>
         | Power_green \<Rightarrow> no_spawn\<lparr> s_powers := [box_power Power_green cx spawn_y] \<rparr>
         | Power_blue \<Rightarrow> no_spawn\<lparr> s_powers := [box_power Power_blue cx spawn_y] \<rparr>
         | Growth \<Rightarrow> no_spawn\<lparr> s_fruits := [box_fruit cx spawn_y] \<rparr>)"

text \<open>The head of the loop body: \<^verbatim>\<open>if (box.bounceAnim > 0) box.bounceAnim = Math.max(0, box.bounceAnim - dt)\<close>.\<close>

definition box_tick :: "real \<Rightarrow> box \<Rightarrow> box" where
  "box_tick dt b = (if bounceAnim b > 0 then b\<lparr> bounceAnim := max 0 (bounceAnim b - dt) \<rparr> else b)"

text \<open>
  The loop body for one box (lines 1904 to 1982): the box after the body, what was
  spawned, and the player. A used box is skipped; an activated box is marked used, its
  content is spawned and the player is nudged downward.
\<close>

definition box_step ::
  "real \<Rightarrow> real \<Rightarrow> int \<Rightarrow> rect \<Rightarrow> box \<Rightarrow> player \<Rightarrow> box \<times> spawned \<times> player" where
  "box_step dt frameScale index phb b0 p =
     (let b = box_tick dt b0
      in if used b then (b, no_spawn, p)
         else if \<not> box_hit frameScale phb p b then (b, no_spawn, p)
         else (b\<lparr> used := True, bounceAnim := 0.28 \<rparr>, box_content index b, p\<lparr> vy := 0.6 \<rparr>))"

definition add_spawned :: "spawned \<Rightarrow> spawned \<Rightarrow> spawned" where
  "add_spawned a b =
     \<lparr> s_coins = s_coins a @ s_coins b, s_powers = s_powers a @ s_powers b,
       s_fruits = s_fruits a @ s_fruits b \<rparr>"

text \<open>The loop body: the box's step, with what it spawned pushed after what is there.\<close>

definition box_body ::
  "real \<Rightarrow> real \<Rightarrow> int \<Rightarrow> rect \<Rightarrow> box \<Rightarrow> spawned \<times> player \<Rightarrow> box \<times> spawned \<times> player" where
  "box_body dt frameScale index phb b st =
     (case box_step dt frameScale index phb b (snd st) of
        (b', sp, p') \<Rightarrow> (b', add_spawned (fst st) sp, p'))"

definition boxes_pass :: "real \<Rightarrow> real \<Rightarrow> rect \<Rightarrow> level \<Rightarrow> player \<Rightarrow> level \<times> player" where
  "boxes_pass dt frameScale phb lvl p =
     (case for_each (box_body dt frameScale (l_index lvl) phb) (boxes lvl) (no_spawn, p) of
        (bs', sp, p') \<Rightarrow>
          (lvl\<lparr> boxes := bs', coins := coins lvl @ s_coins sp,
                powerPickups := powerPickups lvl @ s_powers sp,
                fruits := fruits lvl @ s_fruits sp \<rparr>, p'))"

subsection \<open>Coins and the magnet field\<close>

definition coin_fall :: "real \<Rightarrow> real \<Rightarrow> coin \<Rightarrow> coin" where
  "coin_fall dt boxGroundY c =
     (if \<not> c_active c then c
      else if c_static c then c
      else
        (let grav = 0.4;
             c1 = c\<lparr> c_vy := c_vy c + grav * dt * 60 \<rparr>;
             c2 = c1\<lparr> c_y := c_y c1 + c_vy c1 * dt * 60, c_x := c_x c1 + c_vx c1 * dt * 60 \<rparr>
         in if c_y c2 \<ge> boxGroundY then
              (let v = - (c_vy c2) * 0.45
               in c2\<lparr> c_y := boxGroundY, c_vy := (if \<bar>v\<bar> < 2 then 0 else v) \<rparr>)
            else c2))"

definition collect_coin :: "player \<times> progress \<Rightarrow> player \<times> progress" where
  "collect_coin st =
     (addComboScore 10 ((fst st)\<lparr> rings := rings (fst st) + 1 \<rparr>),
      (snd st)\<lparr> coinsCollected := coinsCollected (snd st) + 1 \<rparr>)"

definition coin_dist :: "real \<Rightarrow> real \<Rightarrow> coin \<Rightarrow> real" where
  "coin_dist px py c = sqrt ((px - c_x c) * (px - c_x c) + (py - c_y c) * (py - c_y c))"

definition magnet_pull ::
  "real \<Rightarrow> real \<Rightarrow> real \<Rightarrow> coin \<Rightarrow> player \<times> progress \<Rightarrow> coin \<times> player \<times> progress" where
  "magnet_pull dt px py c st =
     (if \<not> c_active c then (c, st)
      else
        (let dist = coin_dist px py c;
             near = (dist < 140 \<and> dist > 0.1);
             move = 5.5 * dt * 60;
             c1 = (if near then
                     c\<lparr> c_x := c_x c + ((px - c_x c) / dist) * min move dist,
                        c_y := c_y c + ((py - c_y c) / dist) * min move dist \<rparr>
                   else c)
         in if coin_dist px py c1 < 28 then (c1\<lparr> c_active := False \<rparr>, collect_coin st)
            else (c1, st)))"

definition coin_touch ::
  "real \<Rightarrow> real \<Rightarrow> coin \<Rightarrow> player \<times> progress \<Rightarrow> coin \<times> player \<times> progress" where
  "coin_touch px py c st =
     (if \<not> c_active c then (c, st)
      else
        (let dx = c_x c - px; dy = c_y c - py; r2 = 16 * 16
         in if dx * dx + dy * dy \<le> r2 then (c\<lparr> c_active := False \<rparr>, collect_coin st)
            else (c, st)))"

definition coins_pass :: "real \<Rightarrow> real \<Rightarrow> real \<Rightarrow> level \<Rightarrow> player \<Rightarrow> level \<times> player" where
  "coins_pass dt px py lvl p =
     (let boxGroundY = 300 + real_of_int (js_rem (l_index lvl) 3) * 10;
          cs1 = map (coin_fall dt boxGroundY) (coins lvl);
          (cs2, st2) = (if magnetTimer p > 0
                        then for_each (magnet_pull dt px py) cs1 (p, l_progress lvl)
                        else (cs1, (p, l_progress lvl)));
          (cs3, p3, pr3) = for_each (coin_touch px py) cs2 st2
      in (lvl\<lparr> coins := cs3, l_progress := pr3 \<rparr>, p3))"

subsection \<open>Magnet pickups\<close>

text \<open>
  One magnet pickup (lines 2037 to 2049): the bob phase advances, then the pickup is
  collected when the hitbox centre is within 24 of its bobbing position.
\<close>

definition magnet_bob :: "real \<Rightarrow> magnet_pickup \<Rightarrow> magnet_pickup" where
  "magnet_bob dt mp = mp\<lparr> mp_bob := js_fmod (mp_bob mp + dt * 6) (pi * 2) \<rparr>"

definition magnet_touch :: "real \<Rightarrow> real \<Rightarrow> magnet_pickup \<Rightarrow> bool" where
  "magnet_touch px py mp \<longleftrightarrow>
     (let mx = mp_x mp;
          my = mp_y mp + sin (mp_bob mp) * 4;
          mdx = px - mx;
          mdy = py - my
      in mdx * mdx + mdy * mdy \<le> 24 * 24)"

definition magnet_step ::
  "real \<Rightarrow> real \<Rightarrow> real \<Rightarrow> magnet_pickup \<Rightarrow> player \<Rightarrow> magnet_pickup \<times> player" where
  "magnet_step dt px py mp p =
     (if mp_collected mp then (mp, p)
      else
        (let mp1 = magnet_bob dt mp
         in if magnet_touch px py mp1
            then (mp1\<lparr> mp_collected := True \<rparr>, p\<lparr> magnetTimer := 8 \<rparr>)
            else (mp1, p)))"

definition magnets_pass :: "real \<Rightarrow> real \<Rightarrow> real \<Rightarrow> level \<Rightarrow> player \<Rightarrow> level \<times> player" where
  "magnets_pass dt px py lvl p =
     (case for_each (magnet_step dt px py) (magnetPickups lvl) p of
        (mps, p') \<Rightarrow> (lvl\<lparr> magnetPickups := filter (\<lambda>m. \<not> mp_collected m) mps \<rparr>, p'))"

subsection \<open>Power pickups and fruit\<close>

definition power_float :: "real \<Rightarrow> power_pickup \<Rightarrow> power_pickup" where
  "power_float dt pp =
     (let powerGravityLight = 0.06; powerMaxUpwardVy = - 3.5;
          y1 = pp_y pp + pp_vy pp * dt * 60;
          v1 = min (pp_vy pp + powerGravityLight * dt * 60) 1.2;
          v2 = (if v1 < powerMaxUpwardVy then powerMaxUpwardVy else v1);
          pp1 = (if y1 < pp_maxY pp then pp\<lparr> pp_y := pp_maxY pp, pp_vy := 0 \<rparr>
                 else pp\<lparr> pp_y := y1, pp_vy := v2 \<rparr>)
      in pp1\<lparr> pp_bob := js_fmod (pp_bob pp + dt * 5) (pi * 2) \<rparr>)"

definition power_step ::
  "real \<Rightarrow> rect \<Rightarrow> power_pickup \<Rightarrow> player \<times> progress \<Rightarrow> power_pickup \<times> player \<times> progress" where
  "power_step dt phb pp0 st =
     (if pp_collected pp0 then (pp0, st)
      else
        (let pp = power_float dt pp0;
             pb = \<lparr> r_x = pp_x pp - 14, r_y = pp_y pp - 14, r_w = 28, r_h = 28 \<rparr>
         in if aabbIntersects phb pb then
              (pp\<lparr> pp_collected := True \<rparr>,
               (if pp_type pp = Power_green
                then ((fst st)\<lparr> hasGunPower := True, gunCooldown := 0, powerFlash := 0.5 \<rparr>,
                      (snd st)\<lparr> hasPowerCoin := True \<rparr>)
                else ((fst st)\<lparr> hasShieldPower := True, powerFlash := 0.5 \<rparr>,
                      (snd st)\<lparr> hasShieldCoin := True \<rparr>)))
            else (pp, st)))"

definition powers_pass :: "real \<Rightarrow> rect \<Rightarrow> level \<Rightarrow> player \<Rightarrow> level \<times> player" where
  "powers_pass dt phb lvl p =
     (case for_each (power_step dt phb) (powerPickups lvl) (p, l_progress lvl) of
        (pps, p', pr') \<Rightarrow>
          (lvl\<lparr> powerPickups := filter (\<lambda>q. \<not> pp_collected q) pps, l_progress := pr' \<rparr>, p'))"

definition fruit_float :: "real \<Rightarrow> fruit \<Rightarrow> fruit" where
  "fruit_float dt fr =
     (let fruitGravityLight = 0.06; fruitMaxUpwardVy = - 3.5;
          y1 = f_y fr + f_vy fr * dt * 60;
          v1 = min (f_vy fr + fruitGravityLight * dt * 60) 1.2;
          v2 = (if v1 < fruitMaxUpwardVy then fruitMaxUpwardVy else v1);
          fr1 = (if y1 < f_maxY fr then fr\<lparr> f_y := f_maxY fr, f_vy := 0 \<rparr>
                 else fr\<lparr> f_y := y1, f_vy := v2 \<rparr>)
      in fr1\<lparr> f_bob := js_fmod (f_bob fr + dt * 5) (pi * 2) \<rparr>)"

definition fruit_step :: "real \<Rightarrow> rect \<Rightarrow> fruit \<Rightarrow> player \<Rightarrow> fruit \<times> player" where
  "fruit_step dt phb fr0 p =
     (if f_collected fr0 then (fr0, p)
      else
        (let fr = fruit_float dt fr0;
             fruitBox = \<lparr> r_x = f_x fr - 14, r_y = f_y fr - 14, r_w = 28, r_h = 28 \<rparr>
         in if aabbIntersects phb fruitBox
            then (fr\<lparr> f_collected := True \<rparr>, p\<lparr> isBig := True, growthTransformTimer := 0.6 \<rparr>)
            else (fr, p)))"

definition fruits_pass :: "real \<Rightarrow> rect \<Rightarrow> level \<Rightarrow> player \<Rightarrow> level \<times> player" where
  "fruits_pass dt phb lvl p =
     (case for_each (fruit_step dt phb) (fruits lvl) p of
        (frs, p') \<Rightarrow> (lvl\<lparr> fruits := filter (\<lambda>f. \<not> f_collected f) frs \<rparr>, p'))"

subsection \<open>Enemies and the boss against the player\<close>

definition enemy_collide ::
  "rect \<Rightarrow> enemy \<Rightarrow> player \<times> progress \<Rightarrow> enemy \<times> player \<times> progress" where
  "enemy_collide phb e st =
     (if \<not> e_alive e then (e, st)
      else
        (let p = fst st; pr = snd st; eb = enemy_getAabb e
         in if \<not> aabbIntersects phb eb then (e, st)
            else
              (let playerBottom = r_y phb + r_h phb;
                   enemyTop = r_y eb;
                   wasAbove = (playerBottom - vy p \<le> enemyTop + 6)
               in if vy p > 0 \<and> wasAbove then
                    (e\<lparr> e_alive := False \<rparr>,
                     (addComboScore 100 p)\<lparr> vy := - 4.5, grounded := False \<rparr>,
                     (if e_isFlying e then pr\<lparr> flyingKilled := flyingKilled pr + 1 \<rparr>
                      else pr\<lparr> groundKilled := groundKilled pr + 1 \<rparr>))
                  else (e, takeHit (if p_x p < e_x e then - 1 else 1) p, pr))))"

definition enemies_pass :: "real \<Rightarrow> rect \<Rightarrow> level \<Rightarrow> player \<Rightarrow> level \<times> player" where
  "enemies_pass dt phb lvl p =
     (case for_each (enemy_collide phb) (map (enemy_update dt) (enemies lvl)) (p, l_progress lvl) of
        (es, p', pr') \<Rightarrow> (lvl\<lparr> enemies := es, l_progress := pr' \<rparr>, p'))"

text \<open>
  The boss against the player's body (lines 2136 to 2151): a stomp only bounces the
  player, any other contact is a hit on the player. The boss is read, not written.
\<close>

definition boss_collide :: "rect \<Rightarrow> boss \<Rightarrow> player \<Rightarrow> player" where
  "boss_collide phb b p =
     (if b_alive b then
        (let bb = boss_getAabb b
         in if aabbIntersects phb bb then
              (let playerBottom = r_y phb + r_h phb;
                   bossTop = r_y bb;
                   wasAboveBoss = (playerBottom - vy p \<le> bossTop + 8)
               in if vy p > 0 \<and> wasAboveBoss then p\<lparr> vy := - 5, grounded := False \<rparr>
                  else takeHit (if p_x p < b_x b then - 1 else 1) p)
            else p)
      else p)"

text \<open>
  The boss block of the tick (lines 2133 to 2152) in its two statements: the call
  \<^verbatim>\<open>this._boss.update(dt, player, this)\<close>, which writes the boss and may push an attack
  onto the level, and the contact block that follows it, which writes the player only.
\<close>

definition boss_tick :: "real \<Rightarrow> level \<Rightarrow> player \<Rightarrow> level" where
  "boss_tick dt lvl p =
     (case l_boss lvl of
        None \<Rightarrow> lvl
      | Some b \<Rightarrow>
          (case boss_update dt p b of
             (b', atks) \<Rightarrow> lvl\<lparr> l_boss := Some b', bossAttacks := bossAttacks lvl @ atks \<rparr>))"

definition boss_contact :: "rect \<Rightarrow> level \<Rightarrow> player \<Rightarrow> level \<times> player" where
  "boss_contact phb lvl p =
     (case l_boss lvl of
        None \<Rightarrow> (lvl, p)
      | Some b \<Rightarrow> (lvl, boss_collide phb b p))"

definition boss_pass :: "real \<Rightarrow> rect \<Rightarrow> level \<Rightarrow> player \<Rightarrow> level \<times> player" where
  "boss_pass dt phb lvl p = boss_contact phb (boss_tick dt lvl p) p"

subsection \<open>Projectiles\<close>

definition attack_move :: "real \<Rightarrow> real \<Rightarrow> boss_attack \<Rightarrow> boss_attack" where
  "attack_move dt frameScale atk =
     atk\<lparr> a_x := a_x atk + a_vx atk * frameScale, a_y := a_y atk + a_vy atk * frameScale,
          a_life := a_life atk - dt \<rparr>"

definition attack_keep :: "real \<Rightarrow> rect \<Rightarrow> boss_attack \<Rightarrow> player \<Rightarrow> bool \<times> player" where
  "attack_keep width phb atk p =
     (if a_life atk \<le> 0 \<or> a_x atk < - 100 \<or> a_x atk > width + 100 then (False, p)
      else
        (let ab = \<lparr> r_x = a_x atk - a_r atk, r_y = a_y atk - a_r atk,
                    r_w = a_r atk * 2, r_h = a_r atk * 2 \<rparr>
         in if aabbIntersects phb ab
            then (False, takeHit (if p_x p < a_x atk then - 1 else 1) p)
            else (True, p)))"

definition attacks_pass :: "real \<Rightarrow> real \<Rightarrow> rect \<Rightarrow> level \<Rightarrow> player \<Rightarrow> level \<times> player" where
  "attacks_pass dt frameScale phb lvl p =
     (case filter_each (attack_keep (l_width lvl) phb)
             (map (attack_move dt frameScale) (bossAttacks lvl)) p of
        (atks, p') \<Rightarrow> (lvl\<lparr> bossAttacks := atks \<rparr>, p'))"

definition bullet_move :: "real \<Rightarrow> real \<Rightarrow> bullet \<Rightarrow> bullet" where
  "bullet_move dt frameScale b = b\<lparr> bl_x := bl_x b + bl_vx b * frameScale, bl_life := bl_life b - dt \<rparr>"

text \<open>
  The inner loop of the bullet filter: the first living enemy the bullet overlaps takes
  one hit. The result is the enemies after the hit and the enemy that was hit.
\<close>

fun hit_first_enemy :: "rect \<Rightarrow> enemy list \<Rightarrow> (enemy list \<times> enemy) option" where
  "hit_first_enemy bb [] = None"
| "hit_first_enemy bb (e # es) =
     (if e_alive e \<and> aabbIntersects bb (enemy_getAabb e)
      then Some (enemy_takeHit 1 e # es, enemy_takeHit 1 e)
      else (case hit_first_enemy bb es of
              None \<Rightarrow> None
            | Some (es', h) \<Rightarrow> Some (e # es', h)))"

record combat =
  k_enemies :: "enemy list"
  k_boss :: "boss option"
  k_player :: player
  k_progress :: progress

definition bullet_keep :: "real \<Rightarrow> bullet \<Rightarrow> combat \<Rightarrow> bool \<times> combat" where
  "bullet_keep width b st =
     (if bl_life b \<le> 0 \<or> bl_x b < - 100 \<or> bl_x b > width + 100 then (False, st)
      else
        (let bb = \<lparr> r_x = bl_x b - 4, r_y = bl_y b - 4, r_w = 8, r_h = 8 \<rparr>
         in case hit_first_enemy bb (k_enemies st) of
              Some (es', h) \<Rightarrow>
                (False,
                 if \<not> e_alive h then
                   st\<lparr> k_enemies := es',
                       k_progress :=
                         (if e_isFlying h
                          then (k_progress st)\<lparr> flyingKilled := flyingKilled (k_progress st) + 1 \<rparr>
                          else (k_progress st)\<lparr> groundKilled := groundKilled (k_progress st) + 1 \<rparr>),
                       k_player := addComboScore 80 (k_player st) \<rparr>
                 else st\<lparr> k_enemies := es' \<rparr>)
            | None \<Rightarrow>
                (case k_boss st of
                   None \<Rightarrow> (True, st)
                 | Some bo \<Rightarrow>
                     if b_alive bo \<and> aabbIntersects bb (boss_getAabb bo)
                     then (False, st\<lparr> k_boss := Some (boss_takeHit 1 bo),
                                      k_player := addComboScore 150 (k_player st) \<rparr>)
                     else (True, st))))"

definition bullets_pass :: "real \<Rightarrow> real \<Rightarrow> level \<Rightarrow> player \<Rightarrow> level \<times> player" where
  "bullets_pass dt frameScale lvl p =
     (case filter_each (bullet_keep (l_width lvl)) (map (bullet_move dt frameScale) (bullets lvl))
             \<lparr> k_enemies = enemies lvl, k_boss = l_boss lvl, k_player = p,
               k_progress = l_progress lvl \<rparr> of
        (bs, st) \<Rightarrow>
          (lvl\<lparr> bullets := bs, enemies := k_enemies st, l_boss := k_boss st,
                l_progress := k_progress st \<rparr>, k_player st))"

subsection \<open>Boss defeat and tasks\<close>

definition reward_coins :: "real \<Rightarrow> real \<Rightarrow> coin list" where
  "reward_coins cx cy =
     map (\<lambda>i. \<lparr> c_x = cx - 120 + real i * 10, c_y = cy - real (i mod 4) * 8,
                 c_vx = (real (i mod 5) - 2) * 2.5, c_vy = - 6 - real (i mod 3) * 2,
                 c_active = True, c_static = False \<rparr>) [0 ..< 24]"

definition boss_defeat :: "level \<Rightarrow> player \<Rightarrow> level \<times> player" where
  "boss_defeat lvl p =
     (case l_boss lvl of
        None \<Rightarrow> (lvl, p)
      | Some b \<Rightarrow>
          if \<not> b_alive b \<and> \<not> bossRewarded lvl then
            (let p1 = addComboScore 1000 p;
                 cx = b_x b; cy = b_y b - 40; rewardY = cy - 40
             in (lvl\<lparr> bossRewarded := True, bossAttacks := [],
                      l_progress := (l_progress lvl)
                        \<lparr> bossDefeatedNoShield := (shieldHits p < shieldMaxHits p) \<rparr>,
                      coins := coins lvl @ reward_coins cx cy,
                      powerPickups := powerPickups lvl @
                        [\<lparr> pp_x = cx, pp_y = rewardY, pp_vy = - 3.2, pp_maxY = rewardY - 22,
                           pp_type = Power_green, pp_collected = False, pp_bob = 0 \<rparr>] \<rparr>,
                 p1\<lparr> rings := rings p1 + 20 \<rparr>))
          else (lvl, p))"

text \<open>
  A task's predicate. A missing target or time makes a comparison false, as a comparison
  with \<^verbatim>\<open>undefined\<close> or \<^verbatim>\<open>NaN\<close> is; \<^verbatim>\<open>t.target || total\<close> falls back to the total when
  the target is zero or missing.
\<close>

definition task_done :: "progress \<Rightarrow> task \<Rightarrow> bool" where
  "task_done pr t =
     (case t_type t of
        T_coins \<Rightarrow> (case t_target t of None \<Rightarrow> False | Some n \<Rightarrow> coinsCollected pr \<ge> n)
      | T_flyingEnemies \<Rightarrow>
          flyingKilled pr \<ge> (case t_target t of None \<Rightarrow> flyingTotal pr
                               | Some n \<Rightarrow> if n = 0 then flyingTotal pr else n)
      | T_groundEnemies \<Rightarrow>
          groundKilled pr \<ge> (case t_target t of None \<Rightarrow> groundTotal pr
                               | Some n \<Rightarrow> if n = 0 then groundTotal pr else n)
      | T_springsUsed \<Rightarrow> (case t_target t of None \<Rightarrow> False | Some n \<Rightarrow> springsUsed pr \<ge> n)
      | T_bothCoins \<Rightarrow> hasPowerCoin pr \<and> hasShieldCoin pr
      | T_bossNoShield \<Rightarrow> bossDefeatedNoShield pr
      | T_timeLimit \<Rightarrow>
          reachedGoal pr \<and>
          (case (goalReachedTime pr, startTime pr, t_target t) of
             (Some g, Some s0, Some n) \<Rightarrow> g - s0 \<le> real_of_int n
           | _ \<Rightarrow> False))"

record mission =
  m_completed :: "string set"
  m_just :: "(string \<times> real) option"
  m_player :: player

definition task_step :: "progress \<Rightarrow> mission \<Rightarrow> task \<Rightarrow> mission" where
  "task_step pr st t =
     (if t_id t \<in> m_completed st then st
      else if task_done pr t then
        st\<lparr> m_completed := insert (t_id t) (m_completed st),
            m_just := Some (t_id t, 0.7),
            m_player := (if \<not> t_mandatory t
                         then (m_player st)\<lparr> rings := rings (m_player st) + 5 \<rparr>
                         else m_player st) \<rparr>
      else st)"

definition tasks_pass :: "level \<Rightarrow> player \<Rightarrow> level \<times> player" where
  "tasks_pass lvl p =
     (let st = foldl (task_step (l_progress lvl))
                 \<lparr> m_completed = completedTasks lvl, m_just = justCompleted lvl, m_player = p \<rparr>
                 (tasks lvl)
      in (lvl\<lparr> completedTasks := m_completed st, justCompleted := m_just st \<rparr>, m_player st))"

subsection \<open>The tick\<close>

definition Level_update :: "real \<Rightarrow> real \<Rightarrow> level \<Rightarrow> player \<Rightarrow> level \<times> player" where
  "Level_update dt nowSeconds lvl0 p0 =
     (let frameScale = dt * 60;
          hb = getHitbox p0;
          px = r_x hb + r_w hb / 2;
          py = r_y hb + r_h hb / 2;
          phb = getHitbox p0;
          (lvl, p) = springs_pass dt phb (progress_clock dt nowSeconds p0 lvl0) p0;
          (lvl, p) = boxes_pass dt frameScale phb lvl p;
          (lvl, p) = coins_pass dt px py lvl p;
          (lvl, p) = magnets_pass dt px py lvl p;
          (lvl, p) = powers_pass dt phb lvl p;
          (lvl, p) = fruits_pass dt phb lvl p;
          (lvl, p) = enemies_pass dt phb lvl p;
          (lvl, p) = boss_pass dt phb lvl p;
          (lvl, p) = attacks_pass dt frameScale phb lvl p;
          (lvl, p) = bullets_pass dt frameScale lvl p;
          (lvl, p) = boss_defeat lvl p
      in tasks_pass lvl p)"

text \<open>\<^verbatim>\<open>areMandatoryTasksComplete\<close>: the loop returns false at the first mandatory task that is not completed.\<close>

fun mandatory_loop :: "task list \<Rightarrow> string set \<Rightarrow> bool" where
  "mandatory_loop [] completed = True"
| "mandatory_loop (t # ts) completed =
     (if t_mandatory t \<and> t_id t \<notin> completed then False else mandatory_loop ts completed)"

definition areMandatoryTasksComplete :: "level \<Rightarrow> bool" where
  "areMandatoryTasksComplete lvl = mandatory_loop (tasks lvl) (completedTasks lvl)"

definition hasAliveBoss :: "level \<Rightarrow> bool" where
  "hasAliveBoss lvl = (case l_boss lvl of None \<Rightarrow> False | Some b \<Rightarrow> b_alive b)"

section \<open>Level construction\<close>

definition LEVEL_DEFS :: "level_def list" where
  "LEVEL_DEFS =
     [ \<lparr> d_name = ''Green Plains (Day)'', d_sky = ''#8cb4ff'', d_hill = ''rgba(47,160,110,0.45)'',
         d_groundTop = ''#2fdc74'', d_dirt = ''#a86a2a'' \<rparr>,
       \<lparr> d_name = ''Haunted Hills (Night)'', d_sky = ''#070814'', d_hill = ''rgba(140,140,255,0.14)'',
         d_groundTop = ''#4fe68a'', d_dirt = ''#3b2430'' \<rparr>,
       \<lparr> d_name = ''Forest Grove'', d_sky = ''#5dc7ff'', d_hill = ''rgba(25,110,65,0.55)'',
         d_groundTop = ''#2fdc74'', d_dirt = ''#5c3b22'' \<rparr>,
       \<lparr> d_name = ''Underwater Ruins'', d_sky = ''#154064'', d_hill = ''rgba(80,160,220,0.45)'',
         d_groundTop = ''#6ad7ff'', d_dirt = ''#24405d'' \<rparr>,
       \<lparr> d_name = ''Desert Dunes'', d_sky = ''#ffd08a'', d_hill = ''rgba(220,160,80,0.35)'',
         d_groundTop = ''#c7ff6a'', d_dirt = ''#c08a2a'' \<rparr>,
       \<lparr> d_name = ''Sky Islands'', d_sky = ''#bfe6ff'', d_hill = ''rgba(255,255,255,0.45)'',
         d_groundTop = ''#e8fff7'', d_dirt = ''#6a7a8a'' \<rparr>,
       \<lparr> d_name = ''Lava Caverns'', d_sky = ''#2a0b0b'', d_hill = ''rgba(255,120,60,0.25)'',
         d_groundTop = ''#ffcc6a'', d_dirt = ''#5a1a10'' \<rparr>,
       \<lparr> d_name = ''City Rooftops'', d_sky = ''#0a0f2a'', d_hill = ''rgba(255,255,255,0.10)'',
         d_groundTop = ''#5dffb0'', d_dirt = ''#3a3a44'' \<rparr>,
       \<lparr> d_name = ''Ocean Night'', d_sky = ''#062238'', d_hill = ''rgba(40,170,220,0.35)'',
         d_groundTop = ''#2fdc74'', d_dirt = ''#20485f'' \<rparr>,
       \<lparr> d_name = ''Starship Zone'', d_sky = ''#05060d'', d_hill = ''rgba(120,255,240,0.12)'',
         d_groundTop = ''#66fff0'', d_dirt = ''#2a2a38'' \<rparr> ]"

text \<open>
  The constructor leaves \<^verbatim>\<open>_progress\<close> an empty object; its counters are written by
  \<^verbatim>\<open>reset\<close> before anything reads them, so the model starts them at zero.
\<close>

definition empty_progress :: progress where
  "empty_progress =
     \<lparr> coinsCollected = 0, flyingKilled = 0, flyingTotal = 0, groundKilled = 0,
       groundTotal = 0, springsUsed = 0, hasPowerCoin = False, hasShieldCoin = False,
       bossDefeatedNoShield = False, startTime = None, reachedGoal = False,
       goalReachedTime = None \<rparr>"

definition new_level :: "level_def \<Rightarrow> int \<Rightarrow> level" where
  "new_level def index =
     (let width = 6200 + real_of_int index * 520
      in \<lparr> l_def = def, l_index = index, l_width = width, l_height = 900,
           solids = [], coins = [], enemies = [], powerPickups = [], bullets = [],
           l_boss = None, bossRewarded = False, bossAttacks = [], springs = [],
           boxes = [], fruits = [], magnetPickups = [], goalX = width - 120,
           tasks = [], l_progress = empty_progress, completedTasks = {},
           justCompleted = None \<rparr>)"

text \<open>The template literal \<^verbatim>\<open>`${levelIndex}`\<close>: the decimal digits of an integer.\<close>

fun nat_str :: "nat \<Rightarrow> string" where
  "nat_str n =
     (if n < 10 then [''0123456789'' ! n]
      else nat_str (n div 10) @ [''0123456789'' ! (n mod 10)])"

definition int_str :: "int \<Rightarrow> string" where
  "int_str i = (if i < 0 then CHR ''-'' # nat_str (nat (- i)) else nat_str (nat i))"

text \<open>An array read \<^verbatim>\<open>xs[i]\<close>: \<^verbatim>\<open>undefined\<close> outside the array.\<close>

definition js_index :: "'a list \<Rightarrow> int \<Rightarrow> 'a option" where
  "js_index xs i = (if 0 \<le> i \<and> i < int (length xs) then Some (xs ! nat i) else None)"

definition getTasksForLevel :: "int \<Rightarrow> task list" where
  "getTasksForLevel levelIndex =
     (let coinTargets = [8, 10, 12, 14, 16, 18, 20, 22, 24, 26];
          L = ''L'' @ int_str levelIndex;
          pool =
            [ \<lparr> t_id = L @ ''_coins'', t_type = T_coins,
                t_target = js_index coinTargets (min levelIndex 9), t_mandatory = True \<rparr>,
              \<lparr> t_id = L @ ''_fly'', t_type = T_flyingEnemies, t_target = Some (- 1),
                t_mandatory = (levelIndex < 5) \<rparr>,
              \<lparr> t_id = L @ ''_spring'', t_type = T_springsUsed,
                t_target = Some (if levelIndex < 4 then 2 else 3), t_mandatory = False \<rparr> ]
            @ (if levelIndex \<ge> 2
               then [\<lparr> t_id = L @ ''_both'', t_type = T_bothCoins, t_target = Some 1,
                       t_mandatory = False \<rparr>] else [])
            @ (if levelIndex \<ge> 4
               then [\<lparr> t_id = L @ ''_boss'', t_type = T_bossNoShield, t_target = Some 1,
                       t_mandatory = False \<rparr>] else [])
            @ (if levelIndex \<ge> 3
               then [\<lparr> t_id = L @ ''_ground'', t_type = T_groundEnemies, t_target = Some (- 1),
                       t_mandatory = False \<rparr>] else [])
            @ (if levelIndex \<ge> 5
               then [\<lparr> t_id = L @ ''_time'', t_type = T_timeLimit,
                       t_target = js_index [120, 150, 140, 180, 160, 200] (js_rem levelIndex 6),
                       t_mandatory = False \<rparr>] else []);
          count = min (int (length pool)) (max 2 (2 + js_rem levelIndex 3))
      in take (nat count) pool)"

definition new_enemy :: "real \<Rightarrow> real \<Rightarrow> real \<Rightarrow> real \<Rightarrow> real \<Rightarrow> enemy" where
  "new_enemy x0 y0 rng speed hp =
     \<lparr> e_x = x0, e_y = y0, e_w = 32, e_h = 28, e_baseX = x0, e_baseY = 0, e_range = rng,
       e_speed = speed, e_amp = 0, e_dir = 1, e_t = 0, e_alive = True, e_hp = hp,
       e_maxHp = hp, e_hitTimer = 0, e_deathTimer = 0, e_isFlying = False \<rparr>"

definition new_bird :: "real \<Rightarrow> real \<Rightarrow> real \<Rightarrow> real \<Rightarrow> real \<Rightarrow> real \<Rightarrow> enemy" where
  "new_bird x0 y0 rng speed amp hp =
     \<lparr> e_x = x0, e_y = y0, e_w = 32, e_h = 24, e_baseX = x0, e_baseY = y0, e_range = rng,
       e_speed = speed, e_amp = amp, e_dir = 1, e_t = 0, e_alive = True, e_hp = hp,
       e_maxHp = hp, e_hitTimer = 0, e_deathTimer = 0, e_isFlying = True \<rparr>"

definition new_boss :: "real \<Rightarrow> real \<Rightarrow> int \<Rightarrow> real \<Rightarrow> boss" where
  "new_boss x0 y0 levelIndex maxHp =
     \<lparr> b_x = x0, b_y = y0, b_baseX = x0, b_range = 200 + real_of_int levelIndex * 10,
       b_w = 96, b_h = 96, b_maxHp = maxHp, b_hp = maxHp, b_alive = True, b_hurtTimer = 0,
       b_deathTimer = 0, b_dir = - 1, b_attackCooldown = 0,
       b_attackInterval = 2.5 - real_of_int levelIndex * 0.1 \<rparr>"

definition solid :: "real \<Rightarrow> real \<Rightarrow> real \<Rightarrow> real \<Rightarrow> rect" where
  "solid x0 y0 w h = \<lparr> r_x = x0, r_y = y0, r_w = w, r_h = h \<rparr>"

definition new_box :: "real \<Rightarrow> real \<Rightarrow> box_type \<Rightarrow> box" where
  "new_box x0 y0 ty =
     \<lparr> bx_x = x0, bx_y = y0, bx_w = 32, bx_h = 32, bx_type = ty, used = False, bounceAnim = 0 \<rparr>"

text \<open>\<^verbatim>\<open>boxY(platformTopY) = platformTopY - BOX_HEIGHT_ABOVE_GROUND - boxH\<close>.\<close>

definition boxY :: "real \<Rightarrow> real" where
  "boxY platformTopY = platformTopY - 48 - 32"

definition new_spring :: "real \<Rightarrow> real \<Rightarrow> spring_dir \<Rightarrow> spring" where
  "new_spring x0 y0 d = \<lparr> sp_x = x0, sp_y = y0, sp_w = 24, sp_h = 16, sp_dir = d, compress = 0 \<rparr>"

definition floor_coin :: "real \<Rightarrow> real \<Rightarrow> coin" where
  "floor_coin x0 y0 = \<lparr> c_x = x0, c_y = y0, c_vx = 0, c_vy = 0, c_active = True, c_static = True \<rparr>"

definition new_magnet :: "real \<Rightarrow> real \<Rightarrow> magnet_pickup" where
  "new_magnet x0 y0 = \<lparr> mp_x = x0, mp_y = y0, mp_collected = False, mp_bob = 0 \<rparr>"

text \<open>The quantities \<^verbatim>\<open>reset\<close> derives from the level index before it builds anything.\<close>

record layout =
  lay_index :: int
  lay_width :: real
  lift :: real
  pitX1 :: real
  pitX2 :: real
  baseY :: real
  springBaseX :: real

definition layout_of :: "level \<Rightarrow> layout" where
  "layout_of lvl =
     (let index = l_index lvl;
          lift0 = real_of_int (js_rem index 3) * 10;
          pitWidth = 180 + real_of_int (js_rem index 4) * 40;
          pitX10 = 980 + real_of_int (js_rem index 5) * 30;
          pitX20 = pitX10 + pitWidth
      in \<lparr> lay_index = index, lay_width = l_width lvl, lift = lift0, pitX1 = pitX10,
           pitX2 = pitX20, baseY = 300 + lift0,
           springBaseX = pitX20 + 400 + real_of_int index * 80 \<rparr>)"

definition base_solids :: "layout \<Rightarrow> rect list" where
  "base_solids y =
     [ solid 0 (300 + lift y) (pitX1 y) 600,
       solid (pitX2 y) (300 + lift y) (lay_width y - pitX2 y) 600,
       solid 320 (250 - lift y) 120 20,
       solid 520 (220 - lift y) 140 20,
       solid 760 (260 - lift y) 120 20,
       solid 1450 (210 - lift y) 260 20 ]"

definition base_coins :: "layout \<Rightarrow> coin list" where
  "base_coins y =
     (let floorCoinY = baseY y - 10
      in map (\<lambda>gx. floor_coin gx floorCoinY)
           (filter (\<lambda>gx. gx < pitX1 y - 40)
              (map (\<lambda>i. 120 + real i * 55 + real_of_int (js_rem (lay_index y) 3) * 5) [0 ..< 14]))
         @ map (\<lambda>gx. floor_coin gx floorCoinY)
           (filter (\<lambda>gx. gx < lay_width y - 80)
              (map (\<lambda>i. pitX2 y + 80 + real i * 60 + real_of_int (js_rem (lay_index y) 2) * 8)
                 [0 ..< 12])))"

definition base_magnets :: "layout \<Rightarrow> magnet_pickup list" where
  "base_magnets y =
     (let magnetY = baseY y - 12
      in [ new_magnet 420 magnetY,
           new_magnet (pitX2 y + 350 + real_of_int (lay_index y) * 40) magnetY,
           new_magnet (springBaseX y + 350) magnetY ]
         @ (if lay_index y \<ge> 3 then [new_magnet (lay_width y - 1200) magnetY] else []))"

definition base_springs :: "layout \<Rightarrow> spring list" where
  "base_springs y =
     [ new_spring 340 (250 - lift y) Up,
       new_spring 800 (260 - lift y) Up,
       new_spring 1480 (210 - lift y) Diag_right,
       new_spring (springBaseX y) (baseY y - 20) Up,
       new_spring (springBaseX y + 380) (baseY y - 80) Diag_left,
       new_spring (springBaseX y + 720) (baseY y - 120) Up,
       new_spring (lay_width y - 800) (baseY y - 40) Diag_right ]"

definition base_boxes :: "layout \<Rightarrow> box list" where
  "base_boxes y =
     (let plat1 = 250 - lift y; plat2 = 220 - lift y; plat3 = 260 - lift y
      in [ new_box 380 (boxY plat1) Coin,
           new_box 440 (boxY plat1) Coin,
           new_box 500 (boxY plat1) Coin,
           new_box 560 (boxY plat2) Coin,
           new_box 620 (boxY plat2) Power_green,
           new_box 680 (boxY plat2) Coin,
           new_box 740 (boxY plat3) Growth,
           new_box 800 (boxY plat3) Coin,
           new_box (1100 + real_of_int (lay_index y) * 60) (boxY (baseY y)) Coin,
           new_box (springBaseX y + 120) (boxY (baseY y - 20)) Coin,
           new_box (springBaseX y + 200) (boxY (baseY y - 20)) Power_blue,
           new_box (springBaseX y + 280) (boxY (baseY y - 20)) Coin,
           new_box (springBaseX y + 440) (boxY (baseY y - 100)) Coin,
           new_box (springBaseX y + 500) (boxY (baseY y - 100)) Growth,
           new_box (springBaseX y + 560) (boxY (baseY y - 100)) Coin,
           new_box (springBaseX y + 680) (boxY (baseY y - 140)) Power_green,
           new_box (springBaseX y + 740) (boxY (baseY y - 140)) Coin ])"

definition base_boss :: "layout \<Rightarrow> boss" where
  "base_boss y =
     (let bossHp = 10 + real_of_int (lay_index y) * 4
      in new_boss (lay_width y - 260) (baseY y) (lay_index y) bossHp)"

definition base_enemies :: "layout \<Rightarrow> enemy list" where
  "base_enemies y =
     (let ix = real_of_int (lay_index y);
          enemyCount = 1 + lay_index y div 2;
          birdCount = 2 + lay_index y div 3
      in map (\<lambda>i. new_enemy (520 + real i * 260 + real_of_int (js_rem (lay_index y) 3) * 40)
                     (300 + lift y) (90 + real i * 20) (0.55 + ix * 0.02)
                     (if i mod 2 = 0 then 2 else 1))
           [0 ..< nat enemyCount]
         @ map (\<lambda>i. new_bird (900 + ix * 260 + real i * 420)
                       (200 - real_of_int (js_rem (lay_index y) 3) * 20 - real i * 10)
                       (140 + ix * 12) (0.8 + ix * 0.03) (20 + real (i mod 2) * 10) 1)
           [0 ..< nat birdCount])"

text \<open>
  The four layout variants. Each takes the solids built so far and returns the solids,
  the boxes to append and the enemies to append.
\<close>

fun update_first :: "('a \<Rightarrow> bool) \<Rightarrow> ('a \<Rightarrow> 'a) \<Rightarrow> 'a list \<Rightarrow> 'a list" where
  "update_first P f [] = []"
| "update_first P f (x # xs) = (if P x then f x # xs else x # update_first P f xs)"

definition carve_pit :: "layout \<Rightarrow> rect list \<Rightarrow> rect list" where
  "carve_pit y ss =
     (let extraPitStart = lay_width y - 1100;
          extraPitWidth = 220 + real_of_int (js_rem (lay_index y) 3) * 40;
          is_ground = (\<lambda>s. r_y s = baseY y \<and> r_h s \<ge> 580 \<and> r_x s < lay_width y - 10)
      in case find is_ground ss of
           None \<Rightarrow> ss
         | Some lastGround \<Rightarrow>
             (let oldRight = r_x lastGround + r_w lastGround;
                  newRight = extraPitStart;
                  afterPitStart = extraPitStart + extraPitWidth
              in if afterPitStart < oldRight - 80 then
                   update_first is_ground (\<lambda>s. s\<lparr> r_w := max 0 (newRight - r_x s) \<rparr>) ss
                   @ [solid afterPitStart (baseY y) (oldRight - afterPitStart) (r_h lastGround)]
                 else ss))"

definition layout_A :: "layout \<Rightarrow> rect list \<Rightarrow> rect list \<times> box list \<times> enemy list" where
  "layout_A y ss =
     (let index = lay_index y; ix = real_of_int index;
          stepWidth = 140; stepHeight = 20;
          firstStepX = pitX2 y + 120;
          firstStepY = baseY y - 70;
          steps = 4 + min 4 index;
          skyY = baseY y - 260;
          skyPlatforms = 3 + min 3 (index div 2);
          stairCoins = 8 + index;
          skyCoins = 6 + index div 2
      in (carve_pit y ss
          @ map (\<lambda>i. solid (firstStepX + real i * (stepWidth + 40)) (firstStepY - real i * 30)
                        stepWidth stepHeight) [0 ..< nat steps]
          @ map (\<lambda>i. solid (firstStepX + 140 + real i * 260 + ix * 40)
                        (skyY + (if i mod 2 = 0 then 0 else - 40)) 160 20) [0 ..< nat skyPlatforms],
          map (\<lambda>i. new_box (firstStepX + 20 + real i * 70 - 32 / 2)
                      (boxY (firstStepY - real i * 30)) Coin) [0 ..< nat stairCoins]
          @ map (\<lambda>i. new_box (firstStepX + 140 + real i * 220 + ix * 30 - 32 / 2)
                        (boxY (skyY + (if i mod 2 = 0 then 0 else - 40))) Coin) [0 ..< nat skyCoins],
          [ new_enemy (firstStepX + 3 * (stepWidth + 40) + ix * 40) (baseY y)
              (140 + ix * 10) (0.75 + ix * 0.03) 2,
            new_enemy (lay_width y - 550) (baseY y) (160 + ix * 8) (0.85 + ix * 0.035) 2 ]))"

definition layout_B :: "layout \<Rightarrow> rect list \<Rightarrow> rect list \<times> box list \<times> enemy list" where
  "layout_B y ss =
     (let index = lay_index y; ix = real_of_int index;
          segmentStart = pitX2 y + 260;
          pits = 3 + index div 2;
          platCount = 6 + index;
          platTop = (\<lambda>i. baseY y - 80 - real i * 10 * (if i mod 2 = 0 then 1 else - 1))
      in (ss
          @ map (\<lambda>i. solid (segmentStart + real i * 320 + (120 + real (i mod 2) * 60)) (baseY y)
                        200 600) [0 ..< nat pits]
          @ map (\<lambda>i. solid (segmentStart + real i * 210) (platTop i) 130 20) [0 ..< nat platCount],
          map (\<lambda>i. new_box (segmentStart + real i * 210 + 40 - 32 / 2) (boxY (platTop i)) Coin)
            [0 ..< nat platCount],
          [ new_enemy (segmentStart + 260) (baseY y) (120 + ix * 12) (0.8 + ix * 0.03) 2,
            new_enemy (segmentStart + 260 * 3) (baseY y - 40) (140 + ix * 10) (0.85 + ix * 0.03) 1 ]))"

definition layout_C :: "layout \<Rightarrow> rect list \<Rightarrow> rect list \<times> box list \<times> enemy list" where
  "layout_C y ss =
     (let index = lay_index y; ix = real_of_int index;
          towerBase = pitX2 y + 220;
          towerCount = 4 + index div 2;
          stoneCount = 10 + index;
          platTop = (\<lambda>i. baseY y - 180 - real (i mod 3) * 40)
      in (ss
          @ map (\<lambda>i. solid (towerBase + real i * 320) (baseY y - 80 - real i * 10) 80 680)
              [0 ..< nat towerCount]
          @ map (\<lambda>i. solid (towerBase + 80 + real i * 160) (platTop i) 90 18) [0 ..< nat stoneCount],
          map (\<lambda>i. new_box (towerBase + 80 + real i * 160 + 30 - 32 / 2) (boxY (platTop i)) Coin)
            [0 ..< nat stoneCount],
          [ new_enemy (towerBase + 160) (baseY y) (150 + ix * 10) (0.8 + ix * 0.03) 2,
            new_enemy (towerBase + 160 * 3) (baseY y - 60) (130 + ix * 8) (0.9 + ix * 0.03) 1 ]))"

definition layout_D :: "layout \<Rightarrow> rect list \<Rightarrow> rect list \<times> box list \<times> enemy list" where
  "layout_D y ss =
     (let index = lay_index y; ix = real_of_int index;
          islandBase = pitX2 y + 260;
          islandCount = 4 + index div 2;
          skyPathY = baseY y - 260;
          skyPlats = 6 + index;
          platTop = (\<lambda>i. skyPathY + (if i mod 2 = 0 then - 30 else 20))
      in (ss
          @ map (\<lambda>i. solid (islandBase + real i * 420) (baseY y) 180 600) [0 ..< nat islandCount]
          @ map (\<lambda>i. solid (islandBase + real i * 220) (platTop i) 150 20) [0 ..< nat skyPlats],
          map (\<lambda>i. new_box (islandBase + real i * 220 + 50 - 32 / 2) (boxY (platTop i)) Coin)
            [0 ..< nat skyPlats],
          [ new_enemy (islandBase + 260) (baseY y - 40) (150 + ix * 10) (0.85 + ix * 0.03) 2,
            new_enemy (lay_width y - 620) (baseY y - 80) (190 + ix * 8) (0.95 + ix * 0.03) 1 ]))"

definition extra_layout :: "layout \<Rightarrow> rect list \<Rightarrow> rect list \<times> box list \<times> enemy list" where
  "extra_layout y ss =
     (let layoutType = js_rem (lay_index y) 4
      in if layoutType = 0 then layout_A y ss
         else if layoutType = 1 then layout_B y ss
         else if layoutType = 2 then layout_C y ss
         else layout_D y ss)"

definition reset :: "level \<Rightarrow> level" where
  "reset lvl =
     (let y = layout_of lvl;
          (ss, bxs, es0) = extra_layout y (base_solids y);
          es = base_enemies y @ es0;
          fTotal = int (length (filter e_isFlying es));
          gTotal = int (length (filter (\<lambda>e. \<not> e_isFlying e) es));
          retarget = (\<lambda>t. if t_type t = T_flyingEnemies then t\<lparr> t_target := Some fTotal \<rparr>
                          else if t_type t = T_groundEnemies then t\<lparr> t_target := Some gTotal \<rparr>
                          else t)
      in lvl\<lparr> bossRewarded := False, solids := ss, powerPickups := [], coins := base_coins y,
              magnetPickups := base_magnets y, springs := base_springs y,
              boxes := base_boxes y @ bxs, l_boss := Some (base_boss y), enemies := es,
              tasks := map retarget (getTasksForLevel (l_index lvl)),
              l_progress := empty_progress\<lparr> flyingTotal := fTotal, groundTotal := gTotal \<rparr>,
              completedTasks := {}, justCompleted := None \<rparr>)"

text \<open>
  \<^verbatim>\<open>createLevel(levelIndex)\<close>: the clamp is applied to the subscript of \<^verbatim>\<open>LEVEL_DEFS\<close>;
  the \<^verbatim>\<open>Level\<close> is constructed with \<^verbatim>\<open>levelIndex\<close> itself.
\<close>

definition createLevel :: "int \<Rightarrow> level" where
  "createLevel levelIndex =
     reset (new_level (LEVEL_DEFS ! nat (clamp levelIndex 0 (int (length LEVEL_DEFS) - 1))) levelIndex)"

section \<open>Predicates and sample data for the properties\<close>


definition timers_nonneg :: "player \<Rightarrow> bool" where
  "timers_nonneg p \<longleftrightarrow>
     0 \<le> invuln p \<and> 0 \<le> gunCooldown p \<and> 0 \<le> powerFlash p \<and> 0 \<le> shootFlash p \<and>
     0 \<le> comboTimer p \<and> 0 \<le> shieldShatter p \<and> 0 \<le> springLaunchTimer p \<and>
     0 \<le> growthTransformTimer p \<and> 0 \<le> magnetTimer p"

text \<open>
  Two facts that hold of every player the game builds: the shield is only up on a player
  that has the shield power, and no timer is negative.
\<close>

definition player_ok :: "player \<Rightarrow> bool" where
  "player_ok p \<longleftrightarrow> (shieldActive p \<longrightarrow> hasShieldPower p) \<and> timers_nonneg p"

text \<open>
  The player states the game reaches. The player is built by \<^verbatim>\<open>new Player\<close> and from then on
  written only by its own methods, by \<^verbatim>\<open>Level.update\<close>, and by three statements of the
  engine: \<^verbatim>\<open>_reset\<close> (lines 3131 to 3133), the shot in \<^verbatim>\<open>_step\<close> (lines 3182 and 3183) and
  the clearing of the spring flag (line 3195). The arguments of the calls and the guards
  of the engine's statements are left open, so the set is no smaller than what a run of
  the game produces.
\<close>

inductive player_reachable :: "player \<Rightarrow> bool" where
  constructed: "player_reachable (new_player x0 y0)"
| respawned: "player_reachable p \<Longrightarrow> player_reachable (respawn x0 y0 p)"
| spawn_set: "player_reachable p \<Longrightarrow> player_reachable (setSpawn x0 y0 p)"
| hit: "player_reachable p \<Longrightarrow> player_reachable (takeHit k p)"
| scored: "player_reachable p \<Longrightarrow> player_reachable (addComboScore base p)"
| updated: "player_reachable p \<Longrightarrow> player_reachable (fst (update dt inp lvl t p))"
| level_updated: "player_reachable p \<Longrightarrow> player_reachable (snd (Level_update dt t lvl p))"
| game_reset: "player_reachable p \<Longrightarrow> player_reachable (p\<lparr> lives := 5, rings := 0, score := 0 \<rparr>)"
| shot: "player_reachable p \<Longrightarrow> player_reachable (p\<lparr> gunCooldown := 0.25, shootFlash := 0.15 \<rparr>)"
| spring_seen: "player_reachable p \<Longrightarrow> player_reachable (p\<lparr> justLaunchedSpring := False \<rparr>)"

code_pred player_reachable .

text \<open>The boss's health and alive flag, when the level has a boss.\<close>

definition boss_vitals :: "level \<Rightarrow> (real \<times> bool) option" where
  "boss_vitals lvl = map_option (\<lambda>b. (b_hp b, b_alive b)) (l_boss lvl)"

text \<open>The boss's position, when the level has a boss.\<close>

definition boss_place :: "level \<Rightarrow> (real \<times> real) option" where
  "boss_place lvl = map_option (\<lambda>b. (b_x b, b_y b)) (l_boss lvl)"

text \<open>
  The box of a bullet (line 2188), and the test under which the bullet filter sends a
  bullet to the boss: the bullet is live and inside the level's bounds, the boss is alive,
  and the two boxes overlap.
\<close>

definition bullet_box :: "bullet \<Rightarrow> rect" where
  "bullet_box b = \<lparr> r_x = bl_x b - 4, r_y = bl_y b - 4, r_w = 8, r_h = 8 \<rparr>"

definition bullet_on_boss :: "real \<Rightarrow> boss \<Rightarrow> bullet \<Rightarrow> bool" where
  "bullet_on_boss width bo b \<longleftrightarrow>
     \<not> (bl_life b \<le> 0 \<or> bl_x b < - 100 \<or> bl_x b > width + 100) \<and>
     b_alive bo \<and> aabbIntersects (bullet_box b) (boss_getAabb bo)"

text \<open>
  No bullet of the level, moved as this tick moves it, passes that test against the boss
  as \<^verbatim>\<open>Boss.update\<close> leaves it in this tick.
\<close>

definition bullets_miss_boss :: "real \<Rightarrow> player \<Rightarrow> level \<Rightarrow> bool" where
  "bullets_miss_boss dt p lvl \<longleftrightarrow>
     (case l_boss lvl of
        None \<Rightarrow> True
      | Some b \<Rightarrow>
          list_all (\<lambda>bu. \<not> bullet_on_boss (l_width lvl) (fst (boss_update dt p b))
                            (bullet_move dt (dt * 60) bu)) (bullets lvl))"

text \<open>The ids of the mandatory tasks of a task list.\<close>

definition mandatory_ids :: "task list \<Rightarrow> string set" where
  "mandatory_ids ts = set (map t_id (filter t_mandatory ts))"

text \<open>
  A level with only the first ground solid of level 0, a level with two staggered
  platforms five pixels apart in height, and players and inputs to run on them.
\<close>

definition ground_level :: level where
  "ground_level =
     (new_level (LEVEL_DEFS ! 0) 0)\<lparr> solids := [\<lparr> r_x = 0, r_y = 300, r_w = 980, r_h = 600 \<rparr>] \<rparr>"

definition stepped_level :: level where
  "stepped_level =
     (new_level (LEVEL_DEFS ! 0) 0)
       \<lparr> solids := [\<lparr> r_x = 0, r_y = 100, r_w = 90, r_h = 20 \<rparr>,
                    \<lparr> r_x = 70, r_y = 105, r_w = 130, r_h = 20 \<rparr>] \<rparr>"

definition falling_player :: "real \<Rightarrow> real \<Rightarrow> player" where
  "falling_player y0 v = (new_player 80 220)\<lparr> p_y := y0, vy := v \<rparr>"

definition idle_input :: input where
  "idle_input =
     \<lparr> i_left = False, i_right = False, i_down = False, i_shieldPressed = False,
       i_jumpReleasedThisFrame = False, i_jumpBufferedUntil = - 1 \<rparr>"

text \<open>
  A coin box with its bottom edge at 202 and a small player whose head rose from 205 to
  200 this tick; a level of index 2 holding that box.
\<close>

definition hit_box :: box where
  "hit_box = new_box 380 170 Coin"

definition jumping_player :: player where
  "jumping_player = (new_player 396 228)\<lparr> vy := - 5 \<rparr>"

definition box_level :: level where
  "box_level = (new_level (LEVEL_DEFS ! 2) 2)\<lparr> boxes := [hit_box] \<rparr>"

text \<open>
  The first two boxes of level 0, side by side with their bottom edges at 202, and a big
  rolling player whose 30 pixel wide hitbox rose from 203 to 198 under both of them.
\<close>

definition twin_box_level :: level where
  "twin_box_level =
     (new_level (LEVEL_DEFS ! 0) 0)\<lparr> boxes := [new_box 380 170 Coin, new_box 440 170 Coin] \<rparr>"

definition rolling_player :: player where
  "rolling_player = (new_player 426 228)\<lparr> vy := - 5, isBig := True, rolling := True \<rparr>"

text \<open>
  A run of the game that raises the shield: a level holding a coin and a blue orb at the
  chest of the new player; the player after one tick of that level (one ring, the shield
  power); that player after one \<^verbatim>\<open>Player.update\<close> with the shield key pressed (the shield
  is up); and that player after four hits on the shield.
\<close>

definition orb_level :: level where
  "orb_level =
     (new_level (LEVEL_DEFS ! 0) 0)
       \<lparr> coins := [floor_coin 80 206], powerPickups := [box_power Power_blue 80 206] \<rparr>"

definition shield_input :: input where
  "shield_input = idle_input\<lparr> i_shieldPressed := True \<rparr>"

definition orb_player :: player where
  "orb_player = snd (Level_update (1 / 60) 0 orb_level (new_player 80 220))"

definition shield_up_player :: player where
  "shield_up_player = fst (update (1 / 60) shield_input orb_level 0 orb_player)"

definition worn_shield_player :: player where
  "worn_shield_player = takeHit 1 (takeHit 1 (takeHit 1 (takeHit 1 shield_up_player)))"

text \<open>Across a tick, a used box is still used (the boxes are compared position by position).\<close>

definition used_stays :: "level \<Rightarrow> level \<Rightarrow> bool" where
  "used_stays a b \<longleftrightarrow> list_all2 (\<lambda>x y. used x \<longrightarrow> used y) (boxes a) (boxes b)"

text \<open>
  The test under which \<^verbatim>\<open>magnet_step\<close> collects a pickup: not yet collected, and within
  reach after its bob phase has advanced.
\<close>

definition magnet_hit :: "real \<Rightarrow> real \<Rightarrow> real \<Rightarrow> magnet_pickup \<Rightarrow> bool" where
  "magnet_hit dt px py mp \<longleftrightarrow> \<not> mp_collected mp \<and> magnet_touch px py (magnet_bob dt mp)"

text \<open>Two magnet pickups five pixels apart on the floor of level 0.\<close>

definition magnet_level :: level where
  "magnet_level = (new_level (LEVEL_DEFS ! 0) 0)\<lparr> magnetPickups := [new_magnet 420 288, new_magnet 425 288] \<rparr>"

text \<open>
  The boss of level 0 standing at x = 1000 on ground 300 in a level with one bullet far
  from it, a player falling onto its head, and a bullet inside its bounding box.
\<close>

definition sample_boss :: boss where
  "sample_boss = new_boss 1000 300 0 10"

definition stray_bullet :: bullet where
  "stray_bullet = \<lparr> bl_x = 100, bl_y = 250, bl_vx = 12, bl_life = 0.9, bl_dir = 1 \<rparr>"

definition boss_level :: level where
  "boss_level =
     (new_level (LEVEL_DEFS ! 0) 0)\<lparr> l_boss := Some sample_boss, bullets := [stray_bullet] \<rparr>"

definition stomping_player :: player where
  "stomping_player = (new_player 1000 206)\<lparr> vy := 4 \<rparr>"

definition sample_bullet :: bullet where
  "sample_bullet = \<lparr> bl_x = 960, bl_y = 250, bl_vx = 12, bl_life = 0.9, bl_dir = 1 \<rparr>"

definition sample_combat :: combat where
  "sample_combat =
     \<lparr> k_enemies = [], k_boss = Some sample_boss, k_player = stomping_player,
       k_progress = empty_progress \<rparr>"

text \<open>The four tasks of level 2, and a level holding them with a given completed set.\<close>

definition sample_tasks :: "task list" where
  "sample_tasks =
     [ \<lparr> t_id = ''L2_coins'', t_type = T_coins, t_target = Some 12, t_mandatory = True \<rparr>,
       \<lparr> t_id = ''L2_fly'', t_type = T_flyingEnemies, t_target = Some (- 1), t_mandatory = True \<rparr>,
       \<lparr> t_id = ''L2_spring'', t_type = T_springsUsed, t_target = Some 2, t_mandatory = False \<rparr>,
       \<lparr> t_id = ''L2_both'', t_type = T_bothCoins, t_target = Some 1, t_mandatory = False \<rparr> ]"

definition mission_level :: "string set \<Rightarrow> level" where
  "mission_level c = (new_level (LEVEL_DEFS ! 2) 2)\<lparr> tasks := sample_tasks, completedTasks := c \<rparr>"

section \<open>Damage: shield, rings, lives\<close>

text \<open>
  Claim C10. With invulnerability timer 0, the shield not absorbing, no rings and the
  small form, \<^verbatim>\<open>takeHit\<close> takes exactly one life and respawns the player at the stored
  spawn point with zero velocity; the invulnerability it assigns (1.0) is overwritten by
  \<^verbatim>\<open>respawn\<close>, so the resulting invulnerability timer is 0.
\<close>

theorem takeHit_life_loss:
  assumes "invuln p = 0" and "\<not> (shieldActive p \<and> hasShieldPower p)"
    and "rings p = 0" and "\<not> isBig p"
  shows "lives (takeHit knockDir p) = lives p - 1 \<and>
         p_x (takeHit knockDir p) = spawnX p \<and> p_y (takeHit knockDir p) = spawnY p \<and>
         vx (takeHit knockDir p) = 0 \<and> vy (takeHit knockDir p) = 0 \<and>
         invuln (takeHit knockDir p) = 0"
  using assms by (simp add: takeHit_def respawn_def Let_def)

text \<open>A player in mid-fall at x = 500, spawn point (80, 220), five lives.\<close>

theorem takeHit_life_loss_witness:
  "invuln ((new_player 80 220)\<lparr> p_x := 500, vy := 3 \<rparr>) = 0 \<and>
   \<not> (shieldActive ((new_player 80 220)\<lparr> p_x := 500, vy := 3 \<rparr>) \<and>
       hasShieldPower ((new_player 80 220)\<lparr> p_x := 500, vy := 3 \<rparr>)) \<and>
   rings ((new_player 80 220)\<lparr> p_x := 500, vy := 3 \<rparr>) = 0 \<and>
   \<not> isBig ((new_player 80 220)\<lparr> p_x := 500, vy := 3 \<rparr>) \<and>
   lives (takeHit 1 ((new_player 80 220)\<lparr> p_x := 500, vy := 3 \<rparr>)) = 4 \<and>
   p_x (takeHit 1 ((new_player 80 220)\<lparr> p_x := 500, vy := 3 \<rparr>)) = 80 \<and>
   p_y (takeHit 1 ((new_player 80 220)\<lparr> p_x := 500, vy := 3 \<rparr>)) = 220 \<and>
   vy (takeHit 1 ((new_player 80 220)\<lparr> p_x := 500, vy := 3 \<rparr>)) = 0 \<and>
   invuln (takeHit 1 ((new_player 80 220)\<lparr> p_x := 500, vy := 3 \<rparr>)) = 0"
  using takeHit_life_loss [of "(new_player 80 220)\<lparr> p_x := 500, vy := 3 \<rparr>" 1]
  by (simp add: new_player_def)

section \<open>Landing on solids\<close>

lemma onTopCross_zero: "0 \<le> v \<Longrightarrow> onTopCross hb 0 s \<Longrightarrow> onTopCross hb v s"
  by (simp add: onTopCross_def Let_def)

lemma landing_pass_landed:
  assumes "vy p = 0" and "grounded p" and "\<exists>s'\<in>A. p_y p = r_y s'"
    and "\<forall>s\<in>set ss. onTopCross hb 0 s \<longrightarrow> s \<in> A"
  shows "vy (landing_pass hb t ss p) = 0 \<and> grounded (landing_pass hb t ss p) \<and>
         (\<exists>s'\<in>A. p_y (landing_pass hb t ss p) = r_y s')"
  using assms
proof (induction ss arbitrary: p)
  case Nil
  then show ?case by simp
next
  case (Cons s ss)
  let ?q = "land_on hb t s p"
  have "vy ?q = 0" "grounded ?q" using Cons.prems by (simp_all add: land_on_def)
  moreover have "\<exists>s'\<in>A. p_y ?q = r_y s'"
    using Cons.prems by (auto simp: land_on_def)
  moreover have "\<forall>s\<in>set ss. onTopCross hb 0 s \<longrightarrow> s \<in> A" using Cons.prems by simp
  ultimately show ?case using Cons.IH [of ?q] by simp
qed

lemma landing_pass_lands:
  assumes "vy p = v" and "0 \<le> v" and "\<exists>s\<in>set ss. onTopCross hb v s"
  shows "vy (landing_pass hb t ss p) = 0 \<and> grounded (landing_pass hb t ss p) \<and>
         (\<exists>s'\<in>set ss. onTopCross hb v s' \<and> p_y (landing_pass hb t ss p) = r_y s')"
  using assms
proof (induction ss arbitrary: p)
  case Nil
  then show ?case by simp
next
  case (Cons s ss)
  let ?q = "land_on hb t s p"
  let ?A = "{s' \<in> set (s # ss). onTopCross hb v s'}"
  show ?case
  proof (cases "onTopCross hb v s")
    case True
    have q: "vy ?q = 0" "grounded ?q" "p_y ?q = r_y s"
      using True Cons.prems by (simp_all add: land_on_def)
    have "\<exists>s'\<in>?A. p_y ?q = r_y s'" using q True by auto
    moreover have "\<forall>s'\<in>set ss. onTopCross hb 0 s' \<longrightarrow> s' \<in> ?A"
      using onTopCross_zero [OF Cons.prems(2)] by auto
    ultimately have "vy (landing_pass hb t ss ?q) = 0 \<and> grounded (landing_pass hb t ss ?q) \<and>
         (\<exists>s'\<in>?A. p_y (landing_pass hb t ss ?q) = r_y s')"
      using landing_pass_landed [of ?q ?A ss hb t] q by blast
    then show ?thesis by auto
  next
    case False
    then have "?q = p" using Cons.prems by (simp add: land_on_def)
    moreover have "\<exists>s\<in>set ss. onTopCross hb v s" using False Cons.prems by auto
    ultimately show ?thesis using Cons.IH [of p] Cons.prems by auto
  qed
qed

lemma push_out_vertical:
  "p_y (push_out hb2 s p) = p_y p \<and> vy (push_out hb2 s p) = vy p \<and>
   grounded (push_out hb2 s p) = grounded p"
  by (simp add: push_out_def Let_def)

lemma push_pass_vertical:
  "p_y (push_pass hb2 ss p) = p_y p \<and> vy (push_pass hb2 ss p) = vy p \<and>
   grounded (push_pass hb2 ss p) = grounded p"
  by (induction ss arbitrary: p) (simp_all add: push_out_vertical)

lemma getHitbox_bottom: "r_y (getHitbox p) + r_h (getHitbox p) = p_y p"
  by (simp add: getHitbox_def rectFromCenterBottom_def Let_def)

lemma landing_pass_idle:
  "vy p = 0 \<Longrightarrow> \<forall>s\<in>set ss. \<not> onTopCross hb 0 s \<Longrightarrow> landing_pass hb t ss p = p"
  by (induction ss arbitrary: p) (simp_all add: land_on_def)

lemma landing_pass_first:
  assumes "vy p \<ge> 0" and "onTopCross hb (vy p) s" and "\<forall>s'\<in>set ss. \<not> onTopCross hb 0 s'"
  shows "p_y (landing_pass hb t (s # ss) p) = r_y s"
proof -
  let ?q = "land_on hb t s p"
  have q: "vy ?q = 0" "p_y ?q = r_y s" using assms by (simp_all add: land_on_def)
  have "landing_pass hb t ss ?q = ?q" using landing_pass_idle [OF q(1) assms(3)] .
  then show ?thesis using q by simp
qed

lemma ground_solids:
  "collide_solids ground_level (falling_player 301 2) = [\<lparr> r_x = 0, r_y = 300, r_w = 980, r_h = 600 \<rparr>]"
  by (simp add: collide_solids_def ground_level_def falling_player_def new_player_def new_level_def
      getSolidsNear_def getHitbox_def clampToLevel_def clamp_def rectFromCenterBottom_def Let_def)

lemma ground_hitbox:
  "getHitbox (clampToLevel ground_level (falling_player 301 2)) = \<lparr> r_x = 72, r_y = 273, r_w = 16, r_h = 28 \<rparr>"
  by (simp add: ground_level_def falling_player_def new_player_def new_level_def
      getHitbox_def clampToLevel_def clamp_def rectFromCenterBottom_def Let_def)

lemma stepped_solids:
  "collide_solids stepped_level (falling_player 108 10) =
   [\<lparr> r_x = 0, r_y = 100, r_w = 90, r_h = 20 \<rparr>, \<lparr> r_x = 70, r_y = 105, r_w = 130, r_h = 20 \<rparr>]"
  by (simp add: collide_solids_def stepped_level_def falling_player_def new_player_def new_level_def
      getSolidsNear_def getHitbox_def clampToLevel_def clamp_def rectFromCenterBottom_def Let_def)

lemma stepped_hitbox:
  "getHitbox (clampToLevel stepped_level (falling_player 108 10)) = \<lparr> r_x = 72, r_y = 80, r_w = 16, r_h = 28 \<rparr>"
  by (simp add: stepped_level_def falling_player_def new_player_def new_level_def
      getHitbox_def clampToLevel_def clamp_def rectFromCenterBottom_def Let_def)

lemma stepped_landed: "p_y (collide_landed stepped_level 0 (falling_player 108 10)) = 100"
proof -
  let ?P = "falling_player 108 10"
  let ?hb = "\<lparr> r_x = 72, r_y = 80, r_w = 16, r_h = 28 \<rparr>"
  let ?p2 = "(clampToLevel stepped_level ?P)\<lparr> grounded := False \<rparr>"
  have v: "vy ?p2 = 10" by (simp add: clampToLevel_def falling_player_def)
  have "p_y (landing_pass ?hb 0 [\<lparr> r_x = 0, r_y = 100, r_w = 90, r_h = 20 \<rparr>,
          \<lparr> r_x = 70, r_y = 105, r_w = 130, r_h = 20 \<rparr>] ?p2) = r_y \<lparr> r_x = 0, r_y = 100, r_w = 90, r_h = 20 \<rparr>"
    by (rule landing_pass_first) (simp_all add: v onTopCross_def)
  then show ?thesis
    unfolding collide_landed_def Let_def stepped_hitbox stepped_solids [unfolded collide_solids_def stepped_hitbox]
    by simp
qed

text \<open>
  Claim C1, as the code has it. Let S be a solid the broadphase returns for the clamped
  hitbox, let the player be falling or stationary, with the reconstructed previous
  bottom (bottom minus \<open>vy\<close>) at or above S's top, the bottom at or below it, and the
  x-extents overlapping. Then, whatever the fall speed, the landing loop ends with
  \<open>vy = 0\<close>, \<open>grounded\<close>, and the player's bottom on the top of a solid of the broadphase
  that passes this test: there is no tunneling. If every solid that passes the test has
  its top where S has, the bottom is exactly on S's top; and that is the state
  \<^verbatim>\<open>_collideWithLevel\<close> returns when S's top is not below the pit line \<open>height + 200\<close>.
\<close>

theorem landing_snaps_to_top:
  assumes S: "S \<in> set (collide_solids lvl p)"
    and falling: "vy p \<ge> 0"
    and prev: "r_y (getHitbox (clampToLevel lvl p)) + r_h (getHitbox (clampToLevel lvl p)) - vy p \<le> r_y S"
    and nxt: "r_y (getHitbox (clampToLevel lvl p)) + r_h (getHitbox (clampToLevel lvl p)) \<ge> r_y S"
    and xov: "r_x (getHitbox (clampToLevel lvl p)) + r_w (getHitbox (clampToLevel lvl p)) > r_x S"
             "r_x (getHitbox (clampToLevel lvl p)) < r_x S + r_w S"
  shows "vy (collide_landed lvl t p) = 0 \<and> grounded (collide_landed lvl t p) \<and>
         (\<exists>S'\<in>set (collide_solids lvl p).
            onTopCross (getHitbox (clampToLevel lvl p)) (vy p) S' \<and>
            p_y (collide_landed lvl t p) = r_y S') \<and>
         ((\<forall>S'\<in>set (collide_solids lvl p).
             onTopCross (getHitbox (clampToLevel lvl p)) (vy p) S' \<longrightarrow> r_y S' = r_y S) \<longrightarrow>
            r_y (getHitbox (collide_landed lvl t p)) + r_h (getHitbox (collide_landed lvl t p)) = r_y S \<and>
            p_y (collide_landed lvl t p) = r_y S \<and>
            (r_y S \<le> l_height lvl + 200 \<longrightarrow>
               r_y (getHitbox (collideWithLevel lvl t p)) + r_h (getHitbox (collideWithLevel lvl t p))
                 = r_y S \<and>
               p_y (collideWithLevel lvl t p) = r_y S \<and>
               vy (collideWithLevel lvl t p) = 0 \<and> grounded (collideWithLevel lvl t p)))"
proof -
  let ?hb = "getHitbox (clampToLevel lvl p)"
  let ?p2 = "(clampToLevel lvl p)\<lparr> grounded := False \<rparr>"
  let ?ss = "collide_solids lvl p"
  let ?q = "collide_landed lvl t p"
  have q_def: "?q = landing_pass ?hb t ?ss ?p2"
    by (simp add: collide_landed_def collide_solids_def Let_def)
  have "onTopCross ?hb (vy p) S"
    using prev nxt xov by (simp add: onTopCross_def Let_def)
  then have ex: "\<exists>s\<in>set ?ss. onTopCross ?hb (vy p) s" using S by blast
  have "vy ?p2 = vy p" by (simp add: clampToLevel_def)
  from landing_pass_lands [OF this falling ex, of t]
  have landed: "vy ?q = 0" "grounded ?q"
    and some: "\<exists>s'\<in>set ?ss. onTopCross ?hb (vy p) s' \<and> p_y ?q = r_y s'"
    unfolding q_def by blast+
  have rest: "r_y (getHitbox ?q) + r_h (getHitbox ?q) = r_y S \<and> p_y ?q = r_y S \<and>
      (r_y S \<le> l_height lvl + 200 \<longrightarrow>
         r_y (getHitbox (collideWithLevel lvl t p)) + r_h (getHitbox (collideWithLevel lvl t p))
           = r_y S \<and>
         p_y (collideWithLevel lvl t p) = r_y S \<and>
         vy (collideWithLevel lvl t p) = 0 \<and> grounded (collideWithLevel lvl t p))"
    if same: "\<forall>S'\<in>set ?ss. onTopCross ?hb (vy p) S' \<longrightarrow> r_y S' = r_y S"
  proof -
    have y: "p_y ?q = r_y S" using some same by auto
    let ?p3 = "push_pass (getHitbox ?q) ?ss ?q"
    have p3: "p_y ?p3 = r_y S" "vy ?p3 = 0" "grounded ?p3"
      using landed y by (simp_all add: push_pass_vertical)
    have "collideWithLevel lvl t p = ?p3" if "r_y S \<le> l_height lvl + 200"
      using p3(1) that by (simp add: collideWithLevel_def Let_def)
    then show ?thesis using p3 y by (simp add: getHitbox_bottom)
  qed
  show ?thesis using landed some rest by blast
qed

text \<open>The player one pixel into the ground of level 0 after falling two pixels.\<close>

theorem landing_witness:
  "\<lparr> r_x = 0, r_y = 300, r_w = 980, r_h = 600 \<rparr> \<in> set (collide_solids ground_level (falling_player 301 2)) \<and>
   vy (falling_player 301 2) \<ge> 0 \<and>
   r_y \<lparr> r_x = 0, r_y = 300, r_w = 980, r_h = 600 \<rparr> \<le> l_height ground_level + 200 \<and>
   p_y (collide_landed ground_level 0 (falling_player 301 2)) = 300 \<and>
   p_y (collideWithLevel ground_level 0 (falling_player 301 2)) = 300 \<and>
   vy (collideWithLevel ground_level 0 (falling_player 301 2)) = 0 \<and>
   grounded (collideWithLevel ground_level 0 (falling_player 301 2))"
proof -
  let ?S = "\<lparr> r_x = 0, r_y = 300, r_w = 980, r_h = 600 \<rparr>"
  let ?P = "falling_player 301 2"
  have v: "vy ?P = 2" by (simp add: falling_player_def)
  have h1: "?S \<in> set (collide_solids ground_level ?P)" by (simp add: ground_solids)
  have h2: "vy ?P \<ge> 0" by (simp add: v)
  have h3: "r_y (getHitbox (clampToLevel ground_level ?P)) + r_h (getHitbox (clampToLevel ground_level ?P)) - vy ?P \<le> r_y ?S"
    unfolding ground_hitbox v by simp
  have h4: "r_y (getHitbox (clampToLevel ground_level ?P)) + r_h (getHitbox (clampToLevel ground_level ?P)) \<ge> r_y ?S"
    unfolding ground_hitbox by simp
  have h5: "r_x (getHitbox (clampToLevel ground_level ?P)) + r_w (getHitbox (clampToLevel ground_level ?P)) > r_x ?S"
    unfolding ground_hitbox by simp
  have h6: "r_x (getHitbox (clampToLevel ground_level ?P)) < r_x ?S + r_w ?S"
    unfolding ground_hitbox by simp
  have h7: "\<forall>S'\<in>set (collide_solids ground_level ?P).
                 onTopCross (getHitbox (clampToLevel ground_level ?P)) (vy ?P) S' \<longrightarrow> r_y S' = r_y ?S"
    unfolding ground_solids by simp
  have h8: "r_y ?S \<le> l_height ground_level + 200"
    by (simp add: ground_level_def new_level_def)
  from landing_snaps_to_top [OF h1 h2 h3 h4 h5 h6, of 0] h7 h8
  have "p_y (collide_landed ground_level 0 ?P) = r_y ?S \<and>
        p_y (collideWithLevel ground_level 0 ?P) = r_y ?S \<and>
        vy (collideWithLevel ground_level 0 ?P) = 0 \<and> grounded (collideWithLevel ground_level 0 ?P)"
    by blast
  then show ?thesis using h1 h2 h8 by simp
qed

text \<open>
  The claim as written fails where two solids pass the test at different heights: the
  player falls ten pixels onto two staggered platforms with tops at 100 and 105; the
  loop lands on the first, sets \<open>vy\<close> to 0, and the second, whose top is 105, no longer
  passes. The bottom ends at 100.
\<close>

theorem landing_counterexample:
  "\<lparr> r_x = 70, r_y = 105, r_w = 130, r_h = 20 \<rparr> \<in> set (collide_solids stepped_level (falling_player 108 10)) \<and>
   vy (falling_player 108 10) \<ge> 0 \<and>
   onTopCross (getHitbox (clampToLevel stepped_level (falling_player 108 10))) (vy (falling_player 108 10))
      \<lparr> r_x = 70, r_y = 105, r_w = 130, r_h = 20 \<rparr> \<and>
   p_y (collide_landed stepped_level 0 (falling_player 108 10)) = 100 \<and>
   p_y (collideWithLevel stepped_level 0 (falling_player 108 10)) = 100 \<and>
   p_y (collideWithLevel stepped_level 0 (falling_player 108 10))
     \<noteq> r_y \<lparr> r_x = 70, r_y = 105, r_w = 130, r_h = 20 \<rparr>"
proof -
  let ?P = "falling_player 108 10"
  have v: "vy ?P = 10" by (simp add: falling_player_def)
  have a: "\<lparr> r_x = 70, r_y = 105, r_w = 130, r_h = 20 \<rparr> \<in> set (collide_solids stepped_level ?P)"
    by (simp add: stepped_solids)
  have b: "onTopCross (getHitbox (clampToLevel stepped_level ?P)) (vy ?P)
      \<lparr> r_x = 70, r_y = 105, r_w = 130, r_h = 20 \<rparr>"
    unfolding stepped_hitbox v by (simp add: onTopCross_def)
  have h: "l_height stepped_level = 900" by (simp add: stepped_level_def new_level_def)
  have "p_y (collideWithLevel stepped_level 0 ?P) = 100"
    by (simp add: collideWithLevel_def Let_def push_pass_vertical stepped_landed h)
  then show ?thesis using a b v by (simp add: stepped_landed)
qed

section \<open>The world-bound clamp\<close>

lemma land_on_x: "p_x (land_on hb t s p) = p_x p"
  by (simp add: land_on_def)

lemma landing_pass_x: "p_x (landing_pass hb t ss p) = p_x p"
  by (induction ss arbitrary: p) (simp_all add: land_on_x)

lemma collide_landed_x: "p_x (collide_landed lvl t p) = clamp (p_x p) 20 (l_width lvl - 20)"
  by (simp add: collide_landed_def Let_def landing_pass_x) (simp add: clampToLevel_def)

lemma push_pass_clear: "\<forall>s\<in>set ss. \<not> aabbIntersects hb2 s \<Longrightarrow> push_pass hb2 ss p = p"
  by (induction ss arbitrary: p) (simp_all add: push_out_def)

lemma corner_solids: "collide_solids ground_level (new_player 10 220) = [\<lparr> r_x = 0, r_y = 300, r_w = 980, r_h = 600 \<rparr>]"
  by (simp add: collide_solids_def ground_level_def new_player_def new_level_def
      getSolidsNear_def getHitbox_def clampToLevel_def clamp_def rectFromCenterBottom_def Let_def)

lemma corner_hitbox: "getHitbox (clampToLevel ground_level (new_player 10 220)) = \<lparr> r_x = 12, r_y = 192, r_w = 16, r_h = 28 \<rparr>"
  by (simp add: ground_level_def new_player_def new_level_def
      getHitbox_def clampToLevel_def clamp_def rectFromCenterBottom_def Let_def)

lemma corner_landed: "collide_landed ground_level 0 (new_player 10 220) = (new_player 10 220)\<lparr> p_x := 20 \<rparr>"
proof -
  have "\<forall>s\<in>set [\<lparr> r_x = 0, r_y = 300, r_w = 980, r_h = 600 \<rparr>]. \<not> onTopCross \<lparr> r_x = 12, r_y = 192, r_w = 16, r_h = 28 \<rparr> 0 s"
    by (simp add: onTopCross_def)
  then have "landing_pass \<lparr> r_x = 12, r_y = 192, r_w = 16, r_h = 28 \<rparr> 0 [\<lparr> r_x = 0, r_y = 300, r_w = 980, r_h = 600 \<rparr>]
     ((clampToLevel ground_level (new_player 10 220))\<lparr> grounded := False \<rparr>) = (clampToLevel ground_level (new_player 10 220))\<lparr> grounded := False \<rparr>"
    by (intro landing_pass_idle) (simp_all add: clampToLevel_def new_player_def)
  then show ?thesis
    unfolding collide_landed_def Let_def corner_hitbox corner_solids [unfolded collide_solids_def corner_hitbox]
    by (simp add: clampToLevel_def new_player_def clamp_def ground_level_def new_level_def)
qed

text \<open>
  Claim C7, as the code has it. At the head of every collision resolution the player's x
  is clamped to \<open>[20, width - 20]\<close>: the margin is the constant 20, whatever the hitbox
  (whose half-width is 8, 10, 12 or 15). The clamp is unconditional and survives the
  landing loop; only the push-out pass and a pit respawn, which come after it, can move
  x again.
\<close>

theorem clamp_fixed_margin:
  assumes "40 \<le> l_width lvl"
  shows "p_x (collide_landed lvl t p) = clamp (p_x p) 20 (l_width lvl - 20) \<and>
         20 \<le> p_x (collide_landed lvl t p) \<and> p_x (collide_landed lvl t p) \<le> l_width lvl - 20 \<and>
         ((\<forall>s\<in>set (collide_solids lvl p). \<not> aabbIntersects (getHitbox (collide_landed lvl t p)) s) \<and>
          p_y (collide_landed lvl t p) \<le> l_height lvl + 200 \<longrightarrow>
            20 \<le> p_x (collideWithLevel lvl t p) \<and> p_x (collideWithLevel lvl t p) \<le> l_width lvl - 20)"
proof -
  have x: "p_x (collide_landed lvl t p) = clamp (p_x p) 20 (l_width lvl - 20)"
    by (rule collide_landed_x)
  have r: "20 \<le> clamp (p_x p) 20 (l_width lvl - 20)" "clamp (p_x p) 20 (l_width lvl - 20) \<le> l_width lvl - 20"
    using assms by (simp_all add: clamp_def)
  have "collideWithLevel lvl t p = collide_landed lvl t p"
    if "\<forall>s\<in>set (collide_solids lvl p). \<not> aabbIntersects (getHitbox (collide_landed lvl t p)) s"
      and "p_y (collide_landed lvl t p) \<le> l_height lvl + 200"
    using that by (simp add: collideWithLevel_def Let_def push_pass_clear)
  then show ?thesis using x r by auto
qed

text \<open>A small upright player at x = 10 over the ground of level 0.\<close>

theorem clamp_fixed_margin_witness:
  "40 \<le> l_width ground_level \<and>
   collide_solids ground_level (new_player 10 220) = [\<lparr> r_x = 0, r_y = 300, r_w = 980, r_h = 600 \<rparr>] \<and>
   \<not> aabbIntersects (getHitbox (collide_landed ground_level 0 (new_player 10 220)))
        \<lparr> r_x = 0, r_y = 300, r_w = 980, r_h = 600 \<rparr> \<and>
   p_y (collide_landed ground_level 0 (new_player 10 220)) \<le> l_height ground_level + 200 \<and>
   p_x (collide_landed ground_level 0 (new_player 10 220)) = 20 \<and>
   20 \<le> p_x (collideWithLevel ground_level 0 (new_player 10 220)) \<and>
   p_x (collideWithLevel ground_level 0 (new_player 10 220)) \<le> l_width ground_level - 20"
proof -
  have w: "l_width ground_level = 6200" "l_height ground_level = 900"
    by (simp_all add: ground_level_def new_level_def)
  have h: "40 \<le> l_width ground_level" by (simp add: w)
  have a: "\<forall>s\<in>set (collide_solids ground_level (new_player 10 220)).
     \<not> aabbIntersects (getHitbox (collide_landed ground_level 0 (new_player 10 220))) s"
    unfolding corner_solids corner_landed by (simp add: aabbIntersects_def getHitbox_def rectFromCenterBottom_def new_player_def)
  have b: "p_y (collide_landed ground_level 0 (new_player 10 220)) \<le> l_height ground_level + 200"
    unfolding corner_landed w by (simp add: new_player_def)
  have c: "p_x (collide_landed ground_level 0 (new_player 10 220)) = 20"
    by (simp add: corner_landed)
  from clamp_fixed_margin [OF h, of 0 "new_player 10 220"] a b
  have "20 \<le> p_x (collideWithLevel ground_level 0 (new_player 10 220)) \<and>
        p_x (collideWithLevel ground_level 0 (new_player 10 220)) \<le> l_width ground_level - 20"
    by blast
  then show ?thesis using h a b c by (simp add: corner_solids)
qed

text \<open>
  The claim as written takes the margin to be half the hitbox width. The small upright
  hitbox is 16 wide, so x = 10 lies inside \<open>[8, width - 8]\<close> and a clamp to that interval
  would leave it; the code moves the player to x = 20.
\<close>

theorem clamp_half_width_counterexample:
  "r_w (getHitbox (new_player 10 220)) / 2 = 8 \<and>
   clamp (p_x (new_player 10 220)) (r_w (getHitbox (new_player 10 220)) / 2)
         (l_width ground_level - r_w (getHitbox (new_player 10 220)) / 2) = 10 \<and>
   p_x (collideWithLevel ground_level 0 (new_player 10 220)) = 20"
proof -
  have w: "l_width ground_level = 6200" "l_height ground_level = 900" by (simp_all add: ground_level_def new_level_def)
  have a: "\<forall>s\<in>set (collide_solids ground_level (new_player 10 220)).
     \<not> aabbIntersects (getHitbox (collide_landed ground_level 0 (new_player 10 220))) s"
    unfolding corner_solids corner_landed by (simp add: aabbIntersects_def getHitbox_def rectFromCenterBottom_def new_player_def)
  have b: "p_y (collide_landed ground_level 0 (new_player 10 220)) \<le> l_height ground_level + 200"
    unfolding corner_landed w by (simp add: new_player_def)
  have c: "p_x (collideWithLevel ground_level 0 (new_player 10 220)) = 20"
    using a b by (simp add: collideWithLevel_def Let_def push_pass_clear corner_landed)
  have d: "r_w (getHitbox (new_player 10 220)) = 16" "p_x (new_player 10 220) = 10"
    by (simp_all add: getHitbox_def rectFromCenterBottom_def new_player_def)
  show ?thesis unfolding d w using c by (simp add: clamp_def)
qed

section \<open>Timers\<close>

lemma countdown_nonneg: "0 \<le> t \<Longrightarrow> 0 \<le> countdown dt t"
  by (simp add: countdown_def)


lemma tick_combo_fields:
  "invuln (tick_combo dt p) = invuln p" "gunCooldown (tick_combo dt p) = gunCooldown p"
  "powerFlash (tick_combo dt p) = powerFlash p" "shootFlash (tick_combo dt p) = shootFlash p"
  "comboTimer (tick_combo dt p) = countdown dt (comboTimer p)"
  "shieldShatter (tick_combo dt p) = shieldShatter p"
  "springLaunchTimer (tick_combo dt p) = springLaunchTimer p"
  "growthTransformTimer (tick_combo dt p) = growthTransformTimer p"
  "magnetTimer (tick_combo dt p) = magnetTimer p"
  by (simp_all add: tick_combo_def Let_def countdown_def)

lemma update_timers_fields:
  "invuln (update_timers dt p) = countdown dt (invuln p)"
  "gunCooldown (update_timers dt p) = countdown dt (gunCooldown p)"
  "powerFlash (update_timers dt p) = countdown dt (powerFlash p)"
  "shootFlash (update_timers dt p) = countdown dt (shootFlash p)"
  "comboTimer (update_timers dt p) = countdown dt (comboTimer p)"
  "shieldShatter (update_timers dt p) = countdown dt (shieldShatter p)"
  "springLaunchTimer (update_timers dt p) = countdown dt (springLaunchTimer p)"
  "growthTransformTimer (update_timers dt p) = countdown dt (growthTransformTimer p)"
  "magnetTimer (update_timers dt p) = countdown dt (magnetTimer p)"
  by (simp_all add: update_timers_def Let_def tick_combo_fields)

lemma update_timers_keeps_nonneg: "timers_nonneg p \<Longrightarrow> timers_nonneg (update_timers dt p)"
  by (simp add: timers_nonneg_def update_timers_fields countdown_nonneg)

section \<open>The mandatory-task gate\<close>

lemma sample_tasks_level2: "getTasksForLevel 2 = sample_tasks"
  by (simp add: getTasksForLevel_def sample_tasks_def js_index_def js_rem_def int_str_def Let_def)

lemma mandatory_loop_iff:
  "mandatory_loop ts c \<longleftrightarrow> (\<forall>t\<in>set ts. t_mandatory t \<longrightarrow> t_id t \<in> c)"
  by (induction ts) auto

lemma mandatory_loop_ids: "mandatory_loop ts c \<longleftrightarrow> mandatory_ids ts \<subseteq> c"
  by (auto simp: mandatory_loop_iff mandatory_ids_def)

lemma sample_mandatory: "mandatory_ids sample_tasks = {''L2_coins'', ''L2_fly''}"
  by (simp add: mandatory_ids_def sample_tasks_def)

text \<open>
  Claim C5. \<^verbatim>\<open>areMandatoryTasksComplete\<close> is true exactly when the id of every mandatory
  task is in the completed set, so it is false as soon as one mandatory task's id is
  missing; and adding to or removing from the completed set any ids that are not ids of
  mandatory tasks leaves the result unchanged.
\<close>

theorem mandatory_gate:
  "(areMandatoryTasksComplete lvl \<longleftrightarrow>
      (\<forall>t\<in>set (tasks lvl). t_mandatory t \<longrightarrow> t_id t \<in> completedTasks lvl)) \<and>
   ((\<exists>t\<in>set (tasks lvl). t_mandatory t \<and> t_id t \<notin> completedTasks lvl) \<longrightarrow>
      \<not> areMandatoryTasksComplete lvl) \<and>
   (X \<inter> mandatory_ids (tasks lvl) = {} \<longrightarrow>
      areMandatoryTasksComplete (lvl\<lparr> completedTasks := completedTasks lvl \<union> X \<rparr>)
        = areMandatoryTasksComplete lvl \<and>
      areMandatoryTasksComplete (lvl\<lparr> completedTasks := completedTasks lvl - X \<rparr>)
        = areMandatoryTasksComplete lvl)"
proof -
  have a: "areMandatoryTasksComplete l \<longleftrightarrow> mandatory_ids (tasks l) \<subseteq> completedTasks l" for l
    by (simp add: areMandatoryTasksComplete_def mandatory_loop_ids)
  have b: "areMandatoryTasksComplete lvl \<longleftrightarrow>
      (\<forall>t\<in>set (tasks lvl). t_mandatory t \<longrightarrow> t_id t \<in> completedTasks lvl)"
    by (simp add: areMandatoryTasksComplete_def mandatory_loop_iff)
  have c: "areMandatoryTasksComplete (lvl\<lparr> completedTasks := completedTasks lvl \<union> X \<rparr>)
        = areMandatoryTasksComplete lvl \<and>
      areMandatoryTasksComplete (lvl\<lparr> completedTasks := completedTasks lvl - X \<rparr>)
        = areMandatoryTasksComplete lvl" if "X \<inter> mandatory_ids (tasks lvl) = {}"
    using that unfolding a by auto
  show ?thesis using b c by blast
qed

text \<open>
  Level 2 with both mandatory tasks completed, with the two optional ones added, and with
  a mandatory one missing.
\<close>

theorem mandatory_gate_witness:
  "{''L2_spring'', ''L2_both''} \<inter> mandatory_ids (tasks (mission_level {''L2_coins'', ''L2_fly''})) = {} \<and>
   areMandatoryTasksComplete (mission_level {''L2_coins'', ''L2_fly''}) \<and>
   areMandatoryTasksComplete
     ((mission_level {''L2_coins'', ''L2_fly''})
        \<lparr> completedTasks := completedTasks (mission_level {''L2_coins'', ''L2_fly''})
                              \<union> {''L2_spring'', ''L2_both''} \<rparr>) \<and>
   (\<exists>t\<in>set (tasks (mission_level {''L2_coins'', ''L2_spring''})).
      t_mandatory t \<and> t_id t \<notin> completedTasks (mission_level {''L2_coins'', ''L2_spring''})) \<and>
   \<not> areMandatoryTasksComplete (mission_level {''L2_coins'', ''L2_spring''})"
proof -
  let ?L = "mission_level {''L2_coins'', ''L2_fly''}"
  let ?M = "mission_level {''L2_coins'', ''L2_spring''}"
  have t: "tasks ?L = sample_tasks" "tasks ?M = sample_tasks"
    "completedTasks ?L = {''L2_coins'', ''L2_fly''}" "completedTasks ?M = {''L2_coins'', ''L2_spring''}"
    by (simp_all add: mission_level_def)
  have h1: "{''L2_spring'', ''L2_both''} \<inter> mandatory_ids (tasks ?L) = {}"
    by (simp add: t sample_mandatory)
  have h2: "\<forall>t\<in>set (tasks ?L). t_mandatory t \<longrightarrow> t_id t \<in> completedTasks ?L"
    by (simp add: t sample_tasks_def)
  have h3: "\<exists>t\<in>set (tasks ?M). t_mandatory t \<and> t_id t \<notin> completedTasks ?M"
    by (simp add: t sample_tasks_def)
  from mandatory_gate [of ?L "{''L2_spring'', ''L2_both''}"] h1 h2
  have a: "areMandatoryTasksComplete ?L"
    and b: "areMandatoryTasksComplete (?L\<lparr> completedTasks := completedTasks ?L \<union> {''L2_spring'', ''L2_both''} \<rparr>)"
    by blast+
  from mandatory_gate [of ?M "{}"] h3 have c: "\<not> areMandatoryTasksComplete ?M" by blast
  show ?thesis using h1 a b h3 c by blast
qed

section \<open>Level construction and the level index\<close>

lemma reset_fields:
  "l_def (reset lvl) = l_def lvl" "l_index (reset lvl) = l_index lvl"
  "l_width (reset lvl) = l_width lvl" "l_height (reset lvl) = l_height lvl"
  "goalX (reset lvl) = goalX lvl"
  "l_boss (reset lvl) = Some (base_boss (layout_of lvl))"
  "map t_id (tasks (reset lvl)) = map t_id (getTasksForLevel (l_index lvl))"
  by (simp_all add: reset_def Let_def case_prod_beta comp_def)

lemma layout_of_new_level:
  "lay_index (layout_of (new_level d i)) = i"
  "lay_width (layout_of (new_level d i)) = 6200 + real_of_int i * 520"
  by (simp_all add: layout_of_def new_level_def Let_def)

lemma length_LEVEL_DEFS: "length LEVEL_DEFS = 10"
  by (simp add: LEVEL_DEFS_def)

text \<open>
  Claim C8, as the code has it. \<^verbatim>\<open>createLevel\<close> clamps the index only where it
  subscripts \<^verbatim>\<open>LEVEL_DEFS\<close>: the theme definition of \<open>createLevel i\<close> is that of
  \<open>createLevel (clamp i 0 9)\<close>. The level itself is constructed with the index as given,
  so its index, width, goal position, boss health, boss range, boss attack interval and
  task ids are those of \<open>i\<close>, not of the clamped index; the two levels are the same when
  \<open>0 \<le> i \<le> 9\<close>.
\<close>

theorem createLevel_clamps_theme_only:
  "l_def (createLevel i) = LEVEL_DEFS ! nat (clamp i 0 9) \<and>
   l_def (createLevel i) = l_def (createLevel (clamp i 0 9)) \<and>
   l_index (createLevel i) = i \<and>
   l_width (createLevel i) = 6200 + real_of_int i * 520 \<and>
   goalX (createLevel i) = 6200 + real_of_int i * 520 - 120 \<and>
   map_option b_maxHp (l_boss (createLevel i)) = Some (10 + real_of_int i * 4) \<and>
   map_option b_range (l_boss (createLevel i)) = Some (200 + real_of_int i * 10) \<and>
   map_option b_attackInterval (l_boss (createLevel i)) = Some (2.5 - real_of_int i * 0.1) \<and>
   map t_id (tasks (createLevel i)) = map t_id (getTasksForLevel i) \<and>
   (0 \<le> i \<and> i \<le> 9 \<longrightarrow> createLevel i = createLevel (clamp i 0 9))"
proof -
  have c: "clamp (clamp i 0 9) 0 9 = clamp i (0::int) 9" by (simp add: clamp_def)
  have a: "l_def (createLevel j) = LEVEL_DEFS ! nat (clamp j 0 9)" for j
    by (simp add: createLevel_def reset_fields length_LEVEL_DEFS) (simp add: new_level_def Let_def)
  have b: "l_index (createLevel i) = i" "l_width (createLevel i) = 6200 + real_of_int i * 520"
    "goalX (createLevel i) = 6200 + real_of_int i * 520 - 120"
    by (simp_all add: createLevel_def reset_fields) (simp_all add: new_level_def Let_def)
  have d: "l_boss (createLevel i) = Some (base_boss (layout_of (new_level (LEVEL_DEFS ! nat (clamp i 0 9)) i)))"
    by (simp add: createLevel_def reset_fields length_LEVEL_DEFS)
  have e: "map_option b_maxHp (l_boss (createLevel i)) = Some (10 + real_of_int i * 4)"
    "map_option b_range (l_boss (createLevel i)) = Some (200 + real_of_int i * 10)"
    "map_option b_attackInterval (l_boss (createLevel i)) = Some (2.5 - real_of_int i * 0.1)"
    unfolding d by (simp_all add: base_boss_def new_boss_def Let_def layout_of_new_level)
  have f: "map t_id (tasks (createLevel i)) = map t_id (getTasksForLevel i)"
    by (simp add: createLevel_def reset_fields) (simp add: new_level_def Let_def)
  have g: "createLevel i = createLevel (clamp i 0 9)" if "0 \<le> i \<and> i \<le> 9"
    using that by (simp add: clamp_def)
  show ?thesis using a [of i] a [of "clamp i 0 9"] b e f g unfolding c by simp
qed

text \<open>Index 3 is in range; index 12 gets the theme of level 9 and the width of index 12.\<close>

theorem createLevel_clamps_theme_only_witness:
  "(0::int) \<le> 3 \<and> (3::int) \<le> 9 \<and> createLevel 3 = createLevel (clamp 3 0 9) \<and>
   l_width (createLevel 3) = 7760 \<and> l_def (createLevel 12) = LEVEL_DEFS ! 9 \<and>
   l_width (createLevel 12) = 12440"
  using createLevel_clamps_theme_only [of 3] createLevel_clamps_theme_only [of 12]
  by (simp add: clamp_def)

text \<open>
  The claim as written makes \<open>createLevel 10\<close> the level \<open>createLevel 9\<close>. Their widths
  are 11400 and 10880 and their bosses have 50 and 46 health.
\<close>

theorem createLevel_counterexample:
  "l_width (createLevel 10) = 11400 \<and> l_width (createLevel (clamp 10 0 9)) = 10880 \<and>
   map_option b_maxHp (l_boss (createLevel 10)) = Some 50 \<and>
   map_option b_maxHp (l_boss (createLevel (clamp 10 0 9))) = Some 46 \<and>
   createLevel 10 \<noteq> createLevel (clamp 10 0 9)"
proof -
  have c: "clamp (10::int) 0 9 = 9" by (simp add: clamp_def)
  have w: "l_width (createLevel j) = 6200 + real_of_int j * 520" for j
    by (simp add: createLevel_def reset_def Let_def case_prod_beta new_level_def)
  have h: "map_option b_maxHp (l_boss (createLevel j)) = Some (10 + real_of_int j * 4)" for j
    by (simp add: createLevel_def reset_def Let_def case_prod_beta base_boss_def new_boss_def
        layout_of_def new_level_def)
  have "l_width (createLevel 10) \<noteq> l_width (createLevel 9)" by (simp add: w)
  then have "createLevel 10 \<noteq> createLevel 9" by metis
  then show ?thesis unfolding c by (simp add: w h)
qed

section \<open>The tick of the level, phase by phase\<close>

lemma for_each_length: "length (fst (for_each f xs st)) = length xs"
  by (induction xs arbitrary: st) (simp_all add: case_prod_beta)

lemma for_each_rel:
  assumes "\<And>x st. R x (fst (f x st))"
  shows "list_all2 R xs (fst (for_each f xs st))"
  by (induction xs arbitrary: st) (simp_all add: case_prod_beta assms)

lemma for_each_state:
  assumes "\<And>x st. P st \<Longrightarrow> P (snd (f x st))" and "P st"
  shows "P (snd (for_each f xs st))"
  using assms(2) by (induction xs arbitrary: st) (simp_all add: case_prod_beta assms(1))

lemma filter_each_state:
  assumes "\<And>x st. P st \<Longrightarrow> P (snd (f x st))" and "P st"
  shows "P (snd (filter_each f xs st))"
  using assms(2) by (induction xs arbitrary: st) (simp_all add: case_prod_beta assms(1))

lemma Level_update_rel:
  assumes rfl: "\<And>l. R l l" and trans: "\<And>a b c. R a b \<Longrightarrow> R b c \<Longrightarrow> R a c"
    and s0: "\<And>dt t p l. R l (progress_clock dt t p l)"
    and s1: "\<And>dt phb l p. R l (fst (springs_pass dt phb l p))"
    and s2: "\<And>dt fs phb l p. R l (fst (boxes_pass dt fs phb l p))"
    and s3: "\<And>dt px py l p. R l (fst (coins_pass dt px py l p))"
    and s4: "\<And>dt px py l p. R l (fst (magnets_pass dt px py l p))"
    and s5: "\<And>dt phb l p. R l (fst (powers_pass dt phb l p))"
    and s6: "\<And>dt phb l p. R l (fst (fruits_pass dt phb l p))"
    and s7: "\<And>dt phb l p. R l (fst (enemies_pass dt phb l p))"
    and s8: "\<And>dt phb l p. R l (fst (boss_pass dt phb l p))"
    and s9: "\<And>dt fs phb l p. R l (fst (attacks_pass dt fs phb l p))"
    and s10: "\<And>dt fs l p. R l (fst (bullets_pass dt fs l p))"
    and s11: "\<And>l p. R l (fst (boss_defeat l p))"
    and s12: "\<And>l p. R l (fst (tasks_pass l p))"
  shows "R lvl (fst (Level_update dt t lvl p))"
proof -
  let ?phb = "getHitbox p"
  let ?px = "r_x ?phb + r_w ?phb / 2"
  let ?py = "r_y ?phb + r_h ?phb / 2"
  let ?fs = "dt * 60"
  define l0 where "l0 = progress_clock dt t p lvl"
  obtain l1 p1 where e1: "springs_pass dt ?phb l0 p = (l1, p1)" by (cases "springs_pass dt ?phb l0 p")
  obtain l2 p2 where e2: "boxes_pass dt ?fs ?phb l1 p1 = (l2, p2)" by (cases "boxes_pass dt ?fs ?phb l1 p1")
  obtain l3 p3 where e3: "coins_pass dt ?px ?py l2 p2 = (l3, p3)" by (cases "coins_pass dt ?px ?py l2 p2")
  obtain l4 p4 where e4: "magnets_pass dt ?px ?py l3 p3 = (l4, p4)" by (cases "magnets_pass dt ?px ?py l3 p3")
  obtain l5 p5 where e5: "powers_pass dt ?phb l4 p4 = (l5, p5)" by (cases "powers_pass dt ?phb l4 p4")
  obtain l6 p6 where e6: "fruits_pass dt ?phb l5 p5 = (l6, p6)" by (cases "fruits_pass dt ?phb l5 p5")
  obtain l7 p7 where e7: "enemies_pass dt ?phb l6 p6 = (l7, p7)" by (cases "enemies_pass dt ?phb l6 p6")
  obtain l8 p8 where e8: "boss_pass dt ?phb l7 p7 = (l8, p8)" by (cases "boss_pass dt ?phb l7 p7")
  obtain l9 p9 where e9: "attacks_pass dt ?fs ?phb l8 p8 = (l9, p9)" by (cases "attacks_pass dt ?fs ?phb l8 p8")
  obtain l10 p10 where e10: "bullets_pass dt ?fs l9 p9 = (l10, p10)" by (cases "bullets_pass dt ?fs l9 p9")
  obtain l11 p11 where e11: "boss_defeat l10 p10 = (l11, p11)" by (cases "boss_defeat l10 p10")
  have eq: "Level_update dt t lvl p = tasks_pass l11 p11"
    unfolding Level_update_def Let_def l0_def [symmetric] e1 prod.case e2 e3 e4 e5 e6 e7 e8 e9 e10 e11 ..
  have c0: "R lvl l0" unfolding l0_def by (rule s0)
  have c1: "R lvl l1" using trans [OF c0] s1 [of l0 dt ?phb p] by (simp add: e1)
  have c2: "R lvl l2" using trans [OF c1] s2 [of l1 dt ?fs ?phb p1] by (simp add: e2)
  have c3: "R lvl l3" using trans [OF c2] s3 [of l2 dt ?px ?py p2] by (simp add: e3)
  have c4: "R lvl l4" using trans [OF c3] s4 [of l3 dt ?px ?py p3] by (simp add: e4)
  have c5: "R lvl l5" using trans [OF c4] s5 [of l4 dt ?phb p4] by (simp add: e5)
  have c6: "R lvl l6" using trans [OF c5] s6 [of l5 dt ?phb p5] by (simp add: e6)
  have c7: "R lvl l7" using trans [OF c6] s7 [of l6 dt ?phb p6] by (simp add: e7)
  have c8: "R lvl l8" using trans [OF c7] s8 [of l7 dt ?phb p7] by (simp add: e8)
  have c9: "R lvl l9" using trans [OF c8] s9 [of l8 dt ?fs ?phb p8] by (simp add: e9)
  have c10: "R lvl l10" using trans [OF c9] s10 [of l9 dt ?fs p9] by (simp add: e10)
  have c11: "R lvl l11" using trans [OF c10] s11 [of l10 p10] by (simp add: e11)
  have "R lvl (fst (tasks_pass l11 p11))" using trans [OF c11] s12 [of l11 p11] by simp
  then show ?thesis by (simp add: eq)
qed

text \<open>The states between the phases of one tick, by name.\<close>

lemma Level_update_chain:
  obtains l1 p1 l2 p2 l3 p3 l4 p4 l5 p5 l6 p6 l7 p7 l8 p8 l9 p9 l10 p10 l11 p11 where
    "springs_pass dt (getHitbox p) (progress_clock dt t p lvl) p = (l1, p1)"
    "boxes_pass dt (dt * 60) (getHitbox p) l1 p1 = (l2, p2)"
    "coins_pass dt (r_x (getHitbox p) + r_w (getHitbox p) / 2) (r_y (getHitbox p) + r_h (getHitbox p) / 2) l2 p2 = (l3, p3)"
    "magnets_pass dt (r_x (getHitbox p) + r_w (getHitbox p) / 2) (r_y (getHitbox p) + r_h (getHitbox p) / 2) l3 p3 = (l4, p4)"
    "powers_pass dt (getHitbox p) l4 p4 = (l5, p5)"
    "fruits_pass dt (getHitbox p) l5 p5 = (l6, p6)"
    "enemies_pass dt (getHitbox p) l6 p6 = (l7, p7)"
    "boss_pass dt (getHitbox p) l7 p7 = (l8, p8)"
    "attacks_pass dt (dt * 60) (getHitbox p) l8 p8 = (l9, p9)"
    "bullets_pass dt (dt * 60) l9 p9 = (l10, p10)"
    "boss_defeat l10 p10 = (l11, p11)"
    "Level_update dt t lvl p = tasks_pass l11 p11"
proof -
  let ?phb = "getHitbox p"
  let ?px = "r_x ?phb + r_w ?phb / 2"
  let ?py = "r_y ?phb + r_h ?phb / 2"
  let ?fs = "dt * 60"
  define l0 where "l0 = progress_clock dt t p lvl"
  obtain l1 p1 where e1: "springs_pass dt ?phb l0 p = (l1, p1)" by (cases "springs_pass dt ?phb l0 p")
  obtain l2 p2 where e2: "boxes_pass dt ?fs ?phb l1 p1 = (l2, p2)" by (cases "boxes_pass dt ?fs ?phb l1 p1")
  obtain l3 p3 where e3: "coins_pass dt ?px ?py l2 p2 = (l3, p3)" by (cases "coins_pass dt ?px ?py l2 p2")
  obtain l4 p4 where e4: "magnets_pass dt ?px ?py l3 p3 = (l4, p4)" by (cases "magnets_pass dt ?px ?py l3 p3")
  obtain l5 p5 where e5: "powers_pass dt ?phb l4 p4 = (l5, p5)" by (cases "powers_pass dt ?phb l4 p4")
  obtain l6 p6 where e6: "fruits_pass dt ?phb l5 p5 = (l6, p6)" by (cases "fruits_pass dt ?phb l5 p5")
  obtain l7 p7 where e7: "enemies_pass dt ?phb l6 p6 = (l7, p7)" by (cases "enemies_pass dt ?phb l6 p6")
  obtain l8 p8 where e8: "boss_pass dt ?phb l7 p7 = (l8, p8)" by (cases "boss_pass dt ?phb l7 p7")
  obtain l9 p9 where e9: "attacks_pass dt ?fs ?phb l8 p8 = (l9, p9)" by (cases "attacks_pass dt ?fs ?phb l8 p8")
  obtain l10 p10 where e10: "bullets_pass dt ?fs l9 p9 = (l10, p10)" by (cases "bullets_pass dt ?fs l9 p9")
  obtain l11 p11 where e11: "boss_defeat l10 p10 = (l11, p11)" by (cases "boss_defeat l10 p10")
  have eq: "Level_update dt t lvl p = tasks_pass l11 p11"
    unfolding Level_update_def Let_def l0_def [symmetric] e1 prod.case e2 e3 e4 e5 e6 e7 e8 e9 e10 e11 ..
  show thesis
    using that [OF e1 [unfolded l0_def] e2 e3 e4 e5 e6 e7 e8 e9 e10 e11 eq] .
qed

section \<open>The player states the game reaches\<close>

lemma player_ok_new: "player_ok (new_player x0 y0)"
  by (simp add: player_ok_def timers_nonneg_def new_player_def)

lemma player_ok_respawn: "player_ok (respawn x0 y0 p)"
  by (simp add: player_ok_def timers_nonneg_def respawn_def)

lemma player_ok_setSpawn: "player_ok p \<Longrightarrow> player_ok (setSpawn x0 y0 p)"
  by (simp add: player_ok_def timers_nonneg_def setSpawn_def)

lemma player_ok_takeHit: "player_ok p \<Longrightarrow> player_ok (takeHit k p)"
  by (simp add: player_ok_def timers_nonneg_def takeHit_def respawn_def Let_def)

lemma player_ok_addComboScore: "player_ok p \<Longrightarrow> player_ok (addComboScore base p)"
  by (simp add: player_ok_def timers_nonneg_def addComboScore_def Let_def)

lemma shield_flags_update_timers:
  "shieldActive (update_timers dt p) = shieldActive p" "hasShieldPower (update_timers dt p) = hasShieldPower p"
  by (simp_all add: update_timers_def tick_combo_def Let_def)

lemma player_ok_update_timers: "player_ok p \<Longrightarrow> player_ok (update_timers dt p)"
  by (simp add: player_ok_def shield_flags_update_timers update_timers_keeps_nonneg)

lemma player_ok_update_shield: "player_ok p \<Longrightarrow> player_ok (update_shield inp p)"
  by (simp add: player_ok_def timers_nonneg_def update_shield_def Let_def)

lemma player_ok_update_jump: "player_ok (fst (update_jump t inp p)) = player_ok p"
  by (simp add: player_ok_def timers_nonneg_def update_jump_def doJump_def doDoubleJump_def Let_def)

lemma player_ok_jump_cut: "player_ok (jump_cut inp p) = player_ok p"
  by (simp add: player_ok_def timers_nonneg_def jump_cut_def)

lemma player_ok_roll_start: "player_ok (roll_start inp p) = player_ok p"
  by (simp add: player_ok_def timers_nonneg_def roll_start_def)

lemma player_ok_horizontal_control: "player_ok (horizontal_control inp p) = player_ok p"
  by (simp add: player_ok_def timers_nonneg_def horizontal_control_def Let_def)

lemma player_ok_apply_gravity: "player_ok (apply_gravity fs p) = player_ok p"
  by (simp add: player_ok_def timers_nonneg_def apply_gravity_def Let_def)

lemma player_ok_integrate: "player_ok (integrate fs p) = player_ok p"
  by (simp add: player_ok_def timers_nonneg_def integrate_def Let_def)

lemma player_ok_update_move: "player_ok (update_move fs inp p) = player_ok p"
  by (simp add: update_move_def player_ok_jump_cut player_ok_roll_start player_ok_horizontal_control
      player_ok_apply_gravity player_ok_integrate)

lemma player_ok_land_on: "player_ok (land_on hb t s p) = player_ok p"
  by (simp add: player_ok_def timers_nonneg_def land_on_def)

lemma player_ok_landing_pass: "player_ok (landing_pass hb t ss p) = player_ok p"
  by (induction ss arbitrary: p) (simp_all add: player_ok_land_on)

lemma player_ok_push_out: "player_ok (push_out hb2 s p) = player_ok p"
  by (simp add: player_ok_def timers_nonneg_def push_out_def Let_def)

lemma player_ok_push_pass: "player_ok (push_pass hb2 ss p) = player_ok p"
  by (induction ss arbitrary: p) (simp_all add: player_ok_push_out)

lemma player_ok_collide_landed: "player_ok (collide_landed lvl t p) = player_ok p"
  by (simp add: collide_landed_def Let_def player_ok_landing_pass)
     (simp add: player_ok_def timers_nonneg_def clampToLevel_def)

lemma player_ok_collideWithLevel: "player_ok p \<Longrightarrow> player_ok (collideWithLevel lvl t p)"
  by (simp add: collideWithLevel_def Let_def player_ok_takeHit player_ok_push_pass player_ok_collide_landed)

lemma player_ok_update: "player_ok p \<Longrightarrow> player_ok (fst (update dt inp lvl t p))"
  by (simp add: update_def Let_def case_prod_beta player_ok_collideWithLevel player_ok_update_move
      player_ok_update_jump player_ok_update_shield player_ok_update_timers)

lemma player_ok_spring_step: "player_ok (fst st) \<Longrightarrow> player_ok (fst (snd (spring_step dt phb s st)))"
  by (simp add: spring_step_def Let_def player_ok_def timers_nonneg_def)

lemma player_ok_springs_pass: "player_ok p \<Longrightarrow> player_ok (snd (springs_pass dt phb lvl p))"
  using for_each_state [of "\<lambda>st. player_ok (fst st)" "spring_step dt phb" "(p, l_progress lvl)" "springs lvl"]
  by (simp add: springs_pass_def case_prod_beta player_ok_spring_step)

lemma player_ok_box_body: "player_ok (snd st) \<Longrightarrow> player_ok (snd (snd (box_body dt fs idx phb b st)))"
  by (simp add: box_body_def box_step_def Let_def case_prod_beta player_ok_def timers_nonneg_def)

lemma player_ok_boxes_pass: "player_ok p \<Longrightarrow> player_ok (snd (boxes_pass dt fs phb lvl p))"
  using for_each_state [of "\<lambda>st. player_ok (snd st)" "box_body dt fs (l_index lvl) phb" "(no_spawn, p)" "boxes lvl"]
  by (simp add: boxes_pass_def case_prod_beta player_ok_box_body)

lemma player_ok_collect_coin: "player_ok (fst st) \<Longrightarrow> player_ok (fst (collect_coin st))"
  by (simp add: collect_coin_def addComboScore_def Let_def player_ok_def timers_nonneg_def)

lemma player_ok_magnet_pull: "player_ok (fst st) \<Longrightarrow> player_ok (fst (snd (magnet_pull dt px py c st)))"
  by (simp add: magnet_pull_def Let_def player_ok_collect_coin)

lemma player_ok_coin_touch: "player_ok (fst st) \<Longrightarrow> player_ok (fst (snd (coin_touch px py c st)))"
  by (simp add: coin_touch_def Let_def player_ok_collect_coin)

lemma player_ok_coins_pass: assumes "player_ok p" shows "player_ok (snd (coins_pass dt px py lvl p))"
proof -
  let ?cs1 = "map (coin_fall dt (300 + real_of_int (js_rem (l_index lvl) 3) * 10)) (coins lvl)"
  let ?r2 = "(if magnetTimer p > 0 then for_each (magnet_pull dt px py) ?cs1 (p, l_progress lvl)
             else (?cs1, (p, l_progress lvl)))"
  have "player_ok (fst (snd (for_each (magnet_pull dt px py) ?cs1 (p, l_progress lvl))))"
    using for_each_state [of "\<lambda>st. player_ok (fst st)" "magnet_pull dt px py" "(p, l_progress lvl)" ?cs1] assms
    by (simp add: player_ok_magnet_pull)
  then have a: "player_ok (fst (snd ?r2))" using assms by simp
  have "player_ok (fst (snd (for_each (coin_touch px py) (fst ?r2) (snd ?r2))))"
    using for_each_state [of "\<lambda>st. player_ok (fst st)" "coin_touch px py" "snd ?r2" "fst ?r2"] a
    by (simp add: player_ok_coin_touch)
  then show ?thesis by (simp add: coins_pass_def Let_def case_prod_beta)
qed

lemma player_ok_magnet_step: "player_ok p \<Longrightarrow> player_ok (snd (magnet_step dt px py mp p))"
  by (simp add: magnet_step_def Let_def player_ok_def timers_nonneg_def)

lemma player_ok_magnets_pass: "player_ok p \<Longrightarrow> player_ok (snd (magnets_pass dt px py lvl p))"
  using for_each_state [of player_ok "magnet_step dt px py" p "magnetPickups lvl"]
  by (simp add: magnets_pass_def case_prod_beta player_ok_magnet_step)

lemma player_ok_power_step: "player_ok (fst st) \<Longrightarrow> player_ok (fst (snd (power_step dt phb pp st)))"
  by (simp add: power_step_def Let_def player_ok_def timers_nonneg_def)

lemma player_ok_powers_pass: "player_ok p \<Longrightarrow> player_ok (snd (powers_pass dt phb lvl p))"
  using for_each_state [of "\<lambda>st. player_ok (fst st)" "power_step dt phb" "(p, l_progress lvl)" "powerPickups lvl"]
  by (simp add: powers_pass_def case_prod_beta player_ok_power_step)

lemma player_ok_fruit_step: "player_ok p \<Longrightarrow> player_ok (snd (fruit_step dt phb fr p))"
  by (simp add: fruit_step_def Let_def player_ok_def timers_nonneg_def)

lemma player_ok_fruits_pass: "player_ok p \<Longrightarrow> player_ok (snd (fruits_pass dt phb lvl p))"
  using for_each_state [of player_ok "fruit_step dt phb" p "fruits lvl"]
  by (simp add: fruits_pass_def case_prod_beta player_ok_fruit_step)

lemma player_ok_bounce: "player_ok p \<Longrightarrow> player_ok (p\<lparr> vy := v, grounded := g \<rparr>)"
  by (simp add: player_ok_def timers_nonneg_def)

lemma player_ok_enemy_collide: "player_ok (fst st) \<Longrightarrow> player_ok (fst (snd (enemy_collide phb e st)))"
  by (simp add: enemy_collide_def Let_def player_ok_takeHit player_ok_bounce player_ok_addComboScore)

lemma player_ok_enemies_pass: "player_ok p \<Longrightarrow> player_ok (snd (enemies_pass dt phb lvl p))"
  using for_each_state [of "\<lambda>st. player_ok (fst st)" "enemy_collide phb" "(p, l_progress lvl)"
      "map (enemy_update dt) (enemies lvl)"]
  by (simp add: enemies_pass_def case_prod_beta player_ok_enemy_collide)

lemma player_ok_boss_collide: "player_ok p \<Longrightarrow> player_ok (boss_collide phb b p)"
  by (simp add: boss_collide_def Let_def player_ok_takeHit player_ok_bounce)

lemma player_ok_boss_pass: "player_ok p \<Longrightarrow> player_ok (snd (boss_pass dt phb lvl p))"
  by (simp add: boss_pass_def boss_contact_def player_ok_boss_collide split: option.splits)

lemma player_ok_attack_keep: "player_ok p \<Longrightarrow> player_ok (snd (attack_keep w phb atk p))"
  by (simp add: attack_keep_def Let_def player_ok_takeHit)

lemma player_ok_attacks_pass: "player_ok p \<Longrightarrow> player_ok (snd (attacks_pass dt fs phb lvl p))"
  using filter_each_state [of player_ok "attack_keep (l_width lvl) phb" p
      "map (attack_move dt fs) (bossAttacks lvl)"]
  by (simp add: attacks_pass_def case_prod_beta player_ok_attack_keep)

lemma player_ok_bullet_keep: "player_ok (k_player st) \<Longrightarrow> player_ok (k_player (snd (bullet_keep w b st)))"
  by (simp add: bullet_keep_def Let_def player_ok_addComboScore split: option.splits)

lemma player_ok_bullets_pass: "player_ok p \<Longrightarrow> player_ok (snd (bullets_pass dt fs lvl p))"
  using filter_each_state [of "\<lambda>st. player_ok (k_player st)" "bullet_keep (l_width lvl)"
      "\<lparr> k_enemies = enemies lvl, k_boss = l_boss lvl, k_player = p, k_progress = l_progress lvl \<rparr>"
      "map (bullet_move dt fs) (bullets lvl)"]
  by (simp add: bullets_pass_def case_prod_beta player_ok_bullet_keep)

lemma player_ok_rings: "player_ok (p\<lparr> rings := n \<rparr>) = player_ok p"
  by (simp add: player_ok_def timers_nonneg_def)

lemma player_ok_boss_defeat: "player_ok p \<Longrightarrow> player_ok (snd (boss_defeat lvl p))"
  by (simp add: boss_defeat_def Let_def player_ok_rings player_ok_addComboScore split: option.splits)

lemma player_ok_task_step: "player_ok (m_player st) \<Longrightarrow> player_ok (m_player (task_step pr st t))"
  by (simp add: task_step_def player_ok_rings)

lemma player_ok_task_fold: "player_ok (m_player st) \<Longrightarrow> player_ok (m_player (foldl (task_step pr) st ts))"
  by (induction ts arbitrary: st) (simp_all add: player_ok_task_step)

lemma player_ok_tasks_pass: "player_ok p \<Longrightarrow> player_ok (snd (tasks_pass lvl p))"
  by (simp add: tasks_pass_def Let_def player_ok_task_fold)

lemma player_ok_Level_update:
  assumes "player_ok p" shows "player_ok (snd (Level_update dt t lvl p))"
proof -
  obtain l1 p1 l2 p2 l3 p3 l4 p4 l5 p5 l6 p6 l7 p7 l8 p8 l9 p9 l10 p10 l11 p11 where
    e: "springs_pass dt (getHitbox p) (progress_clock dt t p lvl) p = (l1, p1)"
    "boxes_pass dt (dt * 60) (getHitbox p) l1 p1 = (l2, p2)"
    "coins_pass dt (r_x (getHitbox p) + r_w (getHitbox p) / 2) (r_y (getHitbox p) + r_h (getHitbox p) / 2) l2 p2 = (l3, p3)"
    "magnets_pass dt (r_x (getHitbox p) + r_w (getHitbox p) / 2) (r_y (getHitbox p) + r_h (getHitbox p) / 2) l3 p3 = (l4, p4)"
    "powers_pass dt (getHitbox p) l4 p4 = (l5, p5)"
    "fruits_pass dt (getHitbox p) l5 p5 = (l6, p6)"
    "enemies_pass dt (getHitbox p) l6 p6 = (l7, p7)"
    "boss_pass dt (getHitbox p) l7 p7 = (l8, p8)"
    "attacks_pass dt (dt * 60) (getHitbox p) l8 p8 = (l9, p9)"
    "bullets_pass dt (dt * 60) l9 p9 = (l10, p10)"
    "boss_defeat l10 p10 = (l11, p11)"
    "Level_update dt t lvl p = tasks_pass l11 p11"
    by (rule Level_update_chain)
  have 1: "player_ok p1" using player_ok_springs_pass [OF assms] e(1) by (metis snd_conv)
  have 2: "player_ok p2" using player_ok_boxes_pass [OF 1] e(2) by (metis snd_conv)
  have 3: "player_ok p3" using player_ok_coins_pass [OF 2] e(3) by (metis snd_conv)
  have 4: "player_ok p4" using player_ok_magnets_pass [OF 3] e(4) by (metis snd_conv)
  have 5: "player_ok p5" using player_ok_powers_pass [OF 4] e(5) by (metis snd_conv)
  have 6: "player_ok p6" using player_ok_fruits_pass [OF 5] e(6) by (metis snd_conv)
  have 7: "player_ok p7" using player_ok_enemies_pass [OF 6] e(7) by (metis snd_conv)
  have 8: "player_ok p8" using player_ok_boss_pass [OF 7] e(8) by (metis snd_conv)
  have 9: "player_ok p9" using player_ok_attacks_pass [OF 8] e(9) by (metis snd_conv)
  have 10: "player_ok p10" using player_ok_bullets_pass [OF 9] e(10) by (metis snd_conv)
  have 11: "player_ok p11" using player_ok_boss_defeat [OF 10] e(11) by (metis snd_conv)
  show ?thesis unfolding e(12) by (rule player_ok_tasks_pass [OF 11])
qed

lemma player_reachable_ok: "player_reachable p \<Longrightarrow> player_ok p"
proof (induction rule: player_reachable.induct)
  case (game_reset p) then show ?case by (simp add: player_ok_def timers_nonneg_def)
next
  case (shot p) then show ?case by (simp add: player_ok_def timers_nonneg_def)
next
  case (spring_seen p) then show ?case by (simp add: player_ok_def timers_nonneg_def)
qed (simp_all add: player_ok_new player_ok_respawn player_ok_setSpawn player_ok_takeHit
      player_ok_addComboScore player_ok_update player_ok_Level_update)

subsection \<open>A run that raises the shield\<close>

lemma orb_hitbox: "getHitbox (new_player 80 220) = \<lparr> r_x = 72, r_y = 192, r_w = 16, r_h = 28 \<rparr>"
  by (simp add: getHitbox_def rectFromCenterBottom_def new_player_def)

lemma orb_player_eq:
  "orb_player = (new_player 80 220)\<lparr> rings := 1, comboCount := 1, comboTimer := 1.5, score := 10,
      hasShieldPower := True, powerFlash := 0.5 \<rparr>"
  unfolding orb_player_def Level_update_def orb_hitbox
  by (simp add: Let_def orb_level_def new_level_def progress_clock_def springs_pass_def boxes_pass_def
      coins_pass_def magnets_pass_def powers_pass_def fruits_pass_def enemies_pass_def boss_pass_def
      boss_tick_def boss_contact_def attacks_pass_def bullets_pass_def boss_defeat_def tasks_pass_def
      floor_coin_def box_power_def coin_fall_def coin_touch_def collect_coin_def addComboScore_def
      power_step_def power_float_def aabbIntersects_def new_player_def no_spawn_def js_rem_def)

lemma orb_level_solids: "getSolidsNear orb_level hb = []"
  by (simp add: getSolidsNear_def orb_level_def new_level_def)

lemma orb_level_size: "l_width orb_level = 6200" "l_height orb_level = 900"
  by (simp_all add: orb_level_def new_level_def)

lemma collide_no_solids:
  assumes "getSolidsNear lvl (getHitbox (clampToLevel lvl p)) = []" and "p_y p \<le> l_height lvl + 200"
  shows "collideWithLevel lvl t p = (clampToLevel lvl p)\<lparr> grounded := False \<rparr>"
  using assms
  by (simp add: collideWithLevel_def collide_landed_def collide_solids_def Let_def)
     (simp add: clampToLevel_def)

lemma shield_up_player_eq:
  "shield_up_player = (new_player 80 220)\<lparr> rings := 1, comboCount := 1, comboTimer := 89 / 60, score := 10,
      hasShieldPower := True, powerFlash := 29 / 60, shieldActive := True, vy := 0.21875, p_y := 220.21875 \<rparr>"
proof -
  let ?q = "orb_player"
  have 1: "update_timers (1 / 60) ?q = ?q\<lparr> comboTimer := 89 / 60, powerFlash := 29 / 60 \<rparr>"
    by (simp add: orb_player_eq update_timers_def tick_combo_def countdown_def new_player_def Let_def)
  have 2: "update_shield shield_input (?q\<lparr> comboTimer := 89 / 60, powerFlash := 29 / 60 \<rparr>)
      = ?q\<lparr> comboTimer := 89 / 60, powerFlash := 29 / 60, shieldActive := True \<rparr>"
    by (simp add: orb_player_eq update_shield_def shield_input_def idle_input_def new_player_def Let_def)
  have 3: "update_jump 0 shield_input p = (p, shield_input)" for p
    by (simp add: update_jump_def jumpBuffered_def shield_input_def idle_input_def)
  have 4: "update_move (1 / 60 * 60) shield_input (?q\<lparr> comboTimer := 89 / 60, powerFlash := 29 / 60, shieldActive := True \<rparr>)
      = ?q\<lparr> comboTimer := 89 / 60, powerFlash := 29 / 60, shieldActive := True, vy := 0.21875, p_y := 220.21875 \<rparr>"
    by (simp add: orb_player_eq update_move_def jump_cut_def roll_start_def horizontal_control_def
        apply_gravity_def integrate_def new_player_def shield_input_def idle_input_def gravity_def
        terminalVel_def Let_def)
  have 5: "collideWithLevel orb_level 0 (?q\<lparr> comboTimer := 89 / 60, powerFlash := 29 / 60, shieldActive := True, vy := 0.21875, p_y := 220.21875 \<rparr>)
      = ?q\<lparr> comboTimer := 89 / 60, powerFlash := 29 / 60, shieldActive := True, vy := 0.21875, p_y := 220.21875 \<rparr>"
    by (simp add: collide_no_solids [OF orb_level_solids] orb_level_size orb_player_eq new_player_def
        clampToLevel_def clamp_def)
  show ?thesis
    unfolding shield_up_player_def update_def Let_def 1 2 3 prod.case 4 5 fst_conv
    by (simp add: orb_player_eq new_player_def)
qed

lemma worn_shield_player_eq:
  "worn_shield_player = shield_up_player\<lparr> shieldHits := 4 \<rparr>"
  unfolding worn_shield_player_def shield_up_player_eq
  by (simp add: takeHit_def new_player_def Let_def)

lemma shield_up_reachable: "player_reachable shield_up_player"
  unfolding shield_up_player_def orb_player_def
  by (intro player_reachable.updated player_reachable.level_updated player_reachable.constructed)

lemma worn_shield_reachable: "player_reachable worn_shield_player"
  unfolding worn_shield_player_def by (intro player_reachable.hit shield_up_reachable)

text \<open>
  Claim C2. For every player state the game reaches, with invulnerability timer 0, the
  shield up and \<open>shieldHits\<close> below the maximum, \<^verbatim>\<open>takeHit\<close> leaves rings and lives
  unchanged and adds one to \<open>shieldHits\<close>. While the new count is below the maximum the
  shield stays up; when it reaches the maximum the shield is dropped and the shatter
  timer is set to 0.5, and the next \<^verbatim>\<open>takeHit\<close> takes the ring path (rings to zero, no
  life lost), else the growth path, else the life path. The guard of \<^verbatim>\<open>takeHit\<close> also
  reads \<open>hasShieldPower\<close>, which holds whenever the shield is up on a reached state.
\<close>

theorem takeHit_shield_absorbs:
  assumes "player_reachable p" and "invuln p = 0" and "shieldActive p"
    and "shieldHits p < shieldMaxHits p"
  shows "hasShieldPower p \<and>
         rings (takeHit k p) = rings p \<and> lives (takeHit k p) = lives p \<and>
         shieldHits (takeHit k p) = shieldHits p + 1 \<and>
         (shieldHits p + 1 < shieldMaxHits p \<longrightarrow> shieldActive (takeHit k p)) \<and>
         (shieldHits p + 1 = shieldMaxHits p \<longrightarrow>
            \<not> shieldActive (takeHit k p) \<and> shieldShatter (takeHit k p) = 0.5 \<and>
            (rings p > 0 \<longrightarrow> rings (takeHit k' (takeHit k p)) = 0 \<and>
                                 lives (takeHit k' (takeHit k p)) = lives p) \<and>
            (rings p = 0 \<and> isBig p \<longrightarrow> \<not> isBig (takeHit k' (takeHit k p)) \<and>
                                 lives (takeHit k' (takeHit k p)) = lives p) \<and>
            (rings p = 0 \<and> \<not> isBig p \<longrightarrow> lives (takeHit k' (takeHit k p)) = lives p - 1))"
proof -
  have "hasShieldPower p"
    using player_reachable_ok [OF assms(1)] assms(3) by (simp add: player_ok_def)
  then show ?thesis using assms(2-4) by (simp add: takeHit_def respawn_def Let_def)
qed

text \<open>
  The player that picked up the blue orb and raised the shield: the first hit is absorbed
  and the shield stays up. After four hits, with one ring: the fifth hit breaks the
  shield, the sixth empties the rings and takes no life.
\<close>

theorem takeHit_shield_absorbs_witness:
  "player_reachable shield_up_player \<and> invuln shield_up_player = 0 \<and> shieldActive shield_up_player \<and>
   shieldHits shield_up_player = 0 \<and> shieldMaxHits shield_up_player = 5 \<and>
   rings (takeHit 1 shield_up_player) = 1 \<and> lives (takeHit 1 shield_up_player) = 5 \<and>
   shieldHits (takeHit 1 shield_up_player) = 1 \<and> shieldActive (takeHit 1 shield_up_player) \<and>
   player_reachable worn_shield_player \<and> invuln worn_shield_player = 0 \<and>
   shieldActive worn_shield_player \<and> shieldHits worn_shield_player = 4 \<and>
   shieldMaxHits worn_shield_player = 5 \<and> rings worn_shield_player = 1 \<and>
   rings (takeHit 1 worn_shield_player) = 1 \<and> lives (takeHit 1 worn_shield_player) = 5 \<and>
   shieldHits (takeHit 1 worn_shield_player) = 5 \<and>
   \<not> shieldActive (takeHit 1 worn_shield_player) \<and>
   shieldShatter (takeHit 1 worn_shield_player) = 0.5 \<and>
   rings (takeHit 1 (takeHit 1 worn_shield_player)) = 0 \<and>
   lives (takeHit 1 (takeHit 1 worn_shield_player)) = 5"
proof -
  have a: "invuln shield_up_player = 0" "shieldActive shield_up_player" "shieldHits shield_up_player = 0"
    "shieldMaxHits shield_up_player = 5" "rings shield_up_player = 1" "lives shield_up_player = 5"
    by (simp_all add: shield_up_player_eq new_player_def)
  have b: "invuln worn_shield_player = 0" "shieldActive worn_shield_player"
    "shieldHits worn_shield_player = 4" "shieldMaxHits worn_shield_player = 5"
    "rings worn_shield_player = 1" "lives worn_shield_player = 5"
    by (simp_all add: worn_shield_player_eq a)
  from takeHit_shield_absorbs [OF shield_up_reachable, of 1 1] a
  have c: "rings (takeHit 1 shield_up_player) = 1 \<and> lives (takeHit 1 shield_up_player) = 5 \<and>
      shieldHits (takeHit 1 shield_up_player) = 1 \<and> shieldActive (takeHit 1 shield_up_player)"
    by simp
  from takeHit_shield_absorbs [OF worn_shield_reachable, of 1 1] b
  have d: "rings (takeHit 1 worn_shield_player) = 1 \<and> lives (takeHit 1 worn_shield_player) = 5 \<and>
      shieldHits (takeHit 1 worn_shield_player) = 5 \<and>
      \<not> shieldActive (takeHit 1 worn_shield_player) \<and>
      shieldShatter (takeHit 1 worn_shield_player) = 0.5 \<and>
      rings (takeHit 1 (takeHit 1 worn_shield_player)) = 0 \<and>
      lives (takeHit 1 (takeHit 1 worn_shield_player)) = 5"
    by simp
  show ?thesis using shield_up_reachable worn_shield_reachable a b c d by simp
qed



section \<open>One-shot boxes\<close>

lemma box_tick_fields:
  "used (box_tick dt b) = used b" "bx_x (box_tick dt b) = bx_x b" "bx_y (box_tick dt b) = bx_y b"
  "bx_w (box_tick dt b) = bx_w b" "bx_h (box_tick dt b) = bx_h b" "bx_type (box_tick dt b) = bx_type b"
  by (simp_all add: box_tick_def)

lemma box_hit_tick: "box_hit fs phb p (box_tick dt b) = box_hit fs phb p b"
  by (simp add: box_hit_def box_tick_fields)

lemma box_content_tick: "box_content idx (box_tick dt b) = box_content idx b"
  by (simp add: box_content_def box_tick_fields)

lemma box_step_activates:
  "\<not> used b \<Longrightarrow> box_hit fs phb p b \<Longrightarrow>
   box_step dt fs idx phb b p =
     ((box_tick dt b)\<lparr> used := True, bounceAnim := 0.28 \<rparr>, box_content idx b, p\<lparr> vy := 0.6 \<rparr>)"
  by (simp add: box_step_def Let_def box_tick_fields box_hit_tick box_content_tick)

lemma box_step_skips:
  "used b \<or> \<not> box_hit fs phb p b \<Longrightarrow> box_step dt fs idx phb b p = (box_tick dt b, no_spawn, p)"
  by (auto simp: box_step_def Let_def box_tick_fields box_hit_tick)

lemma box_hit_needs_rise: "box_hit fs phb p b \<Longrightarrow> vy p < 0"
  by (simp add: box_hit_def Let_def)

lemma box_content_size:
  "length (s_coins (box_content idx b)) + length (s_powers (box_content idx b))
     + length (s_fruits (box_content idx b)) \<ge> 1"
  by (cases "bx_type b") (simp_all add: box_content_def no_spawn_def box_coins_def Let_def)

lemma add_spawned_none: "add_spawned sp no_spawn = sp"
  by (simp add: add_spawned_def no_spawn_def)

lemma box_body_activates:
  "\<not> used b \<Longrightarrow> box_hit fs phb p b \<Longrightarrow>
   box_body dt fs idx phb b (sp, p) =
     ((box_tick dt b)\<lparr> used := True, bounceAnim := 0.28 \<rparr>, add_spawned sp (box_content idx b),
      p\<lparr> vy := 0.6 \<rparr>)"
  by (simp add: box_body_def box_step_activates)

lemma box_body_skips:
  "used b \<or> \<not> box_hit fs phb p b \<Longrightarrow> box_body dt fs idx phb b (sp, p) = (box_tick dt b, sp, p)"
  by (simp add: box_body_def box_step_skips add_spawned_none)

lemma boxes_loop_idle:
  "\<forall>b\<in>set bs. used b \<or> \<not> box_hit fs phb p b \<Longrightarrow>
   for_each (box_body dt fs idx phb) bs (sp, p) = (map (box_tick dt) bs, sp, p)"
  by (induction bs) (simp_all add: box_body_skips)

lemma boxes_loop_first_hit:
  assumes "\<forall>x\<in>set pre. used x \<or> \<not> box_hit fs phb p x" and "\<not> used b" and "box_hit fs phb p b"
  shows "for_each (box_body dt fs idx phb) (pre @ b # post) (sp, p) =
           (map (box_tick dt) pre @ (box_tick dt b)\<lparr> used := True, bounceAnim := 0.28 \<rparr>
              # map (box_tick dt) post,
            add_spawned sp (box_content idx b), p\<lparr> vy := 0.6 \<rparr>)"
  using assms(1)
proof (induction pre)
  case Nil
  have "\<forall>x\<in>set post. used x \<or> \<not> box_hit fs phb (p\<lparr> vy := 0.6 \<rparr>) x"
    using box_hit_needs_rise [of fs phb "p\<lparr> vy := 0.6 \<rparr>"] by fastforce
  from boxes_loop_idle [OF this]
  show ?case by (simp add: box_body_activates [OF assms(2,3)])
next
  case (Cons x pre)
  then show ?case by (simp add: box_body_skips)
qed

lemma box_body_used: "used b \<Longrightarrow> used (fst (box_body dt fs idx phb b st))"
  by (simp add: box_body_def case_prod_beta box_step_skips box_tick_fields)

lemma boxes_pass_used:
  "list_all2 (\<lambda>b b'. used b \<longrightarrow> used b') (boxes lvl) (boxes (fst (boxes_pass dt fs phb lvl p)))"
  by (simp add: boxes_pass_def case_prod_beta for_each_rel box_body_used)

lemma used_stays_refl: "used_stays l l"
  by (simp add: used_stays_def list_all2_refl)

lemma used_stays_trans: "used_stays a b \<Longrightarrow> used_stays b c \<Longrightarrow> used_stays a c"
  unfolding used_stays_def
  using list_all2_trans [of "\<lambda>x y. used x \<longrightarrow> used y" "\<lambda>x y. used x \<longrightarrow> used y"
      "\<lambda>x y. used x \<longrightarrow> used y" "boxes a" "boxes b" "boxes c"] by blast

lemma used_stays_same: "boxes b = boxes a \<Longrightarrow> used_stays a b"
  by (simp add: used_stays_def list_all2_refl)

lemma Level_update_used_stays: "used_stays lvl (fst (Level_update dt t lvl q))"
proof (rule Level_update_rel [where R = used_stays])
  show "used_stays l (fst (boxes_pass dt fs phb l p))" for dt fs phb l p
    unfolding used_stays_def by (rule boxes_pass_used)
qed (simp_all add: used_stays_refl used_stays_same progress_clock_def springs_pass_def coins_pass_def
      magnets_pass_def powers_pass_def fruits_pass_def enemies_pass_def boss_pass_def boss_contact_def boss_tick_def attacks_pass_def
      bullets_pass_def boss_defeat_def tasks_pass_def Let_def case_prod_beta
      split: option.splits, erule (1) used_stays_trans)


lemma add_spawned_fields:
  "s_coins (add_spawned a b) = s_coins a @ s_coins b"
  "s_powers (add_spawned a b) = s_powers a @ s_powers b"
  "s_fruits (add_spawned a b) = s_fruits a @ s_fruits b"
  by (simp_all add: add_spawned_def)

lemma hit_box_hit: "box_hit 1 (getHitbox jumping_player) jumping_player hit_box"
  by (simp add: box_hit_def getHitbox_def rectFromCenterBottom_def jumping_player_def new_player_def
      hit_box_def new_box_def Let_def)

lemma hit_box_coins: "length (s_coins (box_content 2 hit_box)) = 3"
  by (simp add: box_content_def box_coins_def hit_box_def new_box_def no_spawn_def js_rem_def Let_def)

lemma springs_pass_none: "springs lvl = [] \<Longrightarrow> springs_pass dt phb lvl p = (lvl, p)"
  by (simp add: springs_pass_def)

lemma Level_update_boxes:
  assumes "springs lvl = []"
  shows "boxes (fst (Level_update dt t lvl p)) =
           fst (for_each (box_body dt (dt * 60) (l_index lvl) (getHitbox p)) (boxes lvl) (no_spawn, p))"
proof -
  obtain l1 p1 l2 p2 l3 p3 l4 p4 l5 p5 l6 p6 l7 p7 l8 p8 l9 p9 l10 p10 l11 p11 where
    e: "springs_pass dt (getHitbox p) (progress_clock dt t p lvl) p = (l1, p1)"
    "boxes_pass dt (dt * 60) (getHitbox p) l1 p1 = (l2, p2)"
    "coins_pass dt (r_x (getHitbox p) + r_w (getHitbox p) / 2) (r_y (getHitbox p) + r_h (getHitbox p) / 2) l2 p2 = (l3, p3)"
    "magnets_pass dt (r_x (getHitbox p) + r_w (getHitbox p) / 2) (r_y (getHitbox p) + r_h (getHitbox p) / 2) l3 p3 = (l4, p4)"
    "powers_pass dt (getHitbox p) l4 p4 = (l5, p5)"
    "fruits_pass dt (getHitbox p) l5 p5 = (l6, p6)"
    "enemies_pass dt (getHitbox p) l6 p6 = (l7, p7)"
    "boss_pass dt (getHitbox p) l7 p7 = (l8, p8)"
    "attacks_pass dt (dt * 60) (getHitbox p) l8 p8 = (l9, p9)"
    "bullets_pass dt (dt * 60) l9 p9 = (l10, p10)"
    "boss_defeat l10 p10 = (l11, p11)"
    "Level_update dt t lvl p = tasks_pass l11 p11"
    by (rule Level_update_chain)
  have s: "springs (progress_clock dt t p lvl) = []" using assms by (simp add: progress_clock_def Let_def)
  have 1: "l1 = progress_clock dt t p lvl" "p1 = p"
    using e(1) unfolding springs_pass_none [OF s] by auto
  have 2: "boxes l2 = fst (for_each (box_body dt (dt * 60) (l_index lvl) (getHitbox p)) (boxes lvl) (no_spawn, p))"
    using e(2) unfolding 1 by (auto simp: boxes_pass_def case_prod_beta progress_clock_def Let_def)
  have 3: "boxes l3 = boxes l2" using e(3) by (auto simp: coins_pass_def Let_def case_prod_beta)
  have 4: "boxes l4 = boxes l3" using e(4) by (auto simp: magnets_pass_def case_prod_beta)
  have 5: "boxes l5 = boxes l4" using e(5) by (auto simp: powers_pass_def case_prod_beta)
  have 6: "boxes l6 = boxes l5" using e(6) by (auto simp: fruits_pass_def case_prod_beta)
  have 7: "boxes l7 = boxes l6" using e(7) by (auto simp: enemies_pass_def case_prod_beta)
  have 8: "boxes l8 = boxes l7" using e(8)
    by (auto simp: boss_pass_def boss_contact_def boss_tick_def case_prod_beta split: option.splits)
  have 9: "boxes l9 = boxes l8" using e(9) by (auto simp: attacks_pass_def case_prod_beta)
  have 10: "boxes l10 = boxes l9" using e(10) by (auto simp: bullets_pass_def case_prod_beta)
  have 11: "boxes l11 = boxes l10" using e(11)
    by (auto simp: boss_defeat_def Let_def split: option.splits if_splits)
  have "boxes (fst (tasks_pass l11 p11)) = boxes l11" by (simp add: tasks_pass_def Let_def)
  then show ?thesis unfolding e(12) by (simp add: 2 3 4 5 6 7 8 9 10 11)
qed

lemma rolling_hitbox: "getHitbox rolling_player = \<lparr> r_x = 411, r_y = 198, r_w = 30, r_h = 30 \<rparr>"
  by (simp add: getHitbox_def rectFromCenterBottom_def rolling_player_def new_player_def)

lemma twin_boxes_hit:
  "box_hit 1 (getHitbox rolling_player) rolling_player (new_box 380 170 Coin)"
  "box_hit 1 (getHitbox rolling_player) rolling_player (new_box 440 170 Coin)"
  unfolding rolling_hitbox by (simp_all add: box_hit_def new_box_def rolling_player_def Let_def)

lemma twin_boxes_loop:
  "for_each (box_body (1 / 60) 1 0 (getHitbox rolling_player))
     [new_box 380 170 Coin, new_box 440 170 Coin] (no_spawn, rolling_player) =
   ([(new_box 380 170 Coin)\<lparr> used := True, bounceAnim := 0.28 \<rparr>, new_box 440 170 Coin],
    box_content 0 (new_box 380 170 Coin), rolling_player\<lparr> vy := 0.6 \<rparr>)"
proof -
  have u: "\<not> used (new_box 380 170 Coin)" by (simp add: new_box_def)
  have "for_each (box_body (1 / 60) 1 0 (getHitbox rolling_player))
      ([] @ new_box 380 170 Coin # [new_box 440 170 Coin]) (no_spawn, rolling_player) =
     (map (box_tick (1 / 60)) [] @ (box_tick (1 / 60) (new_box 380 170 Coin))\<lparr> used := True, bounceAnim := 0.28 \<rparr>
        # map (box_tick (1 / 60)) [new_box 440 170 Coin],
      add_spawned no_spawn (box_content 0 (new_box 380 170 Coin)), rolling_player\<lparr> vy := 0.6 \<rparr>)"
    by (rule boxes_loop_first_hit) (simp_all add: u twin_boxes_hit)
  then show ?thesis
    by (simp add: box_tick_def new_box_def add_spawned_def no_spawn_def)
qed

text \<open>
  Claim C3, as the code has it. The loop over the boxes activates at most one box in a
  tick. The first unused box, in the order of the level's list, that passes the hit test
  against the player as the loop finds it (horizontal overlap, upward motion, swept
  crossing of the box's bottom edge) becomes used and exactly its content is pushed onto
  the level's coins, power pickups and fruits: some coins, or one power pickup, or one
  fruit. The activation sets the player's \<open>vy\<close> to 0.6, so every later box is left as it
  was in that tick. When no unused box passes the test the loop changes no \<open>used\<close> flag
  and spawns nothing. The loop body on a used box, at any tick and for any player, spawns
  nothing and leaves it used. Over a whole tick of \<^verbatim>\<open>Level.update\<close> the boxes stay in
  place and a used box stays used.
\<close>

theorem box_one_shot:
  "(boxes lvl = pre @ b # post \<and> (\<forall>x\<in>set pre. used x \<or> \<not> box_hit fs phb p x) \<and>
    \<not> used b \<and> box_hit fs phb p b \<longrightarrow>
      map used (boxes (fst (boxes_pass dt fs phb lvl p))) = map used pre @ True # map used post \<and>
      coins (fst (boxes_pass dt fs phb lvl p)) = coins lvl @ s_coins (box_content (l_index lvl) b) \<and>
      powerPickups (fst (boxes_pass dt fs phb lvl p))
        = powerPickups lvl @ s_powers (box_content (l_index lvl) b) \<and>
      fruits (fst (boxes_pass dt fs phb lvl p)) = fruits lvl @ s_fruits (box_content (l_index lvl) b) \<and>
      1 \<le> length (s_coins (box_content (l_index lvl) b)) + length (s_powers (box_content (l_index lvl) b))
            + length (s_fruits (box_content (l_index lvl) b)) \<and>
      snd (boxes_pass dt fs phb lvl p) = p\<lparr> vy := 0.6 \<rparr>) \<and>
   ((\<forall>x\<in>set (boxes lvl). used x \<or> \<not> box_hit fs phb p x) \<longrightarrow>
      map used (boxes (fst (boxes_pass dt fs phb lvl p))) = map used (boxes lvl) \<and>
      coins (fst (boxes_pass dt fs phb lvl p)) = coins lvl \<and>
      powerPickups (fst (boxes_pass dt fs phb lvl p)) = powerPickups lvl \<and>
      fruits (fst (boxes_pass dt fs phb lvl p)) = fruits lvl \<and>
      snd (boxes_pass dt fs phb lvl p) = p) \<and>
   (used b \<longrightarrow> box_step dt fs idx phb b p = (box_tick dt b, no_spawn, p) \<and> used (box_tick dt b)) \<and>
   length (boxes (fst (Level_update dt t lvl q))) = length (boxes lvl) \<and>
   (\<forall>i<length (boxes lvl). used (boxes lvl ! i) \<longrightarrow> used (boxes (fst (Level_update dt t lvl q)) ! i))"
proof -
  have a: "map used (boxes (fst (boxes_pass dt fs phb lvl p))) = map used pre @ True # map used post \<and>
      coins (fst (boxes_pass dt fs phb lvl p)) = coins lvl @ s_coins (box_content (l_index lvl) b) \<and>
      powerPickups (fst (boxes_pass dt fs phb lvl p))
        = powerPickups lvl @ s_powers (box_content (l_index lvl) b) \<and>
      fruits (fst (boxes_pass dt fs phb lvl p)) = fruits lvl @ s_fruits (box_content (l_index lvl) b) \<and>
      1 \<le> length (s_coins (box_content (l_index lvl) b)) + length (s_powers (box_content (l_index lvl) b))
            + length (s_fruits (box_content (l_index lvl) b)) \<and>
      snd (boxes_pass dt fs phb lvl p) = p\<lparr> vy := 0.6 \<rparr>"
    if "boxes lvl = pre @ b # post \<and> (\<forall>x\<in>set pre. used x \<or> \<not> box_hit fs phb p x) \<and>
        \<not> used b \<and> box_hit fs phb p b"
  proof -
    from that have "for_each (box_body dt fs (l_index lvl) phb) (boxes lvl) (no_spawn, p) =
           (map (box_tick dt) pre @ (box_tick dt b)\<lparr> used := True, bounceAnim := 0.28 \<rparr>
              # map (box_tick dt) post,
            add_spawned no_spawn (box_content (l_index lvl) b), p\<lparr> vy := 0.6 \<rparr>)"
      by (simp add: boxes_loop_first_hit)
    then show ?thesis
      using box_content_size [of "l_index lvl" b]
      by (simp add: boxes_pass_def add_spawned_fields no_spawn_def box_tick_fields)
  qed
  have c: "map used (boxes (fst (boxes_pass dt fs phb lvl p))) = map used (boxes lvl) \<and>
      coins (fst (boxes_pass dt fs phb lvl p)) = coins lvl \<and>
      powerPickups (fst (boxes_pass dt fs phb lvl p)) = powerPickups lvl \<and>
      fruits (fst (boxes_pass dt fs phb lvl p)) = fruits lvl \<and>
      snd (boxes_pass dt fs phb lvl p) = p"
    if "\<forall>x\<in>set (boxes lvl). used x \<or> \<not> box_hit fs phb p x"
  proof -
    from that have "for_each (box_body dt fs (l_index lvl) phb) (boxes lvl) (no_spawn, p) =
        (map (box_tick dt) (boxes lvl), no_spawn, p)"
      by (rule boxes_loop_idle)
    then show ?thesis by (simp add: boxes_pass_def no_spawn_def box_tick_fields)
  qed
  have u: "box_step dt fs idx phb b p = (box_tick dt b, no_spawn, p) \<and> used (box_tick dt b)" if "used b"
    using that by (simp add: box_step_skips box_tick_fields)
  have d: "list_all2 (\<lambda>x y. used x \<longrightarrow> used y) (boxes lvl) (boxes (fst (Level_update dt t lvl q)))"
    using Level_update_used_stays [of lvl dt t q] by (simp add: used_stays_def)
  then have e: "length (boxes (fst (Level_update dt t lvl q))) = length (boxes lvl)"
    by (simp add: list_all2_lengthD)
  have f: "\<forall>i<length (boxes lvl). used (boxes lvl ! i) \<longrightarrow> used (boxes (fst (Level_update dt t lvl q)) ! i)"
    using d by (simp add: list_all2_conv_all_nth)
  show ?thesis using a c u e f by blast
qed

text \<open>A small player hitting the coin box of a level of index 2 from below: three coins.\<close>

theorem box_one_shot_witness:
  "boxes box_level = [] @ hit_box # [] \<and> \<not> used hit_box \<and>
   box_hit 1 (getHitbox jumping_player) jumping_player hit_box \<and>
   map used (boxes (fst (boxes_pass (1 / 60) 1 (getHitbox jumping_player) box_level jumping_player))) = [True] \<and>
   length (coins (fst (boxes_pass (1 / 60) 1 (getHitbox jumping_player) box_level jumping_player))) = 3 \<and>
   vy (snd (boxes_pass (1 / 60) 1 (getHitbox jumping_player) box_level jumping_player)) = 0.6 \<and>
   coins (fst (boxes_pass (1 / 60) 1 (getHitbox jumping_player)
                 (fst (boxes_pass (1 / 60) 1 (getHitbox jumping_player) box_level jumping_player))
                 jumping_player))
     = coins (fst (boxes_pass (1 / 60) 1 (getHitbox jumping_player) box_level jumping_player)) \<and>
   fst (snd (box_step (1 / 60) 1 2 (getHitbox jumping_player)
               (hit_box\<lparr> used := True, bounceAnim := 0.28 \<rparr>) jumping_player)) = no_spawn \<and>
   used (boxes (fst (Level_update (1 / 60) 0
                 (fst (boxes_pass (1 / 60) 1 (getHitbox jumping_player) box_level jumping_player))
                 jumping_player)) ! 0)"
proof -
  let ?phb = "getHitbox jumping_player"
  let ?L1 = "fst (boxes_pass (1 / 60) 1 ?phb box_level jumping_player)"
  let ?b1 = "hit_box\<lparr> used := True, bounceAnim := 0.28 \<rparr>"
  have h1: "\<not> used hit_box" by (simp add: hit_box_def new_box_def)
  have h2: "box_hit 1 ?phb jumping_player hit_box" by (rule hit_box_hit)
  have h3: "boxes box_level = [] @ hit_box # []" by (simp add: box_level_def)
  have i: "l_index box_level = 2" "coins box_level = []"
    by (simp_all add: box_level_def new_level_def)
  note T = box_one_shot [of box_level "[]" hit_box "[]" 1 ?phb jumping_player "1 / 60" 2 0 jumping_player]
  from T h1 h2 h3 have a: "map used (boxes ?L1) = [True]"
    and b: "coins ?L1 = coins box_level @ s_coins (box_content (l_index box_level) hit_box)"
    and c: "snd (boxes_pass (1 / 60) 1 ?phb box_level jumping_player) = jumping_player\<lparr> vy := 0.6 \<rparr>"
    by simp_all
  from a have len: "length (boxes ?L1) = 1" and u0: "used (boxes ?L1 ! 0)"
    by (cases "boxes ?L1"; simp)+
  from a have f: "\<forall>x\<in>set (boxes ?L1). used x \<or> \<not> box_hit 1 ?phb jumping_player x"
    by (cases "boxes ?L1") auto
  note T2 = box_one_shot [of ?L1 "[]" ?b1 "[]" 1 ?phb jumping_player "1 / 60" 2 0 jumping_player]
  from T2 f have g: "coins (fst (boxes_pass (1 / 60) 1 ?phb ?L1 jumping_player)) = coins ?L1"
    by blast
  have "used ?b1" by simp
  with T2 have "box_step (1 / 60) 1 2 ?phb ?b1 jumping_player = (box_tick (1 / 60) ?b1, no_spawn, jumping_player)"
    by blast
  then have k: "fst (snd (box_step (1 / 60) 1 2 ?phb ?b1 jumping_player)) = no_spawn" by simp
  from T2 u0 len have h: "used (boxes (fst (Level_update (1 / 60) 0 ?L1 jumping_player)) ! 0)"
    by simp
  show ?thesis using h1 h2 h3 a b c g h k by (simp add: hit_box_coins i)
qed

text \<open>
  The claim as written promises the activation to every box under a qualifying hit. The
  big rolling player rises under the first two boxes of level 0 at once: both are unused
  and both pass the hit test, but the tick activates only the first, spawns one coin, and
  leaves the second unused.
\<close>

theorem box_one_shot_counterexample:
  "boxes twin_box_level = [new_box 380 170 Coin, new_box 440 170 Coin] \<and>
   \<not> used (new_box 440 170 Coin) \<and>
   box_hit 1 (getHitbox rolling_player) rolling_player (new_box 440 170 Coin) \<and>
   map used (boxes (fst (boxes_pass (1 / 60) 1 (getHitbox rolling_player) twin_box_level rolling_player)))
     = [True, False] \<and>
   length (coins (fst (boxes_pass (1 / 60) 1 (getHitbox rolling_player) twin_box_level rolling_player))) = 1 \<and>
   map used (boxes (fst (Level_update (1 / 60) 0 twin_box_level rolling_player))) = [True, False]"
proof -
  have i: "boxes twin_box_level = [new_box 380 170 Coin, new_box 440 170 Coin]"
    "l_index twin_box_level = 0" "coins twin_box_level = []" "springs twin_box_level = []"
    by (simp_all add: twin_box_level_def new_level_def)
  have c: "length (s_coins (box_content 0 (new_box 380 170 Coin))) = 1"
    by (simp add: box_content_def box_coins_def new_box_def no_spawn_def js_rem_def Let_def)
  have a: "map used (boxes (fst (boxes_pass (1 / 60) 1 (getHitbox rolling_player) twin_box_level rolling_player)))
      = [True, False]"
    unfolding boxes_pass_def i twin_boxes_loop by (simp add: new_box_def)
  have b: "length (coins (fst (boxes_pass (1 / 60) 1 (getHitbox rolling_player) twin_box_level rolling_player))) = 1"
    unfolding boxes_pass_def i twin_boxes_loop by (simp add: c)
  have "boxes (fst (Level_update (1 / 60) 0 twin_box_level rolling_player)) =
      fst (for_each (box_body (1 / 60) (1 / 60 * 60) (l_index twin_box_level) (getHitbox rolling_player))
             (boxes twin_box_level) (no_spawn, rolling_player))"
    by (rule Level_update_boxes) (rule i(4))
  moreover have "(1 / 60 * 60 :: real) = 1" by simp
  ultimately have "boxes (fst (Level_update (1 / 60) 0 twin_box_level rolling_player)) =
      fst (for_each (box_body (1 / 60) 1 0 (getHitbox rolling_player))
             [new_box 380 170 Coin, new_box 440 170 Coin] (no_spawn, rolling_player))"
    unfolding i by simp
  then have d: "map used (boxes (fst (Level_update (1 / 60) 0 twin_box_level rolling_player))) = [True, False]"
    unfolding twin_boxes_loop by (simp add: new_box_def)
  show ?thesis using a b d by (simp add: i(1) twin_boxes_hit(2)) (simp add: new_box_def)
qed

section \<open>Magnet pickups\<close>

lemma magnet_touch_near:
  assumes "\<bar>px - mp_x mp\<bar> \<le> 10" and "\<bar>py - mp_y mp\<bar> \<le> 10"
  shows "magnet_touch px py mp"
proof -
  let ?d = "py - (mp_y mp + sin (mp_bob mp) * 4)"
  let ?e = "px - mp_x mp"
  have "\<bar>?d\<bar> \<le> 14"
    using assms(2) sin_ge_minus_one [of "mp_bob mp"] sin_le_one [of "mp_bob mp"]
    unfolding abs_le_iff by linarith
  then have "\<bar>?d\<bar> * \<bar>?d\<bar> \<le> 14 * 14" by (intro mult_mono) simp_all
  then have 1: "?d * ?d \<le> 196" by simp
  have "\<bar>?e\<bar> * \<bar>?e\<bar> \<le> 10 * 10" using assms(1) by (intro mult_mono) simp_all
  then have 2: "?e * ?e \<le> 100" by simp
  show ?thesis using 1 2 by (simp add: magnet_touch_def Let_def)
qed

lemma magnet_bob_fields:
  "mp_x (magnet_bob dt mp) = mp_x mp" "mp_y (magnet_bob dt mp) = mp_y mp"
  "mp_collected (magnet_bob dt mp) = mp_collected mp"
  by (simp_all add: magnet_bob_def)

lemma magnet_step_timer:
  "magnetTimer (snd (magnet_step dt px py mp p)) = (if magnet_hit dt px py mp then 8 else magnetTimer p)"
  by (simp add: magnet_step_def magnet_hit_def Let_def)

lemma magnet_step_collected:
  "magnet_hit dt px py mp \<Longrightarrow> mp_collected (fst (magnet_step dt px py mp p))"
  by (simp add: magnet_step_def magnet_hit_def Let_def)

lemma magnets_loop_timer:
  "magnetTimer (snd (for_each (magnet_step dt px py) mps p)) =
     (if \<exists>mp\<in>set mps. magnet_hit dt px py mp then 8 else magnetTimer p)"
proof (induction mps arbitrary: p)
  case Nil
  show ?case by simp
next
  case (Cons mp mps)
  show ?case
    using Cons.IH [of "snd (magnet_step dt px py mp p)"]
    by (simp add: case_prod_beta magnet_step_timer)
qed

lemma magnet_sample_hits:
  "magnet_hit (1 / 60) 420 286 (new_magnet 420 288)" "magnet_hit (1 / 60) 420 286 (new_magnet 425 288)"
  unfolding magnet_hit_def
  by (auto intro!: magnet_touch_near simp: magnet_bob_fields new_magnet_def)

text \<open>
  Claim C4. Collecting a magnet pickup sets the magnet timer to 8 whatever it was before;
  collecting a second pickup after the first leaves it at 8, not at a sum. Over the
  level's pickups the timer ends at 8 when at least one pickup is collected in the pass,
  and is unchanged otherwise.
\<close>

theorem magnet_no_stacking:
  "(magnet_hit dt px py mp \<longrightarrow>
      magnetTimer (snd (magnet_step dt px py mp p)) = 8 \<and>
      mp_collected (fst (magnet_step dt px py mp p))) \<and>
   (magnet_hit dt px py mp \<and> magnet_hit dt' px' py' mp' \<longrightarrow>
      magnetTimer (snd (magnet_step dt' px' py' mp' (snd (magnet_step dt px py mp p)))) = 8) \<and>
   ((\<exists>m\<in>set (magnetPickups lvl). magnet_hit dt px py m) \<longrightarrow>
      magnetTimer (snd (magnets_pass dt px py lvl p)) = 8) \<and>
   (\<not> (\<exists>m\<in>set (magnetPickups lvl). magnet_hit dt px py m) \<longrightarrow>
      magnetTimer (snd (magnets_pass dt px py lvl p)) = magnetTimer p)"
  by (simp add: magnet_step_timer magnet_step_collected magnets_pass_def case_prod_beta
      magnets_loop_timer)

text \<open>A player with 5 s of magnet left standing on two pickups: 8 s, not 13 or 21.\<close>

theorem magnet_no_stacking_witness:
  "magnet_hit (1 / 60) 420 286 (new_magnet 420 288) \<and>
   magnet_hit (1 / 60) 420 286 (new_magnet 425 288) \<and>
   (\<exists>m\<in>set (magnetPickups magnet_level). magnet_hit (1 / 60) 420 286 m) \<and>
   magnetTimer ((new_player 420 300)\<lparr> magnetTimer := 5 \<rparr>) = 5 \<and>
   magnetTimer (snd (magnet_step (1 / 60) 420 286 (new_magnet 420 288)
                       ((new_player 420 300)\<lparr> magnetTimer := 5 \<rparr>))) = 8 \<and>
   magnetTimer (snd (magnet_step (1 / 60) 420 286 (new_magnet 425 288)
                  (snd (magnet_step (1 / 60) 420 286 (new_magnet 420 288)
                         ((new_player 420 300)\<lparr> magnetTimer := 5 \<rparr>))))) = 8 \<and>
   magnetTimer (snd (magnets_pass (1 / 60) 420 286 magnet_level
                       ((new_player 420 300)\<lparr> magnetTimer := 5 \<rparr>))) = 8 \<and>
   \<not> (\<exists>m\<in>set (magnetPickups ground_level). magnet_hit (1 / 60) 420 286 m) \<and>
   magnetTimer (snd (magnets_pass (1 / 60) 420 286 ground_level
                       ((new_player 420 300)\<lparr> magnetTimer := 5 \<rparr>))) = 5"
proof -
  let ?p = "(new_player 420 300)\<lparr> magnetTimer := 5 \<rparr>"
  note h = magnet_sample_hits
  have h3: "\<exists>m\<in>set (magnetPickups magnet_level). magnet_hit (1 / 60) 420 286 m"
    using h(1) by (simp add: magnet_level_def)
  have h4: "\<not> (\<exists>m\<in>set (magnetPickups ground_level). magnet_hit (1 / 60) 420 286 m)"
    by (simp add: ground_level_def new_level_def)
  note T = magnet_no_stacking [of "1 / 60" 420 286 "new_magnet 420 288" ?p "1 / 60" 420 286
      "new_magnet 425 288" magnet_level]
  note U = magnet_no_stacking [of "1 / 60" 420 286 "new_magnet 420 288" ?p "1 / 60" 420 286
      "new_magnet 425 288" ground_level]
  from T h h3 have a: "magnetTimer (snd (magnet_step (1 / 60) 420 286 (new_magnet 420 288) ?p)) = 8"
    and b: "magnetTimer (snd (magnet_step (1 / 60) 420 286 (new_magnet 425 288)
                  (snd (magnet_step (1 / 60) 420 286 (new_magnet 420 288) ?p)))) = 8"
    and c: "magnetTimer (snd (magnets_pass (1 / 60) 420 286 magnet_level ?p)) = 8"
    by blast+
  from U h4 have d: "magnetTimer (snd (magnets_pass (1 / 60) 420 286 ground_level ?p)) = magnetTimer ?p"
    by blast
  show ?thesis using h h3 h4 a b c d by simp
qed

section \<open>The boss takes damage from bullets only\<close>

lemma boss_patrol_vitals:
  "b_hp (boss_patrol fs b) = b_hp b" "b_alive (boss_patrol fs b) = b_alive b"
  "b_y (boss_patrol fs b) = b_y b"
  by (simp_all add: boss_patrol_def Let_def)

lemma boss_update_vitals:
  "b_hp (fst (boss_update dt p b)) = b_hp b" "b_alive (fst (boss_update dt p b)) = b_alive b"
  "b_y (fst (boss_update dt p b)) = b_y b"
  "b_x (fst (boss_update dt p b)) = (if b_alive b then b_x (boss_patrol (dt * 60) b) else b_x b)"
  by (simp_all add: boss_update_def Let_def boss_patrol_vitals boss_patrol_def)

lemma boss_pass_level:
  "fst (boss_pass dt phb lvl p) =
     (case l_boss lvl of None \<Rightarrow> lvl
      | Some b \<Rightarrow> lvl\<lparr> l_boss := Some (fst (boss_update dt p b)),
                       bossAttacks := bossAttacks lvl @ snd (boss_update dt p b) \<rparr>)"
  by (simp add: boss_pass_def boss_contact_def boss_tick_def case_prod_beta split: option.splits)

lemma boss_pass_player:
  "snd (boss_pass dt phb lvl p) =
     (case l_boss lvl of None \<Rightarrow> p
      | Some b \<Rightarrow> boss_collide phb (fst (boss_update dt p b)) p)"
  by (simp add: boss_pass_def boss_contact_def boss_tick_def case_prod_beta split: option.splits)

lemma boss_pass_vitals: "boss_vitals (fst (boss_pass dt phb lvl p)) = boss_vitals lvl"
  by (simp add: boss_pass_level boss_vitals_def boss_update_vitals split: option.splits)

lemma boss_update_frame:
  "b_alive (fst (boss_update dt p b)) = b_alive b"
  "b_hp (fst (boss_update dt p b)) = b_hp b"
  "b_y (fst (boss_update dt p b)) = b_y b"
  "b_w (fst (boss_update dt p b)) = b_w b"
  "b_h (fst (boss_update dt p b)) = b_h b"
  "b_x (fst (boss_update dt p b)) = b_x (fst (boss_update dt q b))"
  by (simp_all add: boss_update_def Let_def boss_patrol_def)

lemma boss_update_aabb:
  "boss_getAabb (fst (boss_update dt p b)) = boss_getAabb (fst (boss_update dt q b))"
  using boss_update_frame(6) [of dt p b q] by (simp add: boss_getAabb_def boss_update_frame(3-5))

lemma bullet_on_boss_update:
  "bullet_on_boss w (fst (boss_update dt p b)) bu = bullet_on_boss w (fst (boss_update dt q b)) bu"
  by (simp add: bullet_on_boss_def boss_update_frame(1) boss_update_aabb [of dt p b q])

lemma boss_takeHit_place: "b_x (boss_takeHit k b) = b_x b" "b_y (boss_takeHit k b) = b_y b"
  by (simp_all add: boss_takeHit_def Let_def)

lemma bullet_keep_miss:
  "\<forall>bo. k_boss st = Some bo \<longrightarrow> \<not> bullet_on_boss w bo bu \<Longrightarrow>
   k_boss (snd (bullet_keep w bu st)) = k_boss st"
  by (auto simp: bullet_keep_def bullet_on_boss_def bullet_box_def Let_def split: option.splits)

lemma bullet_keep_hit:
  "hit_first_enemy (bullet_box bu) (k_enemies st) = None \<Longrightarrow> k_boss st = Some b \<Longrightarrow>
   bullet_on_boss w b bu \<Longrightarrow>
   bullet_keep w bu st =
     (False, st\<lparr> k_boss := Some (boss_takeHit 1 b), k_player := addComboScore 150 (k_player st) \<rparr>)"
  by (simp add: bullet_keep_def bullet_on_boss_def bullet_box_def Let_def)

lemma bullet_keep_place:
  "map_option (\<lambda>b. (b_x b, b_y b)) (k_boss (snd (bullet_keep w bu st)))
     = map_option (\<lambda>b. (b_x b, b_y b)) (k_boss st)"
  by (simp add: bullet_keep_def Let_def boss_takeHit_place split: option.splits)

lemma bullets_loop_miss:
  "\<forall>bu\<in>set bus. \<forall>bo. k_boss st = Some bo \<longrightarrow> \<not> bullet_on_boss w bo bu \<Longrightarrow>
   k_boss (snd (filter_each (bullet_keep w) bus st)) = k_boss st"
proof (induction bus arbitrary: st)
  case Nil
  then show ?case by simp
next
  case (Cons bu bus)
  have 1: "k_boss (snd (bullet_keep w bu st)) = k_boss st"
    using Cons.prems by (intro bullet_keep_miss) simp
  have "k_boss (snd (filter_each (bullet_keep w) bus (snd (bullet_keep w bu st))))
      = k_boss (snd (bullet_keep w bu st))"
    using Cons.prems by (intro Cons.IH) (simp add: 1)
  then show ?case by (simp add: case_prod_beta 1)
qed

lemma bullets_loop_place:
  "map_option (\<lambda>b. (b_x b, b_y b)) (k_boss (snd (filter_each (bullet_keep w) bus st)))
     = map_option (\<lambda>b. (b_x b, b_y b)) (k_boss st)"
  using filter_each_state [of "\<lambda>s. map_option (\<lambda>b. (b_x b, b_y b)) (k_boss s)
      = map_option (\<lambda>b. (b_x b, b_y b)) (k_boss st)" "bullet_keep w" st bus]
  by (simp add: bullet_keep_place)

lemma bullets_pass_boss:
  "l_boss (fst (bullets_pass dt fs lvl p)) =
     k_boss (snd (filter_each (bullet_keep (l_width lvl)) (map (bullet_move dt fs) (bullets lvl))
       \<lparr> k_enemies = enemies lvl, k_boss = l_boss lvl, k_player = p, k_progress = l_progress lvl \<rparr>))"
  by (simp add: bullets_pass_def case_prod_beta)

lemma boss_pass_fields:
  "fst (boss_pass dt phb lvl p) = boss_tick dt lvl p"
  "l_boss (boss_tick dt lvl p) = map_option (\<lambda>b. fst (boss_update dt p b)) (l_boss lvl)"
  "bullets (boss_tick dt lvl p) = bullets lvl" "l_width (boss_tick dt lvl p) = l_width lvl"
  by (simp_all add: boss_pass_def boss_contact_def boss_tick_def case_prod_beta split: option.splits)

lemma boss_place_tick: "boss_place (boss_tick dt lvl p) = boss_place (boss_tick dt lvl q)"
  using boss_update_frame(6) [of dt p _ q]
  by (cases "l_boss lvl") (simp_all add: boss_place_def boss_pass_fields(2) boss_update_frame(3))

text \<open>The boss, the bullets and the width of the level through the phases of the tick.\<close>

lemma Level_update_boss:
  obtains p7 st where
    "l_boss (fst (Level_update dt t lvl p)) =
       k_boss (snd (filter_each (bullet_keep (l_width lvl)) (map (bullet_move dt (dt * 60)) (bullets lvl)) st))"
    "k_boss st = l_boss (boss_tick dt lvl p7)"
proof -
  obtain l1 p1 l2 p2 l3 p3 l4 p4 l5 p5 l6 p6 l7 p7 l8 p8 l9 p9 l10 p10 l11 p11 where
    e: "springs_pass dt (getHitbox p) (progress_clock dt t p lvl) p = (l1, p1)"
    "boxes_pass dt (dt * 60) (getHitbox p) l1 p1 = (l2, p2)"
    "coins_pass dt (r_x (getHitbox p) + r_w (getHitbox p) / 2) (r_y (getHitbox p) + r_h (getHitbox p) / 2) l2 p2 = (l3, p3)"
    "magnets_pass dt (r_x (getHitbox p) + r_w (getHitbox p) / 2) (r_y (getHitbox p) + r_h (getHitbox p) / 2) l3 p3 = (l4, p4)"
    "powers_pass dt (getHitbox p) l4 p4 = (l5, p5)"
    "fruits_pass dt (getHitbox p) l5 p5 = (l6, p6)"
    "enemies_pass dt (getHitbox p) l6 p6 = (l7, p7)"
    "boss_pass dt (getHitbox p) l7 p7 = (l8, p8)"
    "attacks_pass dt (dt * 60) (getHitbox p) l8 p8 = (l9, p9)"
    "bullets_pass dt (dt * 60) l9 p9 = (l10, p10)"
    "boss_defeat l10 p10 = (l11, p11)"
    "Level_update dt t lvl p = tasks_pass l11 p11"
    by (rule Level_update_chain)
  let ?same = "\<lambda>a b. l_boss b = l_boss a \<and> bullets b = bullets a \<and> l_width b = l_width a"
  have 0: "?same lvl (progress_clock dt t p lvl)" by (simp add: progress_clock_def Let_def)
  have 1: "?same lvl l1" using e(1) 0 by (auto simp: springs_pass_def case_prod_beta)
  have 2: "?same lvl l2" using e(2) 1 by (auto simp: boxes_pass_def case_prod_beta)
  have 3: "?same lvl l3" using e(3) 2 by (auto simp: coins_pass_def Let_def case_prod_beta)
  have 4: "?same lvl l4" using e(4) 3 by (auto simp: magnets_pass_def case_prod_beta)
  have 5: "?same lvl l5" using e(5) 4 by (auto simp: powers_pass_def case_prod_beta)
  have 6: "?same lvl l6" using e(6) 5 by (auto simp: fruits_pass_def case_prod_beta)
  have 7: "?same lvl l7" using e(7) 6 by (auto simp: enemies_pass_def case_prod_beta)
  have l8: "l8 = boss_tick dt l7 p7" using e(8) boss_pass_fields(1) [of dt "getHitbox p" l7 p7] by simp
  have "l_boss (boss_tick dt l7 p7) = l_boss (boss_tick dt lvl p7)"
    using 7 by (simp add: boss_pass_fields(2))
  then have 8: "l_boss l8 = l_boss (boss_tick dt lvl p7)" "bullets l8 = bullets lvl" "l_width l8 = l_width lvl"
    using 7 by (simp_all add: l8 boss_pass_fields)
  have 9: "l_boss l9 = l_boss (boss_tick dt lvl p7)" "bullets l9 = bullets lvl" "l_width l9 = l_width lvl"
    using e(9) 8 by (auto simp: attacks_pass_def case_prod_beta)
  define st where "st = \<lparr> k_enemies = enemies l9, k_boss = l_boss l9, k_player = p9, k_progress = l_progress l9 \<rparr>"
  have 10: "l_boss l10 = k_boss (snd (filter_each (bullet_keep (l_width lvl))
      (map (bullet_move dt (dt * 60)) (bullets lvl)) st))"
    using bullets_pass_boss [of dt "dt * 60" l9 p9] e(10) by (simp add: 9 st_def)
  have 11: "l_boss l11 = l_boss l10" using e(11)
    by (auto simp: boss_defeat_def Let_def split: option.splits if_splits)
  have "l_boss (fst (tasks_pass l11 p11)) = l_boss l11" by (simp add: tasks_pass_def Let_def)
  then have a: "l_boss (fst (Level_update dt t lvl p)) = k_boss (snd (filter_each (bullet_keep (l_width lvl))
      (map (bullet_move dt (dt * 60)) (bullets lvl)) st))"
    unfolding e(12) by (simp add: 10 11)
  have b: "k_boss st = l_boss (boss_tick dt lvl p7)" by (simp add: st_def 9)
  show thesis using that [OF a b] .
qed

lemma Level_update_boss_place: "boss_place (fst (Level_update dt t lvl p)) = boss_place (boss_tick dt lvl q)"
proof -
  obtain p7 st where
    a: "l_boss (fst (Level_update dt t lvl p)) =
       k_boss (snd (filter_each (bullet_keep (l_width lvl)) (map (bullet_move dt (dt * 60)) (bullets lvl)) st))"
    and b: "k_boss st = l_boss (boss_tick dt lvl p7)"
    by (rule Level_update_boss)
  have "boss_place (fst (Level_update dt t lvl p)) = boss_place (boss_tick dt lvl p7)"
    unfolding boss_place_def a bullets_loop_place b ..
  then show ?thesis using boss_place_tick [of dt lvl p7 q] by simp
qed

lemma Level_update_boss_vitals:
  assumes "bullets_miss_boss dt p lvl"
  shows "boss_vitals (fst (Level_update dt t lvl p)) = boss_vitals lvl"
proof -
  obtain p7 st where
    a: "l_boss (fst (Level_update dt t lvl p)) =
       k_boss (snd (filter_each (bullet_keep (l_width lvl)) (map (bullet_move dt (dt * 60)) (bullets lvl)) st))"
    and b: "k_boss st = l_boss (boss_tick dt lvl p7)"
    by (rule Level_update_boss)
  have "\<forall>bu\<in>set (map (bullet_move dt (dt * 60)) (bullets lvl)).
          \<forall>bo. k_boss st = Some bo \<longrightarrow> \<not> bullet_on_boss (l_width lvl) bo bu"
    using assms bullet_on_boss_update [of "l_width lvl" dt p7 _ _ p]
    by (auto simp: bullets_miss_boss_def b boss_pass_fields(2) list_all_iff split: option.splits)
  from bullets_loop_miss [OF this]
  have "l_boss (fst (Level_update dt t lvl p)) = l_boss (boss_tick dt lvl p7)"
    by (simp add: a b)
  then show ?thesis
    by (cases "l_boss lvl") (simp_all add: boss_vitals_def boss_pass_fields(2) boss_update_frame)
qed

lemma sample_boss_fields:
  "b_alive sample_boss" "b_hp sample_boss = 10"
  "boss_getAabb sample_boss = \<lparr> r_x = 952, r_y = 204, r_w = 96, r_h = 96 \<rparr>"
  by (simp_all add: sample_boss_def new_boss_def boss_getAabb_def)

lemma stomping_hitbox: "getHitbox stomping_player = \<lparr> r_x = 992, r_y = 178, r_w = 16, r_h = 28 \<rparr>"
  by (simp add: getHitbox_def rectFromCenterBottom_def stomping_player_def new_player_def)

lemma boss_level_fields:
  "l_boss boss_level = Some sample_boss" "bullets boss_level = [stray_bullet]"
  "l_width boss_level = 6200"
  by (simp_all add: boss_level_def new_level_def)

lemma stray_bullet_misses: "bullets_miss_boss (1 / 60) stomping_player boss_level"
  by (simp add: bullets_miss_boss_def boss_level_fields bullet_on_boss_def bullet_box_def
      bullet_move_def stray_bullet_def aabbIntersects_def boss_getAabb_def boss_update_def boss_patrol_def sample_boss_def new_boss_def
      new_player_def Let_def countdown_def)

lemma stomp_tick:
  "snd (Level_update (1 / 60) 0 boss_level stomping_player)
     = stomping_player\<lparr> vy := - 5, grounded := False \<rparr>"
  unfolding Level_update_def stomping_hitbox
  by (simp add: Let_def boss_level_def new_level_def progress_clock_def springs_pass_def boxes_pass_def
      coins_pass_def magnets_pass_def powers_pass_def fruits_pass_def enemies_pass_def boss_pass_def
      boss_tick_def boss_contact_def boss_collide_def attacks_pass_def bullets_pass_def boss_defeat_def
      tasks_pass_def boss_update_def boss_patrol_def countdown_def boss_getAabb_def sample_boss_def
      new_boss_def stray_bullet_def bullet_move_def bullet_keep_def aabbIntersects_def
      stomping_player_def new_player_def no_spawn_def js_rem_def)

text \<open>
  Claim C6. The contact block of the tick, which follows \<^verbatim>\<open>Boss.update\<close>, writes the
  player only: on a stomp (overlap with the living boss while falling from above) it
  sets \<open>vy\<close> to -5 and \<open>grounded\<close> to false, and on a stomp or any other contact the level,
  and with it the boss's health, alive flag and position, is what it was. The whole boss
  block leaves health and alive flag unchanged, and the position it leaves, like the
  position after the whole tick of \<^verbatim>\<open>Level.update\<close>, is the one \<^verbatim>\<open>Boss.update\<close> gives for
  any player: the boss's own patrol, which runs in every tick, is all that moves it.
  Over a whole tick, for every player, the boss's health and alive flag are unchanged
  unless one of the level's bullets, once moved, is live, inside the bounds, and overlaps
  the living boss: in the bullet filter a bullet that fails that test leaves the boss as
  it is, and a bullet that passes it with no enemy in its way takes one health.
\<close>

theorem boss_only_bullets:
  "(l_boss lvl = Some b \<and> b_alive b \<and> aabbIntersects phb (boss_getAabb b) \<and> vy p > 0 \<and>
    r_y phb + r_h phb - vy p \<le> r_y (boss_getAabb b) + 8 \<longrightarrow>
      boss_contact phb lvl p = (lvl, p\<lparr> vy := - 5, grounded := False \<rparr>) \<and>
      boss_vitals (fst (boss_contact phb lvl p)) = boss_vitals lvl \<and>
      boss_place (fst (boss_contact phb lvl p)) = boss_place lvl) \<and>
   fst (boss_contact phb lvl p) = lvl \<and>
   boss_vitals (fst (boss_pass dt phb lvl p)) = boss_vitals lvl \<and>
   boss_place (fst (boss_pass dt phb lvl p)) = boss_place (boss_tick dt lvl q) \<and>
   boss_place (fst (Level_update dt t lvl p)) = boss_place (boss_tick dt lvl q) \<and>
   (bullets_miss_boss dt p lvl \<longrightarrow> boss_vitals (fst (Level_update dt t lvl p)) = boss_vitals lvl) \<and>
   ((\<forall>bo. k_boss st = Some bo \<longrightarrow> \<not> bullet_on_boss w bo bu) \<longrightarrow>
      k_boss (snd (bullet_keep w bu st)) = k_boss st) \<and>
   (hit_first_enemy (bullet_box bu) (k_enemies st) = None \<and> k_boss st = Some b \<and>
    bullet_on_boss w b bu \<longrightarrow>
      k_boss (snd (bullet_keep w bu st)) = Some (boss_takeHit 1 b) \<and>
      b_hp (boss_takeHit 1 b) = max 0 (b_hp b - 1) \<and> \<not> fst (bullet_keep w bu st))"
proof -
  have a: "boss_contact phb lvl p = (lvl, p\<lparr> vy := - 5, grounded := False \<rparr>) \<and>
      boss_vitals (fst (boss_contact phb lvl p)) = boss_vitals lvl \<and>
      boss_place (fst (boss_contact phb lvl p)) = boss_place lvl"
    if "l_boss lvl = Some b \<and> b_alive b \<and> aabbIntersects phb (boss_getAabb b) \<and> vy p > 0 \<and>
        r_y phb + r_h phb - vy p \<le> r_y (boss_getAabb b) + 8"
    using that by (simp add: boss_contact_def boss_collide_def Let_def)
  have b: "fst (boss_contact phb lvl p) = lvl"
    by (simp add: boss_contact_def split: option.splits)
  have c: "boss_vitals (fst (boss_pass dt phb lvl p)) = boss_vitals lvl"
    by (rule boss_pass_vitals)
  have d: "boss_place (fst (boss_pass dt phb lvl p)) = boss_place (boss_tick dt lvl q)"
    unfolding boss_pass_fields(1) by (rule boss_place_tick)
  have e: "boss_place (fst (Level_update dt t lvl p)) = boss_place (boss_tick dt lvl q)"
    by (rule Level_update_boss_place)
  have f: "boss_vitals (fst (Level_update dt t lvl p)) = boss_vitals lvl" if "bullets_miss_boss dt p lvl"
    using that by (rule Level_update_boss_vitals)
  have g: "k_boss (snd (bullet_keep w bu st)) = k_boss st"
    if "\<forall>bo. k_boss st = Some bo \<longrightarrow> \<not> bullet_on_boss w bo bu"
    using that by (rule bullet_keep_miss)
  have h: "k_boss (snd (bullet_keep w bu st)) = Some (boss_takeHit 1 b) \<and>
      b_hp (boss_takeHit 1 b) = max 0 (b_hp b - 1) \<and> \<not> fst (bullet_keep w bu st)"
    if "hit_first_enemy (bullet_box bu) (k_enemies st) = None \<and> k_boss st = Some b \<and>
        bullet_on_boss w b bu"
  proof -
    from that have "bullet_keep w bu st =
        (False, st\<lparr> k_boss := Some (boss_takeHit 1 b), k_player := addComboScore 150 (k_player st) \<rparr>)"
      by (simp add: bullet_keep_hit)
    moreover from that have "b_alive b" by (simp add: bullet_on_boss_def)
    ultimately show ?thesis by (simp add: boss_takeHit_def Let_def)
  qed
  show ?thesis using a b c d e f g h by blast
qed

text \<open>
  A player landing on the head of the boss of level 0 while a bullet flies far from it:
  the tick bounces the player and leaves the boss at ten health. A bullet in the boss's
  box takes one health, the far bullet none.
\<close>

theorem boss_only_bullets_witness:
  "l_boss boss_level = Some sample_boss \<and> b_alive sample_boss \<and>
   aabbIntersects (getHitbox stomping_player) (boss_getAabb sample_boss) \<and>
   vy stomping_player > 0 \<and>
   r_y (getHitbox stomping_player) + r_h (getHitbox stomping_player) - vy stomping_player
     \<le> r_y (boss_getAabb sample_boss) + 8 \<and>
   boss_contact (getHitbox stomping_player) boss_level stomping_player
     = (boss_level, stomping_player\<lparr> vy := - 5, grounded := False \<rparr>) \<and>
   boss_vitals (fst (boss_contact (getHitbox stomping_player) boss_level stomping_player)) = Some (10, True) \<and>
   boss_place (fst (boss_contact (getHitbox stomping_player) boss_level stomping_player)) = Some (1000, 300) \<and>
   bullets boss_level = [stray_bullet] \<and>
   bullets_miss_boss (1 / 60) stomping_player boss_level \<and>
   vy (snd (Level_update (1 / 60) 0 boss_level stomping_player)) = - 5 \<and>
   boss_vitals (fst (Level_update (1 / 60) 0 boss_level stomping_player)) = Some (10, True) \<and>
   boss_place (fst (Level_update (1 / 60) 0 boss_level stomping_player))
     = boss_place (boss_tick (1 / 60) boss_level (new_player 80 220)) \<and>
   hit_first_enemy (bullet_box sample_bullet) (k_enemies sample_combat) = None \<and>
   k_boss sample_combat = Some sample_boss \<and> bullet_on_boss 6200 sample_boss sample_bullet \<and>
   map_option b_hp (k_boss (snd (bullet_keep 6200 sample_bullet sample_combat))) = Some 9 \<and>
   \<not> bullet_on_boss 6200 sample_boss stray_bullet \<and>
   map_option b_hp (k_boss (snd (bullet_keep 6200 stray_bullet sample_combat))) = Some 10"
proof -
  let ?phb = "getHitbox stomping_player"
  have h1: "l_boss boss_level = Some sample_boss \<and> b_alive sample_boss \<and>
      aabbIntersects ?phb (boss_getAabb sample_boss) \<and> vy stomping_player > 0 \<and>
      r_y ?phb + r_h ?phb - vy stomping_player \<le> r_y (boss_getAabb sample_boss) + 8"
    unfolding stomping_hitbox sample_boss_fields(3)
    by (simp add: sample_boss_fields boss_level_fields aabbIntersects_def stomping_player_def)
  have h2: "bullets_miss_boss (1 / 60) stomping_player boss_level" by (rule stray_bullet_misses)
  have h3: "hit_first_enemy (bullet_box sample_bullet) (k_enemies sample_combat) = None \<and>
      k_boss sample_combat = Some sample_boss \<and> bullet_on_boss 6200 sample_boss sample_bullet"
    unfolding bullet_on_boss_def sample_boss_fields(3)
    by (simp add: sample_combat_def sample_bullet_def sample_boss_fields aabbIntersects_def bullet_box_def)
  have h4: "\<not> bullet_on_boss 6200 sample_boss stray_bullet"
    unfolding bullet_on_boss_def sample_boss_fields(3)
    by (simp add: stray_bullet_def aabbIntersects_def bullet_box_def)
  then have h5: "\<forall>bo. k_boss sample_combat = Some bo \<longrightarrow> \<not> bullet_on_boss 6200 bo stray_bullet"
    by (simp add: sample_combat_def)
  note T = boss_only_bullets [of boss_level sample_boss ?phb stomping_player "1 / 60" "new_player 80 220" 0
      sample_combat 6200 sample_bullet]
  note T2 = boss_only_bullets [of boss_level sample_boss ?phb stomping_player "1 / 60" "new_player 80 220" 0
      sample_combat 6200 stray_bullet]
  from T h1 have a: "boss_contact ?phb boss_level stomping_player
      = (boss_level, stomping_player\<lparr> vy := - 5, grounded := False \<rparr>)"
    and a1: "boss_vitals (fst (boss_contact ?phb boss_level stomping_player)) = boss_vitals boss_level"
    and a2: "boss_place (fst (boss_contact ?phb boss_level stomping_player)) = boss_place boss_level"
    by blast+
  from T h2 have c: "boss_vitals (fst (Level_update (1 / 60) 0 boss_level stomping_player))
      = boss_vitals boss_level" by blast
  from T have p: "boss_place (fst (Level_update (1 / 60) 0 boss_level stomping_player))
      = boss_place (boss_tick (1 / 60) boss_level (new_player 80 220))" by blast
  from T h3 have d: "k_boss (snd (bullet_keep 6200 sample_bullet sample_combat))
      = Some (boss_takeHit 1 sample_boss)"
    and d': "b_hp (boss_takeHit 1 sample_boss) = max 0 (b_hp sample_boss - 1)" by blast+
  from T2 h5 have m: "k_boss (snd (bullet_keep 6200 stray_bullet sample_combat)) = k_boss sample_combat"
    by blast
  have e: "boss_vitals boss_level = Some (10, True)"
    by (simp add: boss_vitals_def boss_level_fields sample_boss_fields)
  have k: "k_boss sample_combat = Some sample_boss" by (simp add: sample_combat_def)
  have pl: "boss_place boss_level = Some (1000, 300)"
    by (simp add: boss_place_def boss_level_fields sample_boss_def new_boss_def)
  show ?thesis using h1 h2 h3 h4 p unfolding a1 a2 a c d e m k pl
    by (simp add: d' e pl sample_boss_fields boss_level_fields stomp_tick)
qed

end
